theory Spec2Isabelle
  imports Complex_Main "HOL-Library.Word" "HOL-Library.Sublist"
begin

section \<open>Data model of database/searches.go\<close>

subsection \<open>Go values the search code handles\<close>

text \<open>
  A \<^verbatim>\<open>time.Time\<close> is an instant (nanoseconds since the Unix epoch) together with the
  location it is displayed in.  \<^verbatim>\<open>Before\<close> and \<^verbatim>\<open>After\<close> compare instants only.
  A \<^verbatim>\<open>time.Duration\<close> is a number of nanoseconds.
\<close>

record Time =
  unix_nano :: int
  loc :: string

definition Add :: "Time \<Rightarrow> int \<Rightarrow> Time" where
  "Add t d = t\<lparr>unix_nano := unix_nano t + d\<rparr>"

definition UTC :: "Time \<Rightarrow> Time" where
  "UTC t = t\<lparr>loc := ''UTC''\<rparr>"

definition time_Before :: "Time \<Rightarrow> Time \<Rightarrow> bool" where
  "time_Before t u = (unix_nano t < unix_nano u)"

definition time_After :: "Time \<Rightarrow> Time \<Rightarrow> bool" where
  "time_After t u = (unix_nano t > unix_nano u)"

definition Hour :: int where
  "Hour = 3600000000000"

text \<open>\<^verbatim>\<open>const defaultSearchPeriod time.Duration = 39600 * time.Hour\<close> (commented "10 years").\<close>

definition defaultSearchPeriod :: int where
  "defaultSearchPeriod = 39600 * Hour"

text \<open>
  A \<^verbatim>\<open>float64\<close> is the number it denotes, or one of the three special values; the type
  has every rational, so more values than there are floats.  The code never computes with
  floats: it stores constants and parsed values, compares one with zero, prints and
  converts.  Negative zero compares equal to zero and is not kept apart.
\<close>

datatype float64 = Finite rat | PosInf | NegInf | NaN

definition MAXFLOAT64 :: float64 where
  "MAXFLOAT64 = Finite 9007199254740991"

text \<open>The values that are bound to the placeholders of a query (\<^verbatim>\<open>[]interface{}\<close>).\<close>

datatype val =
    VTime Time
  | VFloat float64
  | VString string
  | VBool bool
  | VUint64 "64 word"

text \<open>
  What the code takes from the Go library and from package \<^verbatim>\<open>mig\<close>, as parameters:
  \<^verbatim>\<open>strconv.ParseFloat(s, 64)\<close> (\<open>Inl\<close> the error), \<^verbatim>\<open>t.Format(time.RFC3339)\<close>,
  the \<^verbatim>\<open>%.0f\<close> verb of \<^verbatim>\<open>fmt.Sprintf\<close>, the conversion \<^verbatim>\<open>uint64(x)\<close> of a
  float, and the constant \<^verbatim>\<open>mig.StatusSuccess\<close>.
\<close>

record go_env =
  ParseFloat :: "string \<Rightarrow> string + float64"
  FormatRFC3339 :: "Time \<Rightarrow> string"
  Fmt0f :: "float64 \<Rightarrow> string"
  Uint64 :: "float64 \<Rightarrow> 64 word"
  StatusSuccess :: string

subsection \<open>SearchParameters\<close>

record SearchParameters =
  ActionID :: string
  ActionName :: string
  After :: Time
  AgentID :: string
  AgentName :: string
  Before :: Time
  CommandID :: string
  FoundAnything :: bool
  InvestigatorID :: string
  InvestigatorName :: string
  Limit :: float64
  Offset :: float64
  Report :: string
  Status :: string
  Target :: string
  ThreatFamily :: string
  Type :: string

text \<open>The identifier sentinel is the string of the one character U+221E, three bytes in UTF-8.\<close>

definition infinity :: string where
  "infinity = [CHR 0xE2, CHR 0x88, CHR 0x9E]"

text \<open>
  \<^verbatim>\<open>NewSearchParameters\<close> reads the clock twice: \<open>now1\<close> for \<^verbatim>\<open>Before\<close>, then \<open>now2\<close>
  for \<^verbatim>\<open>After\<close>.  The fields it does not assign keep Go's zero values.
\<close>

definition NewSearchParameters :: "Time \<Rightarrow> Time \<Rightarrow> SearchParameters" where
  "NewSearchParameters now1 now2 =
     \<lparr>ActionID = infinity,
      ActionName = ''%'',
      After = UTC (Add now2 (- defaultSearchPeriod)),
      AgentID = infinity,
      AgentName = ''%'',
      Before = UTC (Add now1 defaultSearchPeriod),
      CommandID = infinity,
      FoundAnything = False,
      InvestigatorID = infinity,
      InvestigatorName = ''%'',
      Limit = Finite 100,
      Offset = Finite 0,
      Report = [],
      Status = ''%'',
      Target = [],
      ThreatFamily = ''%'',
      Type = ''action''\<rparr>"

subsection \<open>String()\<close>

definition String :: "go_env \<Rightarrow> SearchParameters \<Rightarrow> string" where
  "String env p =
    (let query = ''type='' @ Type p @ ''&after='' @ FormatRFC3339 env (After p)
                   @ ''&before='' @ FormatRFC3339 env (Before p);
         query = (if AgentName p \<noteq> ''%'' then query @ ''&agentname='' @ AgentName p else query);
         query = (if AgentID p \<noteq> infinity then query @ ''&agentid='' @ AgentID p else query);
         query = (if ActionName p \<noteq> ''%'' then query @ ''&actionname='' @ ActionName p else query);
         query = (if ActionID p \<noteq> infinity then query @ ''&actionid='' @ ActionID p else query);
         query = (if CommandID p \<noteq> infinity then query @ ''&commandid='' @ CommandID p else query);
         query = (if InvestigatorID p \<noteq> infinity
                  then query @ ''&investigatorid='' @ InvestigatorID p else query);
         query = (if InvestigatorName p \<noteq> ''%''
                  then query @ ''&investigatorname='' @ InvestigatorName p else query);
         query = (if ThreatFamily p \<noteq> ''%''
                  then query @ ''&threatfamily='' @ ThreatFamily p else query);
         query = (if Status p \<noteq> ''%'' then query @ ''&status='' @ Status p else query);
         query = query @ ''&limit='' @ Fmt0f env (Limit p);
         query = (if Offset p \<noteq> Finite 0 then query @ ''&offset='' @ Fmt0f env (Offset p)
                  else query)
     in query)"

subsection \<open>The range resolver\<close>

record IDs =
  minActionID :: float64
  maxActionID :: float64
  minCommandID :: float64
  maxCommandID :: float64
  minAgentID :: float64
  maxAgentID :: float64
  minInvID :: float64
  maxInvID :: float64

text \<open>
  \<^verbatim>\<open>makeIDsFromParams\<close> returns at the first filter that does not parse; every caller
  drops the partly filled \<^verbatim>\<open>ids\<close> it gets with the error, so the error is all that is kept.
\<close>

definition zeroIDs :: IDs where
  "zeroIDs = \<lparr>minActionID = Finite 0, maxActionID = Finite 0,
              minCommandID = Finite 0, maxCommandID = Finite 0,
              minAgentID = Finite 0, maxAgentID = Finite 0,
              minInvID = Finite 0, maxInvID = Finite 0\<rparr>"

definition makeIDsFromParams :: "go_env \<Rightarrow> SearchParameters \<Rightarrow> string + IDs" where
  "makeIDsFromParams env p =
    (let ids = zeroIDs\<lparr>minActionID := Finite 0, maxActionID := MAXFLOAT64\<rparr> in
     case (if ActionID p \<noteq> infinity
           then (case ParseFloat env (ActionID p) of
                   Inl err \<Rightarrow> Inl err
                 | Inr v \<Rightarrow> Inr (ids\<lparr>minActionID := v, maxActionID := v\<rparr>))
           else Inr ids) of
       Inl err \<Rightarrow> Inl err
     | Inr ids \<Rightarrow>
    (let ids = ids\<lparr>minCommandID := Finite 0, maxCommandID := MAXFLOAT64\<rparr> in
     case (if CommandID p \<noteq> infinity
           then (case ParseFloat env (CommandID p) of
                   Inl err \<Rightarrow> Inl err
                 | Inr v \<Rightarrow> Inr (ids\<lparr>minCommandID := v, maxCommandID := v\<rparr>))
           else Inr ids) of
       Inl err \<Rightarrow> Inl err
     | Inr ids \<Rightarrow>
    (let ids = ids\<lparr>minAgentID := Finite 0, maxAgentID := MAXFLOAT64\<rparr> in
     case (if AgentID p \<noteq> infinity
           then (case ParseFloat env (AgentID p) of
                   Inl err \<Rightarrow> Inl err
                 | Inr v \<Rightarrow> Inr (ids\<lparr>minAgentID := v, maxAgentID := v\<rparr>))
           else Inr ids) of
       Inl err \<Rightarrow> Inl err
     | Inr ids \<Rightarrow>
    (let ids = ids\<lparr>minInvID := Finite 0, maxInvID := MAXFLOAT64\<rparr> in
     if InvestigatorID p \<noteq> infinity
     then (case ParseFloat env (InvestigatorID p) of
             Inl err \<Rightarrow> Inl err
           | Inr v \<Rightarrow> Inr (ids\<lparr>minInvID := v, maxInvID := v\<rparr>))
     else Inr ids))))"

section \<open>Query text and bound values\<close>

text \<open>
  The text of a query is kept as the list of the pieces it is concatenated from: literal
  text, and the positional placeholders \<^verbatim>\<open>$%d\<close> with the number printed into them.
  \<open>render\<close> gives the string the driver receives.
\<close>

datatype token = Lit string | Slot nat

fun decimal :: "nat \<Rightarrow> string" where
  "decimal n = (if n < 10 then [char_of (48 + n)] else decimal (n div 10) @ [char_of (48 + n mod 10)])"

fun render_token :: "token \<Rightarrow> string" where
  "render_token (Lit s) = s"
| "render_token (Slot n) = CHR ''$'' # decimal n"

definition render :: "token list \<Rightarrow> string" where
  "render ts = concat (map render_token ts)"

definition NL :: string where
  "NL = [CHR 0x0A]"

definition TAB :: string where
  "TAB = [CHR 0x09]"

text \<open>
  The local variables of a builder: the predicate text so far, the values to bind, the
  number of placeholders used, and the join flags (each search declares three of them).
\<close>

record qstate =
  where_text :: "token list"
  vals :: "val list"
  valctr :: nat
  joinAction :: bool
  joinAgent :: bool
  joinCommand :: bool
  joinInvestigator :: bool

definition init :: qstate where
  "init = \<lparr>where_text = [], vals = [], valctr = 0, joinAction = False, joinAgent = False,
            joinCommand = False, joinInvestigator = False\<rparr>"

text \<open>\<^verbatim>\<open>if valctr > 0 { where += " AND " }\<close>\<close>

definition add_and :: "qstate \<Rightarrow> qstate" where
  "add_and s = (if valctr s > 0 then s\<lparr>where_text := where_text s @ [Lit '' AND '']\<rparr> else s)"

text \<open>
  \<^verbatim>\<open>where += fmt.Sprintf(tmpl, valctr+1, ...); vals = append(vals, vs...); valctr += k\<close>
\<close>

definition emit :: "(nat \<Rightarrow> token list) \<Rightarrow> val list \<Rightarrow> nat \<Rightarrow> qstate \<Rightarrow> qstate" where
  "emit tmpl vs k s =
     s\<lparr>where_text := where_text s @ tmpl (valctr s), vals := vals s @ vs, valctr := valctr s + k\<rparr>"

definition guarded :: "bool \<Rightarrow> (qstate \<Rightarrow> qstate) \<Rightarrow> qstate \<Rightarrow> qstate" where
  "guarded c f s = (if c then f s else s)"

definition setAction :: "qstate \<Rightarrow> qstate" where
  "setAction s = s\<lparr>joinAction := True\<rparr>"

definition setAgent :: "qstate \<Rightarrow> qstate" where
  "setAgent s = s\<lparr>joinAgent := True\<rparr>"

definition setCommand :: "qstate \<Rightarrow> qstate" where
  "setCommand s = s\<lparr>joinCommand := True\<rparr>"

definition setInvestigator :: "qstate \<Rightarrow> qstate" where
  "setInvestigator s = s\<lparr>joinInvestigator := True\<rparr>"

text \<open>The two tests of the time window; \<open>now\<close> is the clock read by the test.\<close>

definition beforeActive :: "Time \<Rightarrow> SearchParameters \<Rightarrow> bool" where
  "beforeActive now p = time_Before (Before p) (Add now (defaultSearchPeriod - Hour))"

definition afterActive :: "Time \<Rightarrow> SearchParameters \<Rightarrow> bool" where
  "afterActive now p = time_After (After p) (Add now (- (defaultSearchPeriod - Hour)))"

text \<open>A query as it is prepared and executed: its text and the values bound to it.\<close>

record built =
  query :: "token list"
  args :: "val list"

definition limit_offset :: "go_env \<Rightarrow> SearchParameters \<Rightarrow> val list" where
  "limit_offset env p = [VUint64 (Uint64 env (Limit p)), VUint64 (Uint64 env (Offset p))]"

subsection \<open>SearchCommands\<close>

text \<open>The literal texts of the templates that span several lines, and of the query tails.\<close>

definition threat_text :: string where
  "threat_text = ''actions.threat#>>'' @ [CHR 0x27] @ ''{family}'' @ [CHR 0x27] @ '' ILIKE ''"

definition foundanything_text1 :: string where
  "foundanything_text1 =
     NL @ TAB @ TAB @ TAB @ ''AND commands.id IN ('' @ TAB
     @ ''SELECT commands.id FROM commands, actions, json_array_elements(commands.results) as r''
     @ NL @ TAB @ TAB @ TAB @ TAB @ TAB @ TAB @ ''WHERE commands.actionid=actions.id''
     @ NL @ TAB @ TAB @ TAB @ TAB @ TAB @ TAB @ ''AND actions.id >= ''"

definition foundanything_text2 :: string where
  "foundanything_text2 =
     NL @ TAB @ TAB @ TAB @ TAB @ TAB @ TAB @ ''AND r#>>'' @ [CHR 0x27]
     @ ''{foundanything}'' @ [CHR 0x27] @ '' = ''"

definition commands_trailer :: string where
  "commands_trailer = '' GROUP BY commands.id, actions.id, agents.id'' @ NL @ TAB @ TAB
                      @ ''ORDER BY commands.starttime DESC LIMIT ''"

definition actions_trailer :: string where
  "actions_trailer = '' GROUP BY actions.id'' @ NL @ TAB @ TAB
                     @ ''ORDER BY actions.validfrom DESC LIMIT ''"

definition agents_trailer :: string where
  "agents_trailer = '' GROUP BY agents.id'' @ NL @ TAB @ TAB
                    @ ''ORDER BY agents.heartbeattime DESC LIMIT ''"

definition investigators_trailer :: string where
  "investigators_trailer = '' GROUP BY investigators.id'' @ NL @ TAB @ TAB
                           @ ''ORDER BY investigators.id ASC LIMIT ''"

definition commands_select :: string where
  "commands_select =
     ''SELECT commands.id, commands.status, commands.results, commands.starttime, commands.finishtime,''
     @ NL @ TAB @ TAB @ TAB
     @ ''actions.id, actions.name, actions.target, actions.description, actions.threat,''
     @ NL @ TAB @ TAB @ TAB
     @ ''actions.operations, actions.validfrom, actions.expireafter, actions.pgpsignatures,''
     @ NL @ TAB @ TAB @ TAB
     @ ''actions.syntaxversion, agents.id, agents.name, agents.version, agents.tags, agents.environment''
     @ NL @ TAB @ TAB @ ''FROM'' @ TAB @ ''commands''
     @ NL @ TAB @ TAB @ TAB @ ''INNER JOIN actions ON ( commands.actionid = actions.id)''
     @ NL @ TAB @ TAB @ TAB @ ''INNER JOIN signatures ON ( actions.id = signatures.actionid )''
     @ NL @ TAB @ TAB @ TAB
     @ ''INNER JOIN investigators ON ( signatures.investigatorid = investigators.id )''
     @ NL @ TAB @ TAB @ TAB @ ''INNER JOIN agents ON ( commands.agentid = agents.id )''
     @ NL @ TAB @ TAB @ ''WHERE ''"

definition foundanything_clause :: "nat \<Rightarrow> token list" where
  "foundanything_clause c =
     [Lit ''commands.status = '', Slot (c + 1),
      Lit foundanything_text1, Slot (c + 2),
      Lit '' AND actions.id <= '', Slot (c + 3),
      Lit foundanything_text2, Slot (c + 4),
      Lit '') '']"

definition threat_clause :: "nat \<Rightarrow> token list" where
  "threat_clause c =
     [Lit threat_text, Slot (c + 1), Lit '' '']"

text \<open>
  The predicates of \<^verbatim>\<open>SearchCommands\<close>, in the order of the source.  The source appends
  them to the variable that already holds \<open>commands_select\<close>; here they are collected
  from the empty text and \<open>SearchCommands_build\<close> puts them behind it.  The clock is read
  once for each test of the time window.
\<close>

definition SearchCommands_where ::
  "go_env \<Rightarrow> Time \<Rightarrow> Time \<Rightarrow> SearchParameters \<Rightarrow> IDs \<Rightarrow> bool \<Rightarrow> qstate" where
  "SearchCommands_where env now1 now2 p ids doFoundAnything =
    (let s = init;
         s = guarded (beforeActive now1 p)
               (emit (\<lambda>c. [Lit ''commands.starttime <= '', Slot (c + 1), Lit '' ''])
                  [VTime (Before p)] 1) s;
         s = guarded (afterActive now2 p)
               (emit (\<lambda>c. [Lit ''commands.starttime >= '', Slot (c + 1), Lit '' ''])
                  [VTime (After p)] 1 \<circ> add_and) s;
         s = guarded (CommandID p \<noteq> infinity)
               (emit (\<lambda>c. [Lit ''commands.id >= '', Slot (c + 1),
                           Lit '' AND commands.id <= '', Slot (c + 2)])
                  [VFloat (minCommandID ids), VFloat (maxCommandID ids)] 2 \<circ> add_and) s;
         s = guarded (Status p \<noteq> ''%'')
               (emit (\<lambda>c. [Lit ''commands.status ILIKE '', Slot (c + 1)])
                  [VString (Status p)] 1 \<circ> add_and) s;
         s = guarded (ActionID p \<noteq> infinity)
               (emit (\<lambda>c. [Lit ''actions.id >= '', Slot (c + 1),
                           Lit '' AND actions.id <= '', Slot (c + 2)])
                  [VFloat (minActionID ids), VFloat (maxActionID ids)] 2 \<circ> add_and) s;
         s = guarded (ActionName p \<noteq> ''%'')
               (emit (\<lambda>c. [Lit ''actions.name ILIKE '', Slot (c + 1)])
                  [VString (ActionName p)] 1 \<circ> add_and) s;
         s = guarded (InvestigatorID p \<noteq> infinity)
               (emit (\<lambda>c. [Lit ''investigators.id >= '', Slot (c + 1),
                           Lit '' AND investigators.id <= '', Slot (c + 2)])
                  [VFloat (minInvID ids), VFloat (maxInvID ids)] 2 \<circ> add_and) s;
         s = guarded (InvestigatorName p \<noteq> ''%'')
               (emit (\<lambda>c. [Lit ''investigators.name ILIKE '', Slot (c + 1)])
                  [VString (InvestigatorName p)] 1 \<circ> add_and) s;
         s = guarded (AgentID p \<noteq> infinity)
               (emit (\<lambda>c. [Lit ''agents.id >= '', Slot (c + 1),
                           Lit '' AND agents.id <= '', Slot (c + 2)])
                  [VFloat (minAgentID ids), VFloat (maxAgentID ids)] 2 \<circ> add_and) s;
         s = guarded (AgentName p \<noteq> ''%'')
               (emit (\<lambda>c. [Lit ''agents.name ILIKE '', Slot (c + 1)])
                  [VString (AgentName p)] 1 \<circ> add_and) s;
         s = guarded doFoundAnything
               (emit foundanything_clause
                  [VString (StatusSuccess env), VFloat (minActionID ids),
                   VFloat (maxActionID ids), VBool (FoundAnything p)] 4 \<circ> add_and) s;
         s = guarded (ThreatFamily p \<noteq> ''%'')
               (emit threat_clause [VString (ThreatFamily p)] 1 \<circ> add_and) s
     in s)"

definition SearchCommands_build ::
  "go_env \<Rightarrow> Time \<Rightarrow> Time \<Rightarrow> SearchParameters \<Rightarrow> IDs \<Rightarrow> bool \<Rightarrow> built" where
  "SearchCommands_build env now1 now2 p ids doFoundAnything =
    (let s = SearchCommands_where env now1 now2 p ids doFoundAnything in
     \<lparr>query = [Lit commands_select] @ where_text s
               @ [Lit commands_trailer, Slot (valctr s + 1),
                  Lit '' OFFSET '', Slot (valctr s + 2), Lit '';''],
      args = vals s @ limit_offset env p\<rparr>)"

subsection \<open>SearchActions\<close>

definition actions_columns :: string where
  "actions_columns =
     ''actions.id, actions.name, actions.target,  actions.description, actions.threat, actions.operations,''
     @ NL @ TAB @ TAB
     @ ''actions.validfrom, actions.expireafter, actions.starttime, actions.finishtime, actions.lastupdatetime,''
     @ NL @ TAB @ TAB
     @ ''actions.status, actions.pgpsignatures, actions.syntaxversion ''"

definition join_signatures_investigators :: string where
  "join_signatures_investigators =
     '' INNER JOIN signatures ON ( actions.id = signatures.actionid )''
     @ NL @ TAB @ TAB @ TAB
     @ ''INNER JOIN investigators ON ( signatures.investigatorid = investigators.id ) ''"

definition SearchActions_where ::
  "Time \<Rightarrow> Time \<Rightarrow> SearchParameters \<Rightarrow> IDs \<Rightarrow> qstate" where
  "SearchActions_where now1 now2 p ids =
    (let s = init;
         s = guarded (beforeActive now1 p)
               (emit (\<lambda>c. [Lit ''actions.expireafter <= '', Slot (c + 1), Lit '' ''])
                  [VTime (Before p)] 1) s;
         s = guarded (afterActive now2 p)
               (emit (\<lambda>c. [Lit ''actions.validfrom >= '', Slot (c + 1), Lit '' ''])
                  [VTime (After p)] 1 \<circ> add_and) s;
         s = guarded (Status p \<noteq> ''%'')
               (emit (\<lambda>c. [Lit ''action.status ILIKE '', Slot (c + 1)])
                  [VString (Status p)] 1 \<circ> add_and) s;
         s = guarded (ActionID p \<noteq> infinity)
               (emit (\<lambda>c. [Lit ''actions.id >= '', Slot (c + 1),
                           Lit '' AND actions.id <= '', Slot (c + 2)])
                  [VFloat (minActionID ids), VFloat (maxActionID ids)] 2 \<circ> add_and) s;
         s = guarded (ActionName p \<noteq> ''%'')
               (emit (\<lambda>c. [Lit ''actions.name ILIKE '', Slot (c + 1)])
                  [VString (ActionName p)] 1 \<circ> add_and) s;
         s = guarded (InvestigatorID p \<noteq> infinity)
               (setInvestigator
                \<circ> emit (\<lambda>c. [Lit ''investigators.id >= '', Slot (c + 1),
                             Lit '' AND investigators.id <= '', Slot (c + 2)])
                    [VFloat (minInvID ids), VFloat (maxInvID ids)] 2 \<circ> add_and) s;
         s = guarded (InvestigatorName p \<noteq> ''%'')
               (setInvestigator
                \<circ> emit (\<lambda>c. [Lit ''investigators.name ILIKE '', Slot (c + 1)])
                    [VString (InvestigatorName p)] 1 \<circ> add_and) s;
         s = guarded (AgentID p \<noteq> infinity)
               (setCommand \<circ> setAgent
                \<circ> emit (\<lambda>c. [Lit ''agents.id >= '', Slot (c + 1),
                             Lit '' AND agents.id <= '', Slot (c + 2)])
                    [VFloat (minAgentID ids), VFloat (maxAgentID ids)] 2 \<circ> add_and) s;
         s = guarded (AgentName p \<noteq> ''%'')
               (setCommand \<circ> setAgent
                \<circ> emit (\<lambda>c. [Lit ''agents.name ILIKE '', Slot (c + 1)])
                    [VString (AgentName p)] 1 \<circ> add_and) s;
         s = guarded (CommandID p \<noteq> infinity)
               (setCommand
                \<circ> emit (\<lambda>c. [Lit ''commands.id >= '', Slot (c + 1),
                             Lit '' AND commands.id <= '', Slot (c + 2)])
                    [VFloat (minCommandID ids), VFloat (maxCommandID ids)] 2 \<circ> add_and) s;
         s = guarded (ThreatFamily p \<noteq> ''%'')
               (emit threat_clause [VString (ThreatFamily p)] 1 \<circ> add_and) s
     in s)"

text \<open>
  The join text is put together between the \<^verbatim>\<open>CommandID\<close> and the \<^verbatim>\<open>ThreatFamily\<close>
  predicate, from flags that the \<^verbatim>\<open>ThreatFamily\<close> predicate does not touch.
\<close>

definition SearchActions_join :: "qstate \<Rightarrow> token list" where
  "SearchActions_join s =
     (if joinCommand s then [Lit ''INNER JOIN commands ON ( commands.actionid = actions.id) ''] else [])
     @ (if joinAgent s then [Lit '' INNER JOIN agents ON ( commands.agentid = agents.id ) ''] else [])
     @ (if joinInvestigator s then [Lit join_signatures_investigators] else [])"

definition SearchActions_build :: "go_env \<Rightarrow> Time \<Rightarrow> Time \<Rightarrow> SearchParameters \<Rightarrow> IDs \<Rightarrow> built" where
  "SearchActions_build env now1 now2 p ids =
    (let s = SearchActions_where now1 now2 p ids in
     \<lparr>query = [Lit ''SELECT '', Lit actions_columns, Lit '' FROM actions '']
               @ SearchActions_join s @ [Lit '' WHERE ''] @ where_text s
               @ [Lit actions_trailer, Slot (valctr s + 1),
                  Lit '' OFFSET '', Slot (valctr s + 2), Lit '';''],
      args = vals s @ limit_offset env p\<rparr>)"

subsection \<open>SearchAgents\<close>

definition agents_columns :: string where
  "agents_columns =
     ''agents.id, agents.name, agents.queueloc, agents.mode,''
     @ NL @ TAB @ TAB
     @ ''agents.version, agents.pid, agents.starttime, agents.destructiontime,''
     @ NL @ TAB @ TAB
     @ ''agents.heartbeattime, agents.status''"

definition SearchAgents_where ::
  "Time \<Rightarrow> Time \<Rightarrow> SearchParameters \<Rightarrow> IDs \<Rightarrow> qstate" where
  "SearchAgents_where now1 now2 p ids =
    (let s = init;
         s = guarded (beforeActive now1 p)
               (emit (\<lambda>c. [Lit ''agents.heartbeattime <= '', Slot (c + 1), Lit '' ''])
                  [VTime (Before p)] 1) s;
         s = guarded (afterActive now2 p)
               (emit (\<lambda>c. [Lit ''agents.heartbeattime >= '', Slot (c + 1), Lit '' ''])
                  [VTime (After p)] 1 \<circ> add_and) s;
         s = guarded (AgentID p \<noteq> infinity)
               (emit (\<lambda>c. [Lit ''agents.id >= '', Slot (c + 1),
                           Lit '' AND agents.id <= '', Slot (c + 2)])
                  [VFloat (minAgentID ids), VFloat (maxAgentID ids)] 2 \<circ> add_and) s;
         s = guarded (AgentName p \<noteq> ''%'')
               (emit (\<lambda>c. [Lit ''agents.name ILIKE '', Slot (c + 1)])
                  [VString (AgentName p)] 1 \<circ> add_and) s;
         s = guarded (Status p \<noteq> ''%'')
               (emit (\<lambda>c. [Lit ''agents.status ILIKE '', Slot (c + 1)])
                  [VString (Status p)] 1 \<circ> add_and) s;
         s = guarded (ActionID p \<noteq> infinity)
               (setCommand \<circ> setAction
                \<circ> emit (\<lambda>c. [Lit ''actions.id >= '', Slot (c + 1),
                             Lit '' AND actions.id <= '', Slot (c + 2)])
                    [VFloat (minActionID ids), VFloat (maxActionID ids)] 2 \<circ> add_and) s;
         s = guarded (ActionName p \<noteq> ''%'')
               (setCommand \<circ> setAction
                \<circ> emit (\<lambda>c. [Lit ''actions.name ILIKE '', Slot (c + 1)])
                    [VString (ActionName p)] 1 \<circ> add_and) s;
         s = guarded (ThreatFamily p \<noteq> ''%'')
               (setCommand \<circ> setAction
                \<circ> emit threat_clause [VString (ThreatFamily p)] 1 \<circ> add_and) s;
         s = guarded (InvestigatorID p \<noteq> infinity)
               (setAction \<circ> setCommand \<circ> setInvestigator
                \<circ> emit (\<lambda>c. [Lit ''investigators.id >= '', Slot (c + 1),
                             Lit '' AND investigators.id <= '', Slot (c + 2)])
                    [VFloat (minInvID ids), VFloat (maxInvID ids)] 2 \<circ> add_and) s;
         s = guarded (InvestigatorName p \<noteq> ''%'')
               (setAction \<circ> setCommand \<circ> setInvestigator
                \<circ> emit (\<lambda>c. [Lit ''investigators.name ILIKE '', Slot (c + 1)])
                    [VString (InvestigatorName p)] 1 \<circ> add_and) s;
         s = guarded (CommandID p \<noteq> infinity)
               (setCommand
                \<circ> emit (\<lambda>c. [Lit ''commands.id >= '', Slot (c + 1),
                             Lit '' AND commands.id <= '', Slot (c + 2)])
                    [VFloat (minCommandID ids), VFloat (maxCommandID ids)] 2 \<circ> add_and) s
     in s)"

definition SearchAgents_join :: "qstate \<Rightarrow> token list" where
  "SearchAgents_join s =
     (if joinCommand s then [Lit ''INNER JOIN commands ON ( commands.agentid = agents.id) ''] else [])
     @ (if joinAction s then [Lit '' INNER JOIN actions ON ( commands.actionid = actions.id ) ''] else [])
     @ (if joinInvestigator s then [Lit join_signatures_investigators] else [])"

definition SearchAgents_build :: "go_env \<Rightarrow> Time \<Rightarrow> Time \<Rightarrow> SearchParameters \<Rightarrow> IDs \<Rightarrow> built" where
  "SearchAgents_build env now1 now2 p ids =
    (let s = SearchAgents_where now1 now2 p ids in
     \<lparr>query = [Lit ''SELECT '', Lit agents_columns, Lit '' FROM agents '']
               @ SearchAgents_join s @ [Lit '' WHERE ''] @ where_text s
               @ [Lit agents_trailer, Slot (valctr s + 1),
                  Lit '' OFFSET '', Slot (valctr s + 2), Lit '';''],
      args = vals s @ limit_offset env p\<rparr>)"

subsection \<open>SearchInvestigators\<close>

definition investigators_columns :: string where
  "investigators_columns =
     ''investigators.id, investigators.name, investigators.pgpfingerprint,''
     @ NL @ TAB @ TAB
     @ ''investigators.status, investigators.createdat, investigators.lastmodified''"

definition join_signatures_actions :: string where
  "join_signatures_actions =
     '' INNER JOIN signatures ON ( signatures.investigatorid = investigators.id ) ''
     @ NL @ TAB @ TAB @ TAB
     @ ''INNER JOIN actions ON ( actions.id = signatures.actionid ) ''"

definition SearchInvestigators_where ::
  "Time \<Rightarrow> Time \<Rightarrow> SearchParameters \<Rightarrow> IDs \<Rightarrow> qstate" where
  "SearchInvestigators_where now1 now2 p ids =
    (let s = init;
         s = guarded (beforeActive now1 p)
               (emit (\<lambda>c. [Lit ''investigators.lastmodified <= '', Slot (c + 1), Lit '' ''])
                  [VTime (Before p)] 1) s;
         s = guarded (afterActive now2 p)
               (emit (\<lambda>c. [Lit ''investigators.lastmodified >= '', Slot (c + 1), Lit '' ''])
                  [VTime (After p)] 1 \<circ> add_and) s;
         s = guarded (InvestigatorID p \<noteq> infinity)
               (emit (\<lambda>c. [Lit ''investigators.id >= '', Slot (c + 1),
                           Lit '' AND investigators.id <= '', Slot (c + 2)])
                  [VFloat (minInvID ids), VFloat (maxInvID ids)] 2 \<circ> add_and) s;
         s = guarded (InvestigatorName p \<noteq> ''%'')
               (emit (\<lambda>c. [Lit ''investigators.name ILIKE '', Slot (c + 1)])
                  [VString (InvestigatorName p)] 1 \<circ> add_and) s;
         s = guarded (Status p \<noteq> ''%'')
               (emit (\<lambda>c. [Lit ''investigators.status ILIKE '', Slot (c + 1)])
                  [VString (Status p)] 1 \<circ> add_and) s;
         s = guarded (ActionID p \<noteq> infinity)
               (setAction
                \<circ> emit (\<lambda>c. [Lit ''actions.id >= '', Slot (c + 1),
                             Lit '' AND actions.id <= '', Slot (c + 2)])
                    [VFloat (minActionID ids), VFloat (maxActionID ids)] 2 \<circ> add_and) s;
         s = guarded (ActionName p \<noteq> ''%'')
               (setAction
                \<circ> emit (\<lambda>c. [Lit ''actions.name ILIKE '', Slot (c + 1)])
                    [VString (ActionName p)] 1 \<circ> add_and) s;
         s = guarded (ThreatFamily p \<noteq> ''%'')
               (setAction
                \<circ> emit threat_clause [VString (ThreatFamily p)] 1 \<circ> add_and) s;
         s = guarded (CommandID p \<noteq> infinity)
               (setAction \<circ> setCommand
                \<circ> emit (\<lambda>c. [Lit ''commands.id >= '', Slot (c + 1),
                             Lit '' AND commands.id <= '', Slot (c + 2)])
                    [VFloat (minCommandID ids), VFloat (maxCommandID ids)] 2 \<circ> add_and) s;
         s = guarded (AgentID p \<noteq> infinity)
               (setAgent \<circ> setAction \<circ> setCommand
                \<circ> emit (\<lambda>c. [Lit ''agents.id >= '', Slot (c + 1),
                             Lit '' AND agents.id <= '', Slot (c + 2)])
                    [VFloat (minAgentID ids), VFloat (maxAgentID ids)] 2 \<circ> add_and) s;
         s = guarded (AgentName p \<noteq> ''%'')
               (setAgent \<circ> setAction \<circ> setCommand
                \<circ> emit (\<lambda>c. [Lit ''agents.name ILIKE '', Slot (c + 1)])
                    [VString (AgentName p)] 1 \<circ> add_and) s
     in s)"

definition SearchInvestigators_join :: "qstate \<Rightarrow> token list" where
  "SearchInvestigators_join s =
     (if joinAction s then [Lit join_signatures_actions] else [])
     @ (if joinCommand s then [Lit ''INNER JOIN commands ON ( commands.actionid = actions.id) ''] else [])
     @ (if joinAgent s then [Lit '' INNER JOIN agents ON ( commands.agentid = agents.id ) ''] else [])"

definition SearchInvestigators_build ::
  "go_env \<Rightarrow> Time \<Rightarrow> Time \<Rightarrow> SearchParameters \<Rightarrow> IDs \<Rightarrow> built" where
  "SearchInvestigators_build env now1 now2 p ids =
    (let s = SearchInvestigators_where now1 now2 p ids in
     \<lparr>query = [Lit ''SELECT '', Lit investigators_columns, Lit '' FROM investigators '']
               @ SearchInvestigators_join s @ [Lit '' WHERE ''] @ where_text s
               @ [Lit investigators_trailer, Slot (valctr s + 1),
                  Lit '' OFFSET '', Slot (valctr s + 2), Lit '';''],
      args = vals s @ limit_offset env p\<rparr>)"

subsection \<open>The four search operations\<close>

text \<open>
  Each operation resolves the ranges first and returns the error of the resolver at once,
  with the collection it has not yet assigned (\<^verbatim>\<open>nil\<close>).  Otherwise it builds the query
  and hands it to the store: preparing, executing and reading the rows back is the
  parameter \<open>run\<close>, which gives the collection and the error of that part.
  \<open>issued\<close> lists the queries that reached the store.
\<close>

record 'r outcome =
  collection :: "'r list"
  failure :: "string option"
  issued :: "built list"

definition search :: "(built \<Rightarrow> 'r list \<times> string option) \<Rightarrow> string + built \<Rightarrow> 'r outcome" where
  "search run r =
     (case r of
        Inl err \<Rightarrow> \<lparr>collection = [], failure = Some err, issued = []\<rparr>
      | Inr b \<Rightarrow> \<lparr>collection = fst (run b), failure = snd (run b), issued = [b]\<rparr>)"

definition SearchCommands ::
  "(built \<Rightarrow> 'r list \<times> string option) \<Rightarrow> go_env \<Rightarrow> Time \<Rightarrow> Time \<Rightarrow> SearchParameters \<Rightarrow> bool
     \<Rightarrow> 'r outcome" where
  "SearchCommands run env now1 now2 p doFoundAnything =
     search run (map_sum id (\<lambda>ids. SearchCommands_build env now1 now2 p ids doFoundAnything)
                   (makeIDsFromParams env p))"

definition SearchActions ::
  "(built \<Rightarrow> 'r list \<times> string option) \<Rightarrow> go_env \<Rightarrow> Time \<Rightarrow> Time \<Rightarrow> SearchParameters
     \<Rightarrow> 'r outcome" where
  "SearchActions run env now1 now2 p =
     search run (map_sum id (SearchActions_build env now1 now2 p) (makeIDsFromParams env p))"

definition SearchAgents ::
  "(built \<Rightarrow> 'r list \<times> string option) \<Rightarrow> go_env \<Rightarrow> Time \<Rightarrow> Time \<Rightarrow> SearchParameters
     \<Rightarrow> 'r outcome" where
  "SearchAgents run env now1 now2 p =
     search run (map_sum id (SearchAgents_build env now1 now2 p) (makeIDsFromParams env p))"

definition SearchInvestigators ::
  "(built \<Rightarrow> 'r list \<times> string option) \<Rightarrow> go_env \<Rightarrow> Time \<Rightarrow> Time \<Rightarrow> SearchParameters
     \<Rightarrow> 'r outcome" where
  "SearchInvestigators run env now1 now2 p =
     search run (map_sum id (SearchInvestigators_build env now1 now2 p) (makeIDsFromParams env p))"

section \<open>Reading a built query\<close>

text \<open>The numbers of the placeholders of a query text, in the order they occur.\<close>

fun placeholders :: "token list \<Rightarrow> nat list" where
  "placeholders [] = []"
| "placeholders (Lit s # ts) = placeholders ts"
| "placeholders (Slot n # ts) = n # placeholders ts"

text \<open>For each placeholder, in order, the literal text that stands in front of it.\<close>

fun owners :: "string \<Rightarrow> token list \<Rightarrow> string list" where
  "owners prev [] = []"
| "owners prev (Lit s # ts) = owners s ts"
| "owners prev (Slot n # ts) = prev # owners prev ts"

definition clause_texts :: "token list \<Rightarrow> string list" where
  "clause_texts ts = owners [] ts"

fun starts_lit :: "token list \<Rightarrow> bool" where
  "starts_lit [] = True"
| "starts_lit (Lit s # ts) = True"
| "starts_lit (Slot n # ts) = False"

text \<open>A piece of query text mentions a column when the column's name occurs in it.\<close>

definition mentions :: "string \<Rightarrow> token \<Rightarrow> bool" where
  "mentions col t = (case t of Lit s \<Rightarrow> sublist col s | Slot n \<Rightarrow> False)"

text \<open>The words that follow a keyword in a text, and the tables a query joins or selects from.\<close>

fun words_after :: "string \<Rightarrow> string \<Rightarrow> string list" where
  "words_after kw [] = []"
| "words_after kw (c # cs) =
     (if prefix kw (c # cs)
      then takeWhile (\<lambda>x. x \<noteq> CHR '' '') (drop (length kw) (c # cs)) # words_after kw cs
      else words_after kw cs)"

definition token_words :: "string \<Rightarrow> token \<Rightarrow> string list" where
  "token_words kw t = (case t of Lit s \<Rightarrow> words_after kw s | Slot n \<Rightarrow> [])"

definition query_joins :: "token list \<Rightarrow> string list" where
  "query_joins ts = concat (map (token_words ''INNER JOIN '') ts)"

definition query_from :: "token list \<Rightarrow> string list" where
  "query_from ts = concat (map (token_words ''FROM '') ts)"

text \<open>The timestamps among the bound values.\<close>

fun timestamps :: "val list \<Rightarrow> Time list" where
  "timestamps [] = []"
| "timestamps (VTime t # vs) = t # timestamps vs"
| "timestamps (v # vs) = timestamps vs"

section \<open>The join rules and the bindings as the specification lists them\<close>

text \<open>Which filters are set: an identifier other than the sentinel, a pattern other than \<open>%\<close>.\<close>

definition action_filter :: "SearchParameters \<Rightarrow> bool" where
  "action_filter p = (ActionID p \<noteq> infinity \<or> ActionName p \<noteq> ''%'' \<or> ThreatFamily p \<noteq> ''%'')"

definition agent_filter :: "SearchParameters \<Rightarrow> bool" where
  "agent_filter p = (AgentID p \<noteq> infinity \<or> AgentName p \<noteq> ''%'')"

definition investigator_filter :: "SearchParameters \<Rightarrow> bool" where
  "investigator_filter p = (InvestigatorID p \<noteq> infinity \<or> InvestigatorName p \<noteq> ''%'')"

definition command_filter :: "SearchParameters \<Rightarrow> bool" where
  "command_filter p = (CommandID p \<noteq> infinity)"

text \<open>
  Section 4.3 of the specification.  Actions search: agent filters require the agent and the
  command join, the command filter the command join, investigator filters the investigator
  join; final joins in the order commands, agents, signatures and investigators.
\<close>

definition spec_joins_Actions :: "SearchParameters \<Rightarrow> string list" where
  "spec_joins_Actions p =
    (let joinAgent = agent_filter p;
         joinCommand = (agent_filter p \<or> command_filter p);
         joinInvestigator = investigator_filter p
     in (if joinCommand then [''commands''] else [])
        @ (if joinAgent then [''agents''] else [])
        @ (if joinInvestigator then [''signatures'', ''investigators''] else []))"

text \<open>
  Agents search: action filters require the action and the command join, investigator filters
  the investigator, command and action join, the command filter the command join; final
  joins in the order commands, actions, signatures and investigators.
\<close>

definition spec_joins_Agents :: "SearchParameters \<Rightarrow> string list" where
  "spec_joins_Agents p =
    (let joinAction = (action_filter p \<or> investigator_filter p);
         joinCommand = (action_filter p \<or> investigator_filter p \<or> command_filter p);
         joinInvestigator = investigator_filter p
     in (if joinCommand then [''commands''] else [])
        @ (if joinAction then [''actions''] else [])
        @ (if joinInvestigator then [''signatures'', ''investigators''] else []))"

text \<open>
  Investigators search: action filters require the action join, the command filter the command
  and action join, agent filters the command, action and agent join; final joins in the
  order signatures and actions, commands, agents.
\<close>

definition spec_joins_Investigators :: "SearchParameters \<Rightarrow> string list" where
  "spec_joins_Investigators p =
    (let joinAction = (action_filter p \<or> command_filter p \<or> agent_filter p);
         joinCommand = (command_filter p \<or> agent_filter p);
         joinAgent = agent_filter p
     in (if joinAction then [''signatures'', ''actions''] else [])
        @ (if joinCommand then [''commands''] else [])
        @ (if joinAgent then [''agents''] else []))"

text \<open>Commands search: the four joins are fixed.\<close>

definition spec_joins_Commands :: "string list" where
  "spec_joins_Commands = [''actions'', ''signatures'', ''investigators'', ''agents'']"

text \<open>Section 4.2: the range of one identifier filter, \<open>None\<close> for a parse failure.\<close>

definition spec_range :: "go_env \<Rightarrow> string \<Rightarrow> (float64 \<times> float64) option" where
  "spec_range env f =
     (if f = infinity then Some (Finite 0, Finite (2 ^ 53 - 1))
      else case ParseFloat env f of Inl err \<Rightarrow> None | Inr v \<Rightarrow> Some (v, v))"

text \<open>
  Section 4.4: the clauses of a search in predicate order, each placeholder given by the
  literal text in front of it and paired with the value it is to carry; a range clause has
  two placeholders, a pattern clause one, the found-anything clause four, and the last two
  are those of \<^verbatim>\<open>LIMIT\<close> and \<^verbatim>\<open>OFFSET\<close>.
\<close>

definition SearchCommands_bindings ::
  "go_env \<Rightarrow> Time \<Rightarrow> Time \<Rightarrow> SearchParameters \<Rightarrow> IDs \<Rightarrow> bool \<Rightarrow> (string \<times> val) list" where
  "SearchCommands_bindings env now1 now2 p ids doFoundAnything =
     (if beforeActive now1 p
      then [(''commands.starttime <= '', VTime (Before p))]
      else [])
     @ (if afterActive now2 p
      then [(''commands.starttime >= '', VTime (After p))]
      else [])
     @ (if CommandID p \<noteq> infinity
      then [(''commands.id >= '', VFloat (minCommandID ids)),
            ('' AND commands.id <= '', VFloat (maxCommandID ids))]
      else [])
     @ (if Status p \<noteq> ''%''
      then [(''commands.status ILIKE '', VString (Status p))]
      else [])
     @ (if ActionID p \<noteq> infinity
      then [(''actions.id >= '', VFloat (minActionID ids)),
            ('' AND actions.id <= '', VFloat (maxActionID ids))]
      else [])
     @ (if ActionName p \<noteq> ''%''
      then [(''actions.name ILIKE '', VString (ActionName p))]
      else [])
     @ (if InvestigatorID p \<noteq> infinity
      then [(''investigators.id >= '', VFloat (minInvID ids)),
            ('' AND investigators.id <= '', VFloat (maxInvID ids))]
      else [])
     @ (if InvestigatorName p \<noteq> ''%''
      then [(''investigators.name ILIKE '', VString (InvestigatorName p))]
      else [])
     @ (if AgentID p \<noteq> infinity
      then [(''agents.id >= '', VFloat (minAgentID ids)),
            ('' AND agents.id <= '', VFloat (maxAgentID ids))]
      else [])
     @ (if AgentName p \<noteq> ''%''
      then [(''agents.name ILIKE '', VString (AgentName p))]
      else [])
     @ (if doFoundAnything
      then [(''commands.status = '', VString (StatusSuccess env)),
            (foundanything_text1, VFloat (minActionID ids)),
            ('' AND actions.id <= '', VFloat (maxActionID ids)),
            (foundanything_text2, VBool (FoundAnything p))]
      else [])
     @ (if ThreatFamily p \<noteq> ''%''
      then [(threat_text, VString (ThreatFamily p))]
      else [])
     @ [(commands_trailer, VUint64 (Uint64 env (Limit p))),
        ('' OFFSET '', VUint64 (Uint64 env (Offset p)))]"

definition SearchActions_bindings ::
  "go_env \<Rightarrow> Time \<Rightarrow> Time \<Rightarrow> SearchParameters \<Rightarrow> IDs \<Rightarrow> (string \<times> val) list" where
  "SearchActions_bindings env now1 now2 p ids =
     (if beforeActive now1 p
      then [(''actions.expireafter <= '', VTime (Before p))]
      else [])
     @ (if afterActive now2 p
      then [(''actions.validfrom >= '', VTime (After p))]
      else [])
     @ (if Status p \<noteq> ''%''
      then [(''action.status ILIKE '', VString (Status p))]
      else [])
     @ (if ActionID p \<noteq> infinity
      then [(''actions.id >= '', VFloat (minActionID ids)),
            ('' AND actions.id <= '', VFloat (maxActionID ids))]
      else [])
     @ (if ActionName p \<noteq> ''%''
      then [(''actions.name ILIKE '', VString (ActionName p))]
      else [])
     @ (if InvestigatorID p \<noteq> infinity
      then [(''investigators.id >= '', VFloat (minInvID ids)),
            ('' AND investigators.id <= '', VFloat (maxInvID ids))]
      else [])
     @ (if InvestigatorName p \<noteq> ''%''
      then [(''investigators.name ILIKE '', VString (InvestigatorName p))]
      else [])
     @ (if AgentID p \<noteq> infinity
      then [(''agents.id >= '', VFloat (minAgentID ids)),
            ('' AND agents.id <= '', VFloat (maxAgentID ids))]
      else [])
     @ (if AgentName p \<noteq> ''%''
      then [(''agents.name ILIKE '', VString (AgentName p))]
      else [])
     @ (if CommandID p \<noteq> infinity
      then [(''commands.id >= '', VFloat (minCommandID ids)),
            ('' AND commands.id <= '', VFloat (maxCommandID ids))]
      else [])
     @ (if ThreatFamily p \<noteq> ''%''
      then [(threat_text, VString (ThreatFamily p))]
      else [])
     @ [(actions_trailer, VUint64 (Uint64 env (Limit p))),
        ('' OFFSET '', VUint64 (Uint64 env (Offset p)))]"

definition SearchAgents_bindings ::
  "go_env \<Rightarrow> Time \<Rightarrow> Time \<Rightarrow> SearchParameters \<Rightarrow> IDs \<Rightarrow> (string \<times> val) list" where
  "SearchAgents_bindings env now1 now2 p ids =
     (if beforeActive now1 p
      then [(''agents.heartbeattime <= '', VTime (Before p))]
      else [])
     @ (if afterActive now2 p
      then [(''agents.heartbeattime >= '', VTime (After p))]
      else [])
     @ (if AgentID p \<noteq> infinity
      then [(''agents.id >= '', VFloat (minAgentID ids)),
            ('' AND agents.id <= '', VFloat (maxAgentID ids))]
      else [])
     @ (if AgentName p \<noteq> ''%''
      then [(''agents.name ILIKE '', VString (AgentName p))]
      else [])
     @ (if Status p \<noteq> ''%''
      then [(''agents.status ILIKE '', VString (Status p))]
      else [])
     @ (if ActionID p \<noteq> infinity
      then [(''actions.id >= '', VFloat (minActionID ids)),
            ('' AND actions.id <= '', VFloat (maxActionID ids))]
      else [])
     @ (if ActionName p \<noteq> ''%''
      then [(''actions.name ILIKE '', VString (ActionName p))]
      else [])
     @ (if ThreatFamily p \<noteq> ''%''
      then [(threat_text, VString (ThreatFamily p))]
      else [])
     @ (if InvestigatorID p \<noteq> infinity
      then [(''investigators.id >= '', VFloat (minInvID ids)),
            ('' AND investigators.id <= '', VFloat (maxInvID ids))]
      else [])
     @ (if InvestigatorName p \<noteq> ''%''
      then [(''investigators.name ILIKE '', VString (InvestigatorName p))]
      else [])
     @ (if CommandID p \<noteq> infinity
      then [(''commands.id >= '', VFloat (minCommandID ids)),
            ('' AND commands.id <= '', VFloat (maxCommandID ids))]
      else [])
     @ [(agents_trailer, VUint64 (Uint64 env (Limit p))),
        ('' OFFSET '', VUint64 (Uint64 env (Offset p)))]"

definition SearchInvestigators_bindings ::
  "go_env \<Rightarrow> Time \<Rightarrow> Time \<Rightarrow> SearchParameters \<Rightarrow> IDs \<Rightarrow> (string \<times> val) list" where
  "SearchInvestigators_bindings env now1 now2 p ids =
     (if beforeActive now1 p
      then [(''investigators.lastmodified <= '', VTime (Before p))]
      else [])
     @ (if afterActive now2 p
      then [(''investigators.lastmodified >= '', VTime (After p))]
      else [])
     @ (if InvestigatorID p \<noteq> infinity
      then [(''investigators.id >= '', VFloat (minInvID ids)),
            ('' AND investigators.id <= '', VFloat (maxInvID ids))]
      else [])
     @ (if InvestigatorName p \<noteq> ''%''
      then [(''investigators.name ILIKE '', VString (InvestigatorName p))]
      else [])
     @ (if Status p \<noteq> ''%''
      then [(''investigators.status ILIKE '', VString (Status p))]
      else [])
     @ (if ActionID p \<noteq> infinity
      then [(''actions.id >= '', VFloat (minActionID ids)),
            ('' AND actions.id <= '', VFloat (maxActionID ids))]
      else [])
     @ (if ActionName p \<noteq> ''%''
      then [(''actions.name ILIKE '', VString (ActionName p))]
      else [])
     @ (if ThreatFamily p \<noteq> ''%''
      then [(threat_text, VString (ThreatFamily p))]
      else [])
     @ (if CommandID p \<noteq> infinity
      then [(''commands.id >= '', VFloat (minCommandID ids)),
            ('' AND commands.id <= '', VFloat (maxCommandID ids))]
      else [])
     @ (if AgentID p \<noteq> infinity
      then [(''agents.id >= '', VFloat (minAgentID ids)),
            ('' AND agents.id <= '', VFloat (maxAgentID ids))]
      else [])
     @ (if AgentName p \<noteq> ''%''
      then [(''agents.name ILIKE '', VString (AgentName p))]
      else [])
     @ [(investigators_trailer, VUint64 (Uint64 env (Limit p))),
        ('' OFFSET '', VUint64 (Uint64 env (Offset p)))]"

section \<open>The builders as lists of guarded blocks\<close>

text \<open>
  Every predicate of the four searches is one block of the same shape: a test, the separator,
  a template, the values, the count and the join flags.  The blocks of a search, run in
  order, are its builder; the properties of all four are proved once, by induction on the
  list.
\<close>

datatype flag = JAction | JAgent | JCommand | JInvestigator

fun set_flag :: "flag \<Rightarrow> qstate \<Rightarrow> qstate" where
  "set_flag JAction = setAction"
| "set_flag JAgent = setAgent"
| "set_flag JCommand = setCommand"
| "set_flag JInvestigator = setInvestigator"

fun has_flag :: "flag \<Rightarrow> qstate \<Rightarrow> bool" where
  "has_flag JAction = joinAction"
| "has_flag JAgent = joinAgent"
| "has_flag JCommand = joinCommand"
| "has_flag JInvestigator = joinInvestigator"

record block =
  bcond :: bool
  bflags :: "flag list"
  btmpl :: "nat \<Rightarrow> token list"
  bvals :: "val list"
  bk :: nat

definition run_block :: "block \<Rightarrow> qstate \<Rightarrow> qstate" where
  "run_block b =
     guarded (bcond b) (fold set_flag (bflags b) \<circ> emit (btmpl b) (bvals b) (bk b) \<circ> add_and)"

definition run_blocks :: "block list \<Rightarrow> qstate \<Rightarrow> qstate" where
  "run_blocks bs s = foldl (\<lambda>s b. run_block b s) s bs"

fun texts_from :: "nat \<Rightarrow> block list \<Rightarrow> token list" where
  "texts_from c [] = []"
| "texts_from c (b # bs) =
     (if bcond b then (if c > 0 then [Lit '' AND ''] else []) @ btmpl b c @ texts_from (c + bk b) bs
      else texts_from c bs)"

definition wf_block :: "block \<Rightarrow> bool" where
  "wf_block b =
     (length (bvals b) = bk b \<and> 0 < bk b
      \<and> (\<forall>c. placeholders (btmpl b c) = map Suc [c ..< c + bk b])
      \<and> (\<forall>c. btmpl b c \<noteq> [] \<and> starts_lit (btmpl b c)
               \<and> owners [] (btmpl b c) = owners [] (btmpl b 0)))"

definition SearchCommands_blocks ::
  "go_env \<Rightarrow> Time \<Rightarrow> Time \<Rightarrow> SearchParameters \<Rightarrow> IDs \<Rightarrow> bool \<Rightarrow> block list" where
  "SearchCommands_blocks env now1 now2 p ids doFoundAnything =
    [\<lparr>bcond = beforeActive now1 p, bflags = [],
      btmpl = (\<lambda>c. [Lit ''commands.starttime <= '', Slot (c + 1), Lit '' '']),
      bvals = [VTime (Before p)], bk = 1\<rparr>,
     \<lparr>bcond = afterActive now2 p, bflags = [],
      btmpl = (\<lambda>c. [Lit ''commands.starttime >= '', Slot (c + 1), Lit '' '']),
      bvals = [VTime (After p)], bk = 1\<rparr>,
     \<lparr>bcond = CommandID p \<noteq> infinity, bflags = [],
      btmpl = (\<lambda>c. [Lit ''commands.id >= '', Slot (c + 1), Lit '' AND commands.id <= '', Slot (c + 2)]),
      bvals = [VFloat (minCommandID ids), VFloat (maxCommandID ids)], bk = 2\<rparr>,
     \<lparr>bcond = Status p \<noteq> ''%'', bflags = [],
      btmpl = (\<lambda>c. [Lit ''commands.status ILIKE '', Slot (c + 1)]),
      bvals = [VString (Status p)], bk = 1\<rparr>,
     \<lparr>bcond = ActionID p \<noteq> infinity, bflags = [],
      btmpl = (\<lambda>c. [Lit ''actions.id >= '', Slot (c + 1), Lit '' AND actions.id <= '', Slot (c + 2)]),
      bvals = [VFloat (minActionID ids), VFloat (maxActionID ids)], bk = 2\<rparr>,
     \<lparr>bcond = ActionName p \<noteq> ''%'', bflags = [],
      btmpl = (\<lambda>c. [Lit ''actions.name ILIKE '', Slot (c + 1)]),
      bvals = [VString (ActionName p)], bk = 1\<rparr>,
     \<lparr>bcond = InvestigatorID p \<noteq> infinity, bflags = [],
      btmpl = (\<lambda>c. [Lit ''investigators.id >= '', Slot (c + 1), Lit '' AND investigators.id <= '', Slot (c + 2)]),
      bvals = [VFloat (minInvID ids), VFloat (maxInvID ids)], bk = 2\<rparr>,
     \<lparr>bcond = InvestigatorName p \<noteq> ''%'', bflags = [],
      btmpl = (\<lambda>c. [Lit ''investigators.name ILIKE '', Slot (c + 1)]),
      bvals = [VString (InvestigatorName p)], bk = 1\<rparr>,
     \<lparr>bcond = AgentID p \<noteq> infinity, bflags = [],
      btmpl = (\<lambda>c. [Lit ''agents.id >= '', Slot (c + 1), Lit '' AND agents.id <= '', Slot (c + 2)]),
      bvals = [VFloat (minAgentID ids), VFloat (maxAgentID ids)], bk = 2\<rparr>,
     \<lparr>bcond = AgentName p \<noteq> ''%'', bflags = [],
      btmpl = (\<lambda>c. [Lit ''agents.name ILIKE '', Slot (c + 1)]),
      bvals = [VString (AgentName p)], bk = 1\<rparr>,
     \<lparr>bcond = doFoundAnything, bflags = [],
      btmpl = foundanything_clause,
      bvals = [VString (StatusSuccess env), VFloat (minActionID ids), VFloat (maxActionID ids),
               VBool (FoundAnything p)], bk = 4\<rparr>,
     \<lparr>bcond = ThreatFamily p \<noteq> ''%'', bflags = [],
      btmpl = threat_clause,
      bvals = [VString (ThreatFamily p)], bk = 1\<rparr>]"

definition SearchActions_blocks ::
  "Time \<Rightarrow> Time \<Rightarrow> SearchParameters \<Rightarrow> IDs \<Rightarrow> block list" where
  "SearchActions_blocks now1 now2 p ids =
    [\<lparr>bcond = beforeActive now1 p, bflags = [],
      btmpl = (\<lambda>c. [Lit ''actions.expireafter <= '', Slot (c + 1), Lit '' '']),
      bvals = [VTime (Before p)], bk = 1\<rparr>,
     \<lparr>bcond = afterActive now2 p, bflags = [],
      btmpl = (\<lambda>c. [Lit ''actions.validfrom >= '', Slot (c + 1), Lit '' '']),
      bvals = [VTime (After p)], bk = 1\<rparr>,
     \<lparr>bcond = Status p \<noteq> ''%'', bflags = [],
      btmpl = (\<lambda>c. [Lit ''action.status ILIKE '', Slot (c + 1)]),
      bvals = [VString (Status p)], bk = 1\<rparr>,
     \<lparr>bcond = ActionID p \<noteq> infinity, bflags = [],
      btmpl = (\<lambda>c. [Lit ''actions.id >= '', Slot (c + 1), Lit '' AND actions.id <= '', Slot (c + 2)]),
      bvals = [VFloat (minActionID ids), VFloat (maxActionID ids)], bk = 2\<rparr>,
     \<lparr>bcond = ActionName p \<noteq> ''%'', bflags = [],
      btmpl = (\<lambda>c. [Lit ''actions.name ILIKE '', Slot (c + 1)]),
      bvals = [VString (ActionName p)], bk = 1\<rparr>,
     \<lparr>bcond = InvestigatorID p \<noteq> infinity, bflags = [JInvestigator],
      btmpl = (\<lambda>c. [Lit ''investigators.id >= '', Slot (c + 1), Lit '' AND investigators.id <= '', Slot (c + 2)]),
      bvals = [VFloat (minInvID ids), VFloat (maxInvID ids)], bk = 2\<rparr>,
     \<lparr>bcond = InvestigatorName p \<noteq> ''%'', bflags = [JInvestigator],
      btmpl = (\<lambda>c. [Lit ''investigators.name ILIKE '', Slot (c + 1)]),
      bvals = [VString (InvestigatorName p)], bk = 1\<rparr>,
     \<lparr>bcond = AgentID p \<noteq> infinity, bflags = [JAgent, JCommand],
      btmpl = (\<lambda>c. [Lit ''agents.id >= '', Slot (c + 1), Lit '' AND agents.id <= '', Slot (c + 2)]),
      bvals = [VFloat (minAgentID ids), VFloat (maxAgentID ids)], bk = 2\<rparr>,
     \<lparr>bcond = AgentName p \<noteq> ''%'', bflags = [JAgent, JCommand],
      btmpl = (\<lambda>c. [Lit ''agents.name ILIKE '', Slot (c + 1)]),
      bvals = [VString (AgentName p)], bk = 1\<rparr>,
     \<lparr>bcond = CommandID p \<noteq> infinity, bflags = [JCommand],
      btmpl = (\<lambda>c. [Lit ''commands.id >= '', Slot (c + 1), Lit '' AND commands.id <= '', Slot (c + 2)]),
      bvals = [VFloat (minCommandID ids), VFloat (maxCommandID ids)], bk = 2\<rparr>,
     \<lparr>bcond = ThreatFamily p \<noteq> ''%'', bflags = [],
      btmpl = threat_clause,
      bvals = [VString (ThreatFamily p)], bk = 1\<rparr>]"

definition SearchAgents_blocks ::
  "Time \<Rightarrow> Time \<Rightarrow> SearchParameters \<Rightarrow> IDs \<Rightarrow> block list" where
  "SearchAgents_blocks now1 now2 p ids =
    [\<lparr>bcond = beforeActive now1 p, bflags = [],
      btmpl = (\<lambda>c. [Lit ''agents.heartbeattime <= '', Slot (c + 1), Lit '' '']),
      bvals = [VTime (Before p)], bk = 1\<rparr>,
     \<lparr>bcond = afterActive now2 p, bflags = [],
      btmpl = (\<lambda>c. [Lit ''agents.heartbeattime >= '', Slot (c + 1), Lit '' '']),
      bvals = [VTime (After p)], bk = 1\<rparr>,
     \<lparr>bcond = AgentID p \<noteq> infinity, bflags = [],
      btmpl = (\<lambda>c. [Lit ''agents.id >= '', Slot (c + 1), Lit '' AND agents.id <= '', Slot (c + 2)]),
      bvals = [VFloat (minAgentID ids), VFloat (maxAgentID ids)], bk = 2\<rparr>,
     \<lparr>bcond = AgentName p \<noteq> ''%'', bflags = [],
      btmpl = (\<lambda>c. [Lit ''agents.name ILIKE '', Slot (c + 1)]),
      bvals = [VString (AgentName p)], bk = 1\<rparr>,
     \<lparr>bcond = Status p \<noteq> ''%'', bflags = [],
      btmpl = (\<lambda>c. [Lit ''agents.status ILIKE '', Slot (c + 1)]),
      bvals = [VString (Status p)], bk = 1\<rparr>,
     \<lparr>bcond = ActionID p \<noteq> infinity, bflags = [JAction, JCommand],
      btmpl = (\<lambda>c. [Lit ''actions.id >= '', Slot (c + 1), Lit '' AND actions.id <= '', Slot (c + 2)]),
      bvals = [VFloat (minActionID ids), VFloat (maxActionID ids)], bk = 2\<rparr>,
     \<lparr>bcond = ActionName p \<noteq> ''%'', bflags = [JAction, JCommand],
      btmpl = (\<lambda>c. [Lit ''actions.name ILIKE '', Slot (c + 1)]),
      bvals = [VString (ActionName p)], bk = 1\<rparr>,
     \<lparr>bcond = ThreatFamily p \<noteq> ''%'', bflags = [JAction, JCommand],
      btmpl = threat_clause,
      bvals = [VString (ThreatFamily p)], bk = 1\<rparr>,
     \<lparr>bcond = InvestigatorID p \<noteq> infinity, bflags = [JInvestigator, JCommand, JAction],
      btmpl = (\<lambda>c. [Lit ''investigators.id >= '', Slot (c + 1), Lit '' AND investigators.id <= '', Slot (c + 2)]),
      bvals = [VFloat (minInvID ids), VFloat (maxInvID ids)], bk = 2\<rparr>,
     \<lparr>bcond = InvestigatorName p \<noteq> ''%'', bflags = [JInvestigator, JCommand, JAction],
      btmpl = (\<lambda>c. [Lit ''investigators.name ILIKE '', Slot (c + 1)]),
      bvals = [VString (InvestigatorName p)], bk = 1\<rparr>,
     \<lparr>bcond = CommandID p \<noteq> infinity, bflags = [JCommand],
      btmpl = (\<lambda>c. [Lit ''commands.id >= '', Slot (c + 1), Lit '' AND commands.id <= '', Slot (c + 2)]),
      bvals = [VFloat (minCommandID ids), VFloat (maxCommandID ids)], bk = 2\<rparr>]"

definition SearchInvestigators_blocks ::
  "Time \<Rightarrow> Time \<Rightarrow> SearchParameters \<Rightarrow> IDs \<Rightarrow> block list" where
  "SearchInvestigators_blocks now1 now2 p ids =
    [\<lparr>bcond = beforeActive now1 p, bflags = [],
      btmpl = (\<lambda>c. [Lit ''investigators.lastmodified <= '', Slot (c + 1), Lit '' '']),
      bvals = [VTime (Before p)], bk = 1\<rparr>,
     \<lparr>bcond = afterActive now2 p, bflags = [],
      btmpl = (\<lambda>c. [Lit ''investigators.lastmodified >= '', Slot (c + 1), Lit '' '']),
      bvals = [VTime (After p)], bk = 1\<rparr>,
     \<lparr>bcond = InvestigatorID p \<noteq> infinity, bflags = [],
      btmpl = (\<lambda>c. [Lit ''investigators.id >= '', Slot (c + 1), Lit '' AND investigators.id <= '', Slot (c + 2)]),
      bvals = [VFloat (minInvID ids), VFloat (maxInvID ids)], bk = 2\<rparr>,
     \<lparr>bcond = InvestigatorName p \<noteq> ''%'', bflags = [],
      btmpl = (\<lambda>c. [Lit ''investigators.name ILIKE '', Slot (c + 1)]),
      bvals = [VString (InvestigatorName p)], bk = 1\<rparr>,
     \<lparr>bcond = Status p \<noteq> ''%'', bflags = [],
      btmpl = (\<lambda>c. [Lit ''investigators.status ILIKE '', Slot (c + 1)]),
      bvals = [VString (Status p)], bk = 1\<rparr>,
     \<lparr>bcond = ActionID p \<noteq> infinity, bflags = [JAction],
      btmpl = (\<lambda>c. [Lit ''actions.id >= '', Slot (c + 1), Lit '' AND actions.id <= '', Slot (c + 2)]),
      bvals = [VFloat (minActionID ids), VFloat (maxActionID ids)], bk = 2\<rparr>,
     \<lparr>bcond = ActionName p \<noteq> ''%'', bflags = [JAction],
      btmpl = (\<lambda>c. [Lit ''actions.name ILIKE '', Slot (c + 1)]),
      bvals = [VString (ActionName p)], bk = 1\<rparr>,
     \<lparr>bcond = ThreatFamily p \<noteq> ''%'', bflags = [JAction],
      btmpl = threat_clause,
      bvals = [VString (ThreatFamily p)], bk = 1\<rparr>,
     \<lparr>bcond = CommandID p \<noteq> infinity, bflags = [JCommand, JAction],
      btmpl = (\<lambda>c. [Lit ''commands.id >= '', Slot (c + 1), Lit '' AND commands.id <= '', Slot (c + 2)]),
      bvals = [VFloat (minCommandID ids), VFloat (maxCommandID ids)], bk = 2\<rparr>,
     \<lparr>bcond = AgentID p \<noteq> infinity, bflags = [JCommand, JAction, JAgent],
      btmpl = (\<lambda>c. [Lit ''agents.id >= '', Slot (c + 1), Lit '' AND agents.id <= '', Slot (c + 2)]),
      bvals = [VFloat (minAgentID ids), VFloat (maxAgentID ids)], bk = 2\<rparr>,
     \<lparr>bcond = AgentName p \<noteq> ''%'', bflags = [JCommand, JAction, JAgent],
      btmpl = (\<lambda>c. [Lit ''agents.name ILIKE '', Slot (c + 1)]),
      bvals = [VString (AgentName p)], bk = 1\<rparr>]"

section \<open>Example inputs\<close>

text \<open>
  An environment to run the model on: a parser that knows a few numerals, and simple
  printers.  \<open>t0\<close> is 2026-01-01T00:00:00Z as read from the local clock.
\<close>

definition test_env :: go_env where
  "test_env =
     \<lparr>ParseFloat = (\<lambda>s. if s = ''42'' then Inr (Finite 42)
                         else if s = ''1e300'' then Inr (Finite (10 ^ 300))
                         else if s = ''-1.5'' then Inr (Finite (- 3 / 2))
                         else Inl ''invalid syntax''),
      FormatRFC3339 = (\<lambda>t. decimal (nat (unix_nano t div 1000000000))),
      Fmt0f = (\<lambda>x. case x of Finite q \<Rightarrow> decimal (nat \<lfloor>q\<rfloor>) | _ \<Rightarrow> ''NaN''),
      Uint64 = (\<lambda>x. case x of Finite q \<Rightarrow> word_of_int \<lfloor>q\<rfloor> | _ \<Rightarrow> 0),
      StatusSuccess = ''success''\<rparr>"

definition t0 :: Time where
  "t0 = \<lparr>unix_nano = 1767225600000000000, loc = ''Local''\<rparr>"

definition default_params :: SearchParameters where
  "default_params = NewSearchParameters t0 t0"

definition default_ids :: IDs where
  "default_ids = \<lparr>minActionID = Finite 0, maxActionID = MAXFLOAT64,
                  minCommandID = Finite 0, maxCommandID = MAXFLOAT64,
                  minAgentID = Finite 0, maxAgentID = MAXFLOAT64,
                  minInvID = Finite 0, maxInvID = MAXFLOAT64\<rparr>"

definition no_rows :: "built \<Rightarrow> unit list \<times> string option" where
  "no_rows b = ([], None)"

section \<open>Properties\<close>

subsection \<open>The range resolver\<close>

lemma makeIDs_closed:
  "makeIDsFromParams env p =
    (if ActionID p \<noteq> infinity \<and> isl (ParseFloat env (ActionID p))
     then Inl (projl (ParseFloat env (ActionID p)))
     else if CommandID p \<noteq> infinity \<and> isl (ParseFloat env (CommandID p))
     then Inl (projl (ParseFloat env (CommandID p)))
     else if AgentID p \<noteq> infinity \<and> isl (ParseFloat env (AgentID p))
     then Inl (projl (ParseFloat env (AgentID p)))
     else if InvestigatorID p \<noteq> infinity \<and> isl (ParseFloat env (InvestigatorID p))
     then Inl (projl (ParseFloat env (InvestigatorID p)))
     else Inr \<lparr>minActionID = (if ActionID p = infinity then Finite 0 else projr (ParseFloat env (ActionID p))),
               maxActionID = (if ActionID p = infinity then MAXFLOAT64 else projr (ParseFloat env (ActionID p))),
               minCommandID = (if CommandID p = infinity then Finite 0 else projr (ParseFloat env (CommandID p))),
               maxCommandID = (if CommandID p = infinity then MAXFLOAT64 else projr (ParseFloat env (CommandID p))),
               minAgentID = (if AgentID p = infinity then Finite 0 else projr (ParseFloat env (AgentID p))),
               maxAgentID = (if AgentID p = infinity then MAXFLOAT64 else projr (ParseFloat env (AgentID p))),
               minInvID = (if InvestigatorID p = infinity then Finite 0 else projr (ParseFloat env (InvestigatorID p))),
               maxInvID = (if InvestigatorID p = infinity then MAXFLOAT64
                           else projr (ParseFloat env (InvestigatorID p)))\<rparr>)"
  by (simp add: makeIDsFromParams_def zeroIDs_def Let_def split: sum.splits)

lemma spec_range_None: "spec_range env f = None \<longleftrightarrow> f \<noteq> infinity \<and> isl (ParseFloat env f)"
  by (simp add: spec_range_def split: sum.splits)

lemma spec_range_field:
  "(\<not> (f \<noteq> infinity \<and> isl (ParseFloat env f))
    \<and> lo = (if f = infinity then Finite 0 else projr (ParseFloat env f))
    \<and> hi = (if f = infinity then MAXFLOAT64 else projr (ParseFloat env f)))
   \<longleftrightarrow> spec_range env f = Some (lo, hi)"
  by (cases "ParseFloat env f") (auto simp add: spec_range_def MAXFLOAT64_def)

lemma IDs_eq_iff:
  "(\<lparr>minActionID = a1, maxActionID = a2, minCommandID = c1, maxCommandID = c2,
     minAgentID = g1, maxAgentID = g2, minInvID = i1, maxInvID = i2\<rparr> = ids) \<longleftrightarrow>
   (minActionID ids = a1 \<and> maxActionID ids = a2 \<and> minCommandID ids = c1 \<and> maxCommandID ids = c2
    \<and> minAgentID ids = g1 \<and> maxAgentID ids = g2 \<and> minInvID ids = i1 \<and> maxInvID ids = i2)"
  by (cases ids) auto

lemma if_Inl_eq_Inr: "((if c then Inl a else y) = Inr z) = (\<not> c \<and> y = Inr z)"
  by simp

lemma if_Inl_is_Inl: "(\<exists>e. (if c then Inl a else y) = Inl e) = (c \<or> (\<exists>e. y = Inl e))"
  by simp

lemma makeIDs_Inr_iff:
  "makeIDsFromParams env p = Inr ids \<longleftrightarrow>
     spec_range env (ActionID p) = Some (minActionID ids, maxActionID ids)
     \<and> spec_range env (CommandID p) = Some (minCommandID ids, maxCommandID ids)
     \<and> spec_range env (AgentID p) = Some (minAgentID ids, maxAgentID ids)
     \<and> spec_range env (InvestigatorID p) = Some (minInvID ids, maxInvID ids)"
  unfolding spec_range_field [symmetric]
  by (simp only: makeIDs_closed if_Inl_eq_Inr sum.inject IDs_eq_iff) blast

lemma makeIDs_Inl_iff:
  "(\<exists>err. makeIDsFromParams env p = Inl err) \<longleftrightarrow>
     spec_range env (ActionID p) = None \<or> spec_range env (CommandID p) = None
     \<or> spec_range env (AgentID p) = None \<or> spec_range env (InvestigatorID p) = None"
  by (simp only: makeIDs_closed if_Inl_is_Inl spec_range_None) simp

lemma makeIDs_Inl_source:
  "makeIDsFromParams env p = Inl err \<Longrightarrow>
     list_ex (\<lambda>f. f \<noteq> infinity \<and> ParseFloat env f = Inl err)
       [ActionID p, CommandID p, AgentID p, InvestigatorID p]"
  unfolding makeIDs_closed by (auto simp add: isl_def split: if_splits)

lemma search_Inl:
  "search run (map_sum id f (Inl err)) = \<lparr>collection = [], failure = Some err, issued = []\<rparr>"
  by (simp add: search_def)

text \<open>
  C2.  The resolver gives each identifier filter the range of the specification: the sentinel
  gives 0 to \<open>2^53 - 1\<close>, a filter that parses as \<open>v\<close> gives \<open>v\<close> to \<open>v\<close>.  It fails exactly
  when a filter other than the sentinel does not parse, with the error of such a filter; and
  then each of the four searches returns that error with the empty collection, and no
  query reaches the store.
\<close>

theorem C2_range_resolver:
  "(makeIDsFromParams env p = Inr ids \<longleftrightarrow>
      spec_range env (ActionID p) = Some (minActionID ids, maxActionID ids)
      \<and> spec_range env (CommandID p) = Some (minCommandID ids, maxCommandID ids)
      \<and> spec_range env (AgentID p) = Some (minAgentID ids, maxAgentID ids)
      \<and> spec_range env (InvestigatorID p) = Some (minInvID ids, maxInvID ids))
   \<and> ((\<exists>e. makeIDsFromParams env p = Inl e) \<longleftrightarrow>
      spec_range env (ActionID p) = None \<or> spec_range env (CommandID p) = None
      \<or> spec_range env (AgentID p) = None \<or> spec_range env (InvestigatorID p) = None)
   \<and> (makeIDsFromParams env p = Inl err \<longrightarrow>
      list_ex (\<lambda>f. f \<noteq> infinity \<and> ParseFloat env f = Inl err)
        [ActionID p, CommandID p, AgentID p, InvestigatorID p]
      \<and> SearchCommands run1 env now1 now2 p doFoundAnything
          = \<lparr>collection = [], failure = Some err, issued = []\<rparr>
      \<and> SearchActions run2 env now1 now2 p = \<lparr>collection = [], failure = Some err, issued = []\<rparr>
      \<and> SearchAgents run3 env now1 now2 p = \<lparr>collection = [], failure = Some err, issued = []\<rparr>
      \<and> SearchInvestigators run4 env now1 now2 p
          = \<lparr>collection = [], failure = Some err, issued = []\<rparr>)"
proof (intro conjI impI)
  show "makeIDsFromParams env p = Inr ids \<longleftrightarrow>
      spec_range env (ActionID p) = Some (minActionID ids, maxActionID ids)
      \<and> spec_range env (CommandID p) = Some (minCommandID ids, maxCommandID ids)
      \<and> spec_range env (AgentID p) = Some (minAgentID ids, maxAgentID ids)
      \<and> spec_range env (InvestigatorID p) = Some (minInvID ids, maxInvID ids)"
    by (rule makeIDs_Inr_iff)
  show "(\<exists>e. makeIDsFromParams env p = Inl e) \<longleftrightarrow>
      spec_range env (ActionID p) = None \<or> spec_range env (CommandID p) = None
      \<or> spec_range env (AgentID p) = None \<or> spec_range env (InvestigatorID p) = None"
    by (rule makeIDs_Inl_iff)
next
  assume e: "makeIDsFromParams env p = Inl err"
  show "list_ex (\<lambda>f. f \<noteq> infinity \<and> ParseFloat env f = Inl err)
        [ActionID p, CommandID p, AgentID p, InvestigatorID p]"
    by (rule makeIDs_Inl_source [OF e])
  show "SearchCommands run1 env now1 now2 p doFoundAnything
          = \<lparr>collection = [], failure = Some err, issued = []\<rparr>"
    by (simp only: SearchCommands_def e search_Inl)
  show "SearchActions run2 env now1 now2 p = \<lparr>collection = [], failure = Some err, issued = []\<rparr>"
    by (simp only: SearchActions_def e search_Inl)
  show "SearchAgents run3 env now1 now2 p = \<lparr>collection = [], failure = Some err, issued = []\<rparr>"
    by (simp only: SearchAgents_def e search_Inl)
  show "SearchInvestigators run4 env now1 now2 p
          = \<lparr>collection = [], failure = Some err, issued = []\<rparr>"
    by (simp only: SearchInvestigators_def e search_Inl)
qed

lemma infinity_neq [simp]:
  "infinity \<noteq> ''abc''" "infinity \<noteq> ''42''" "infinity \<noteq> ''1e300''" "infinity \<noteq> ''-1.5''"
  "''abc'' \<noteq> infinity" "''42'' \<noteq> infinity" "''1e300'' \<noteq> infinity" "''-1.5'' \<noteq> infinity"
  by (simp_all add: infinity_def)

theorem C2_range_resolver_witness:
  "makeIDsFromParams test_env (default_params\<lparr>AgentID := ''abc''\<rparr>) = Inl ''invalid syntax''
   \<and> SearchCommands no_rows test_env t0 t0 (default_params\<lparr>AgentID := ''abc''\<rparr>) True
       = \<lparr>collection = [], failure = Some ''invalid syntax'', issued = []\<rparr>
   \<and> SearchActions no_rows test_env t0 t0 (default_params\<lparr>AgentID := ''abc''\<rparr>)
       = \<lparr>collection = [], failure = Some ''invalid syntax'', issued = []\<rparr>
   \<and> SearchAgents no_rows test_env t0 t0 (default_params\<lparr>AgentID := ''abc''\<rparr>)
       = \<lparr>collection = [], failure = Some ''invalid syntax'', issued = []\<rparr>
   \<and> SearchInvestigators no_rows test_env t0 t0 (default_params\<lparr>AgentID := ''abc''\<rparr>)
       = \<lparr>collection = [], failure = Some ''invalid syntax'', issued = []\<rparr>
   \<and> spec_range test_env (AgentID (default_params\<lparr>AgentID := ''abc''\<rparr>)) = None"
proof -
  let ?p = "default_params\<lparr>AgentID := ''abc''\<rparr>"
  have h: "makeIDsFromParams test_env ?p = Inl ''invalid syntax''"
    by (simp add: makeIDs_closed default_params_def NewSearchParameters_def test_env_def)
  have r: "spec_range test_env (AgentID ?p) = None"
    by (simp add: spec_range_def test_env_def)
  show ?thesis
    using h r
      C2_range_resolver [of test_env ?p default_ids "''invalid syntax''" no_rows t0 t0 True
        no_rows no_rows no_rows]
    by simp
qed

text \<open>
  C9.  The resolver checks no bound: whatever value \<open>strconv.ParseFloat\<close> accepts for a
  filter other than the sentinel (negative, fractional, above \<open>2^53 - 1\<close>, infinite) is the
  lower and the upper end of the range, and the resolver reports no error.  \<open>MAXFLOAT64\<close>
  is only the upper end of the range of a sentinel.
\<close>

theorem C9_no_bound_on_identifiers:
  assumes "ActionID p \<noteq> infinity \<longrightarrow> ParseFloat env (ActionID p) = Inr a"
    and "CommandID p \<noteq> infinity \<longrightarrow> ParseFloat env (CommandID p) = Inr c"
    and "AgentID p \<noteq> infinity \<longrightarrow> ParseFloat env (AgentID p) = Inr g"
    and "InvestigatorID p \<noteq> infinity \<longrightarrow> ParseFloat env (InvestigatorID p) = Inr i"
  shows "makeIDsFromParams env p =
     Inr \<lparr>minActionID = (if ActionID p = infinity then Finite 0 else a),
          maxActionID = (if ActionID p = infinity then MAXFLOAT64 else a),
          minCommandID = (if CommandID p = infinity then Finite 0 else c),
          maxCommandID = (if CommandID p = infinity then MAXFLOAT64 else c),
          minAgentID = (if AgentID p = infinity then Finite 0 else g),
          maxAgentID = (if AgentID p = infinity then MAXFLOAT64 else g),
          minInvID = (if InvestigatorID p = infinity then Finite 0 else i),
          maxInvID = (if InvestigatorID p = infinity then MAXFLOAT64 else i)\<rparr>"
  using assms unfolding makeIDs_closed by simp

theorem C9_no_bound_on_identifiers_witness:
  "makeIDsFromParams test_env
     (default_params\<lparr>ActionID := ''1e300'', CommandID := ''-1.5'', AgentID := ''42''\<rparr>) =
     Inr \<lparr>minActionID = Finite (10 ^ 300), maxActionID = Finite (10 ^ 300),
          minCommandID = Finite (- 3 / 2), maxCommandID = Finite (- 3 / 2),
          minAgentID = Finite 42, maxAgentID = Finite 42,
          minInvID = Finite 0, maxInvID = Finite 9007199254740991\<rparr>
   \<and> (9007199254740991 :: rat) < 10 ^ 300"
proof -
  let ?p = "default_params\<lparr>ActionID := ''1e300'', CommandID := ''-1.5'', AgentID := ''42''\<rparr>"
  have a: "ActionID ?p \<noteq> infinity \<longrightarrow> ParseFloat test_env (ActionID ?p) = Inr (Finite (10 ^ 300))"
    by (simp add: test_env_def)
  have c: "CommandID ?p \<noteq> infinity \<longrightarrow> ParseFloat test_env (CommandID ?p) = Inr (Finite (- 3 / 2))"
    by (simp add: test_env_def)
  have g: "AgentID ?p \<noteq> infinity \<longrightarrow> ParseFloat test_env (AgentID ?p) = Inr (Finite 42)"
    by (simp add: test_env_def)
  have i: "InvestigatorID ?p \<noteq> infinity \<longrightarrow> ParseFloat test_env (InvestigatorID ?p) = Inr NaN"
    by (simp add: default_params_def NewSearchParameters_def)
  have n: "InvestigatorID ?p = infinity"
    by (simp add: default_params_def NewSearchParameters_def)
  show ?thesis
    using C9_no_bound_on_identifiers [OF a c g i] n by (simp add: MAXFLOAT64_def)
qed

subsection \<open>The query string of the parameters\<close>

lemma if_append_same: "(if c then q @ x else q) = q @ (if c then x else [])"
  by simp

lemma String_closed:
  "String env p =
     ''type='' @ Type p @ ''&after='' @ FormatRFC3339 env (After p)
     @ ''&before='' @ FormatRFC3339 env (Before p)
     @ (if AgentName p \<noteq> ''%'' then ''&agentname='' @ AgentName p else [])
     @ (if AgentID p \<noteq> infinity then ''&agentid='' @ AgentID p else [])
     @ (if ActionName p \<noteq> ''%'' then ''&actionname='' @ ActionName p else [])
     @ (if ActionID p \<noteq> infinity then ''&actionid='' @ ActionID p else [])
     @ (if CommandID p \<noteq> infinity then ''&commandid='' @ CommandID p else [])
     @ (if InvestigatorID p \<noteq> infinity then ''&investigatorid='' @ InvestigatorID p else [])
     @ (if InvestigatorName p \<noteq> ''%'' then ''&investigatorname='' @ InvestigatorName p else [])
     @ (if ThreatFamily p \<noteq> ''%'' then ''&threatfamily='' @ ThreatFamily p else [])
     @ (if Status p \<noteq> ''%'' then ''&status='' @ Status p else [])
     @ ''&limit='' @ Fmt0f env (Limit p)
     @ (if Offset p \<noteq> Finite 0 then ''&offset='' @ Fmt0f env (Offset p) else [])"
  unfolding String_def
  by (simp only: if_append_same Let_def append_assoc)

subsection \<open>Fields that nothing reads\<close>

text \<open>
  C10.  \<^verbatim>\<open>Report\<close> and \<^verbatim>\<open>Target\<close> are read by nothing: changing them changes neither
  \<^verbatim>\<open>String()\<close>, nor the ranges, nor the query text and bound values of any of the four
  searches, nor what a search returns.
\<close>

theorem C10_report_target_unread:
  "String env (p\<lparr>Report := r, Target := t\<rparr>) = String env p
   \<and> makeIDsFromParams env (p\<lparr>Report := r, Target := t\<rparr>) = makeIDsFromParams env p
   \<and> SearchCommands_build env now1 now2 (p\<lparr>Report := r, Target := t\<rparr>) ids doFoundAnything
       = SearchCommands_build env now1 now2 p ids doFoundAnything
   \<and> SearchActions_build env now1 now2 (p\<lparr>Report := r, Target := t\<rparr>) ids
       = SearchActions_build env now1 now2 p ids
   \<and> SearchAgents_build env now1 now2 (p\<lparr>Report := r, Target := t\<rparr>) ids
       = SearchAgents_build env now1 now2 p ids
   \<and> SearchInvestigators_build env now1 now2 (p\<lparr>Report := r, Target := t\<rparr>) ids
       = SearchInvestigators_build env now1 now2 p ids
   \<and> SearchCommands run1 env now1 now2 (p\<lparr>Report := r, Target := t\<rparr>) doFoundAnything
       = SearchCommands run1 env now1 now2 p doFoundAnything
   \<and> SearchActions run2 env now1 now2 (p\<lparr>Report := r, Target := t\<rparr>)
       = SearchActions run2 env now1 now2 p
   \<and> SearchAgents run3 env now1 now2 (p\<lparr>Report := r, Target := t\<rparr>)
       = SearchAgents run3 env now1 now2 p
   \<and> SearchInvestigators run4 env now1 now2 (p\<lparr>Report := r, Target := t\<rparr>)
       = SearchInvestigators run4 env now1 now2 p"
proof -
  let ?q = "p\<lparr>Report := r, Target := t\<rparr>"
  have s: "String env ?q = String env p"
    unfolding String_closed by (simp cong: if_cong)
  have m: "makeIDsFromParams env ?q = makeIDsFromParams env p"
    unfolding makeIDs_closed by (simp cong: if_cong)
  have t: "beforeActive now1 ?q = beforeActive now1 p" "afterActive now2 ?q = afterActive now2 p"
    "limit_offset env ?q = limit_offset env p"
    by (simp_all add: beforeActive_def afterActive_def limit_offset_def)
  have c: "(\<lambda>ids. SearchCommands_build env now1 now2 ?q ids doFoundAnything)
       = (\<lambda>ids. SearchCommands_build env now1 now2 p ids doFoundAnything)"
    by (simp add: SearchCommands_build_def SearchCommands_where_def t)
  have a: "SearchActions_build env now1 now2 ?q = SearchActions_build env now1 now2 p"
    by (rule ext) (simp add: SearchActions_build_def SearchActions_where_def t)
  have g: "SearchAgents_build env now1 now2 ?q = SearchAgents_build env now1 now2 p"
    by (rule ext) (simp add: SearchAgents_build_def SearchAgents_where_def t)
  have i: "SearchInvestigators_build env now1 now2 ?q = SearchInvestigators_build env now1 now2 p"
    by (rule ext) (simp add: SearchInvestigators_build_def SearchInvestigators_where_def t)
  show ?thesis
    using fun_cong [OF c, of ids]
    by (simp add: s m c a g i SearchCommands_def SearchActions_def SearchAgents_def
          SearchInvestigators_def)
qed

subsection \<open>The default window\<close>

lemma Time_updates: "(t :: Time)\<lparr>unix_nano := a, loc := l\<rparr> = \<lparr>unix_nano = a, loc = l\<rparr>"
  by (cases t) simp

text \<open>
  C3.  What \<^verbatim>\<open>String()\<close> gives for the parameters of \<^verbatim>\<open>NewSearchParameters\<close>: the four
  keys \<open>type\<close>, \<open>after\<close>, \<open>before\<close> and \<open>limit\<close> and no other, but a window of 39600 hours,
  that is 1650 days, on each side of the clock, which is less than half of ten years.
\<close>

theorem C3_default_string:
  "String env (NewSearchParameters now1 now2) =
     ''type=action&after=''
     @ FormatRFC3339 env \<lparr>unix_nano = unix_nano now2 - 1650 * (24 * Hour), loc = ''UTC''\<rparr>
     @ ''&before=''
     @ FormatRFC3339 env \<lparr>unix_nano = unix_nano now1 + 1650 * (24 * Hour), loc = ''UTC''\<rparr>
     @ ''&limit='' @ Fmt0f env (Finite 100)
   \<and> 2 * (1650 * (24 * Hour)) < 10 * (365 * (24 * Hour))
   \<and> After (NewSearchParameters t0 t0) = \<lparr>unix_nano = 1624665600000000000, loc = ''UTC''\<rparr>
   \<and> Before (NewSearchParameters t0 t0) = \<lparr>unix_nano = 1909785600000000000, loc = ''UTC''\<rparr>"
  unfolding String_closed
  by (simp add: NewSearchParameters_def UTC_def Add_def defaultSearchPeriod_def Hour_def
        infinity_def t0_def Time_updates)

subsection \<open>Blocks\<close>

lemma run_blocks_Nil [simp]: "run_blocks [] s = s"
  by (simp add: run_blocks_def)

lemma run_blocks_Cons [simp]: "run_blocks (b # bs) s = run_blocks bs (run_block b s)"
  by (simp add: run_blocks_def)

lemma set_flag_keeps:
  "where_text (set_flag f s) = where_text s \<and> vals (set_flag f s) = vals s
   \<and> valctr (set_flag f s) = valctr s"
  by (cases f) (simp_all add: setAction_def setAgent_def setCommand_def setInvestigator_def)

lemma set_flag_has: "has_flag g (set_flag f s) = (g = f \<or> has_flag g s)"
  by (cases f; cases g)
     (simp_all add: setAction_def setAgent_def setCommand_def setInvestigator_def)

lemma fold_set_flag_keeps [simp]:
  "where_text (fold set_flag fl s) = where_text s \<and> vals (fold set_flag fl s) = vals s
   \<and> valctr (fold set_flag fl s) = valctr s"
  by (induction fl arbitrary: s) (simp_all add: set_flag_keeps)

lemma fold_set_flag_has: "has_flag g (fold set_flag fl s) = (g \<in> set fl \<or> has_flag g s)"
  by (induction fl arbitrary: s) (auto simp add: set_flag_has)

lemma has_flag_emit [simp]: "has_flag g (emit t vs k s) = has_flag g s"
  by (cases g) (simp_all add: emit_def)

lemma has_flag_add_and [simp]: "has_flag g (add_and s) = has_flag g s"
  by (cases g) (simp_all add: add_and_def)

lemma run_block_vals: "vals (run_block b s) = vals s @ (if bcond b then bvals b else [])"
  by (simp add: run_block_def guarded_def emit_def add_and_def)

lemma run_block_valctr: "valctr (run_block b s) = valctr s + (if bcond b then bk b else 0)"
  by (simp add: run_block_def guarded_def emit_def add_and_def)

lemma run_block_text:
  "where_text (run_block b s) =
     where_text s @ (if bcond b then (if valctr s > 0 then [Lit '' AND ''] else []) @ btmpl b (valctr s)
                     else [])"
  by (simp add: run_block_def guarded_def emit_def add_and_def)

lemma run_block_has:
  "has_flag g (run_block b s) = (bcond b \<and> g \<in> set (bflags b) \<or> has_flag g s)"
  by (simp add: run_block_def guarded_def fold_set_flag_has)

lemma run_blocks_vals:
  "vals (run_blocks bs s) = vals s @ concat (map (\<lambda>b. if bcond b then bvals b else []) bs)"
  by (induction bs arbitrary: s) (simp_all add: run_block_vals)

lemma run_blocks_valctr:
  "valctr (run_blocks bs s) = valctr s + sum_list (map (\<lambda>b. if bcond b then bk b else 0) bs)"
  by (induction bs arbitrary: s) (simp_all add: run_block_valctr)

lemma run_blocks_text: "where_text (run_blocks bs s) = where_text s @ texts_from (valctr s) bs"
  by (induction bs arbitrary: s) (simp_all add: run_block_text run_block_valctr)

lemma run_blocks_has:
  "has_flag g (run_blocks bs s) = (list_ex (\<lambda>b. bcond b \<and> g \<in> set (bflags b)) bs \<or> has_flag g s)"
  by (induction bs arbitrary: s) (auto simp add: run_block_has)

lemma texts_from_all:
  "list_all (\<lambda>b. bcond b \<longrightarrow> (\<forall>c. list_all P (btmpl b c))) bs \<Longrightarrow> P (Lit '' AND '')
     \<Longrightarrow> list_all P (texts_from c bs)"
  by (induction bs arbitrary: c) simp_all

lemma placeholders_append [simp]: "placeholders (xs @ ys) = placeholders xs @ placeholders ys"
  by (induction xs rule: placeholders.induct) simp_all

lemma upt_glue: "[a ..< a + m] @ [a + m ..< a + m + n] = [a ..< a + m + (n::nat)]"
  using upt_add_eq_append [of a "a + m" n] by simp

lemma placeholders_texts_from:
  "list_all wf_block bs \<Longrightarrow>
   placeholders (texts_from c bs)
     = map Suc [c ..< c + sum_list (map (\<lambda>b. if bcond b then bk b else 0) bs)]"
proof (induction bs arbitrary: c)
  case Nil
  then show ?case by simp
next
  case (Cons b bs)
  then have wf: "wf_block b" and wfs: "list_all wf_block bs" by simp_all
  let ?n = "sum_list (map (\<lambda>b. if bcond b then bk b else 0) bs)"
  show ?case
  proof (cases "bcond b")
    case True
    have t: "placeholders (btmpl b c) = map Suc [c ..< c + bk b]"
      using wf unfolding wf_block_def by blast
    have "placeholders (texts_from c (b # bs))
        = placeholders (btmpl b c) @ placeholders (texts_from (c + bk b) bs)"
      using True by simp
    also have "\<dots> = map Suc ([c ..< c + bk b] @ [c + bk b ..< c + bk b + ?n])"
      using t Cons.IH [OF wfs, of "c + bk b"] by simp
    also have "\<dots> = map Suc [c ..< c + bk b + ?n]"
      by (simp only: upt_glue)
    finally show ?thesis using True by (simp add: add.assoc)
  next
    case False
    then show ?thesis using Cons.IH [OF wfs, of c] by simp
  qed
qed

lemma owners_append_starts_lit:
  "starts_lit ys \<Longrightarrow> owners q (xs @ ys) = owners q xs @ owners r ys"
proof (induction xs arbitrary: q rule: placeholders.induct)
  case 1
  then show ?case by (cases ys rule: starts_lit.cases) simp_all
next
  case (2 s ts)
  then show ?case by simp
next
  case (3 n ts)
  then show ?case by simp
qed

lemma starts_lit_texts_from: "list_all wf_block bs \<Longrightarrow> starts_lit (texts_from c bs)"
proof (induction bs arbitrary: c)
  case Nil
  then show ?case by simp
next
  case (Cons b bs)
  then have "wf_block b" by simp
  then have wf: "btmpl b c \<noteq> []" "starts_lit (btmpl b c)"
    unfolding wf_block_def by blast+
  then obtain s ts where "btmpl b c = Lit s # ts"
    by (cases "btmpl b c" rule: starts_lit.cases) simp_all
  then show ?case using Cons by simp
qed

lemma owners_texts_from:
  "list_all wf_block bs \<Longrightarrow>
   owners q (texts_from c bs) = concat (map (\<lambda>b. if bcond b then owners [] (btmpl b 0) else []) bs)"
proof (induction bs arbitrary: c q)
  case Nil
  then show ?case by simp
next
  case (Cons b bs)
  then have wf: "wf_block b" and wfs: "list_all wf_block bs" by simp_all
  show ?case
  proof (cases "bcond b")
    case True
    have "btmpl b c \<noteq> []" "starts_lit (btmpl b c)"
      using wf unfolding wf_block_def by blast+
    then obtain s ts where t: "btmpl b c = Lit s # ts"
      by (cases "btmpl b c" rule: starts_lit.cases) simp_all
    have a: "owners q ((if c > 0 then [Lit '' AND ''] else []) @ btmpl b c @ texts_from (c + bk b) bs)
             = owners [] (btmpl b c @ texts_from (c + bk b) bs)"
      by (simp add: t)
    have b: "owners [] (btmpl b c @ texts_from (c + bk b) bs)
             = owners [] (btmpl b c) @ owners [] (texts_from (c + bk b) bs)"
      by (rule owners_append_starts_lit) (rule starts_lit_texts_from [OF wfs])
    have c: "owners [] (btmpl b c) = owners [] (btmpl b 0)"
      using wf unfolding wf_block_def by blast
    show ?thesis using True a b c Cons.IH [OF wfs] by simp
  next
    case False
    then show ?thesis using Cons.IH [OF wfs] by simp
  qed
qed

lemma length_vals_blocks:
  "list_all wf_block bs \<Longrightarrow>
   length (concat (map (\<lambda>b. if bcond b then bvals b else []) bs))
     = sum_list (map (\<lambda>b. if bcond b then bk b else 0) bs)"
  by (induction bs) (simp_all add: wf_block_def)

subsection \<open>The four builders are their blocks\<close>

lemma add_and_init: "add_and init = init"
  by (simp add: add_and_def init_def)

lemma guarded_first: "guarded c (emit t vs k) init = guarded c (emit t vs k \<circ> add_and) init"
  by (simp add: guarded_def add_and_init)

lemma SearchCommands_where_blocks:
  "SearchCommands_where env now1 now2 p ids fa
     = run_blocks (SearchCommands_blocks env now1 now2 p ids fa) init"
  unfolding SearchCommands_where_def SearchCommands_blocks_def run_blocks_def run_block_def Let_def
  by (simp add: guarded_first del: o_apply)

lemma SearchActions_where_blocks:
  "SearchActions_where now1 now2 p ids = run_blocks (SearchActions_blocks now1 now2 p ids) init"
  unfolding SearchActions_where_def SearchActions_blocks_def run_blocks_def run_block_def Let_def
  by (simp add: guarded_first del: o_apply)

lemma SearchAgents_where_blocks:
  "SearchAgents_where now1 now2 p ids = run_blocks (SearchAgents_blocks now1 now2 p ids) init"
  unfolding SearchAgents_where_def SearchAgents_blocks_def run_blocks_def run_block_def Let_def
  by (simp add: guarded_first del: o_apply)

lemma SearchInvestigators_where_blocks:
  "SearchInvestigators_where now1 now2 p ids
     = run_blocks (SearchInvestigators_blocks now1 now2 p ids) init"
  unfolding SearchInvestigators_where_def SearchInvestigators_blocks_def run_blocks_def
    run_block_def Let_def
  by (simp add: guarded_first del: o_apply)

lemma wf_SearchCommands_blocks: "list_all wf_block (SearchCommands_blocks env now1 now2 p ids fa)"
  by (simp add: SearchCommands_blocks_def wf_block_def foundanything_clause_def threat_clause_def
        upt_conv_Cons)

lemma wf_SearchActions_blocks: "list_all wf_block (SearchActions_blocks now1 now2 p ids)"
  by (simp add: SearchActions_blocks_def wf_block_def threat_clause_def upt_conv_Cons)

lemma wf_SearchAgents_blocks: "list_all wf_block (SearchAgents_blocks now1 now2 p ids)"
  by (simp add: SearchAgents_blocks_def wf_block_def threat_clause_def upt_conv_Cons)

lemma wf_SearchInvestigators_blocks: "list_all wf_block (SearchInvestigators_blocks now1 now2 p ids)"
  by (simp add: SearchInvestigators_blocks_def wf_block_def threat_clause_def upt_conv_Cons)

subsection \<open>Placeholders and bindings of a finished query\<close>

lemma owners_no_slots: "placeholders xs = [] \<Longrightarrow> owners q xs = []"
  by (induction xs arbitrary: q rule: placeholders.induct) simp_all

lemma map_if_Nil: "map f (if c then xs else []) = (if c then map f xs else [])"
  by simp

lemma build_placeholders:
  assumes wf: "list_all wf_block bs" and pre: "placeholders pre = []"
  shows "placeholders (pre @ where_text (run_blocks bs init)
            @ [Lit tr, Slot (valctr (run_blocks bs init) + 1), Lit off,
               Slot (valctr (run_blocks bs init) + 2), Lit fin])
         = [1 ..< length (vals (run_blocks bs init) @ [v1, v2]) + 1]"
proof -
  let ?n = "sum_list (map (\<lambda>b. if bcond b then bk b else 0) bs)"
  have c: "valctr (run_blocks bs init) = ?n"
    by (simp add: run_blocks_valctr init_def)
  have w: "placeholders (where_text (run_blocks bs init)) = map Suc [0 ..< ?n]"
    using placeholders_texts_from [OF wf, of 0] by (simp add: run_blocks_text init_def)
  have v: "length (vals (run_blocks bs init)) = ?n"
    by (simp add: run_blocks_vals init_def length_vals_blocks [OF wf])
  have "placeholders (pre @ where_text (run_blocks bs init)
            @ [Lit tr, Slot (valctr (run_blocks bs init) + 1), Lit off,
               Slot (valctr (run_blocks bs init) + 2), Lit fin])
        = map Suc ([0 ..< ?n] @ [?n, Suc ?n])"
    by (simp add: pre w c)
  also have "[0 ..< ?n] @ [?n, Suc ?n] = [0 ..< Suc (Suc ?n)]"
    by simp
  also have "map Suc [0 ..< Suc (Suc ?n)] = [1 ..< length (vals (run_blocks bs init) @ [v1, v2]) + 1]"
    by (simp only: map_Suc_upt v length_append list.size) simp
  finally show ?thesis .
qed

lemma build_clause_texts:
  assumes wf: "list_all wf_block bs" and pre: "placeholders pre = []"
  shows "clause_texts (pre @ where_text (run_blocks bs init)
            @ [Lit tr, Slot (valctr (run_blocks bs init) + 1), Lit off,
               Slot (valctr (run_blocks bs init) + 2), Lit fin])
         = concat (map (\<lambda>b. if bcond b then owners [] (btmpl b 0) else []) bs) @ [tr, off]"
proof -
  let ?tail = "[Lit tr, Slot (valctr (run_blocks bs init) + 1), Lit off,
               Slot (valctr (run_blocks bs init) + 2), Lit fin]"
  have w: "where_text (run_blocks bs init) = texts_from 0 bs"
    by (simp add: run_blocks_text init_def)
  have s: "starts_lit (texts_from 0 bs @ ?tail)"
    using starts_lit_texts_from [OF wf, of 0] by (cases "texts_from 0 bs" rule: starts_lit.cases) simp_all
  have "owners [] (pre @ texts_from 0 bs @ ?tail) = owners [] pre @ owners [] (texts_from 0 bs @ ?tail)"
    by (rule owners_append_starts_lit [OF s])
  also have "owners [] (texts_from 0 bs @ ?tail) = owners [] (texts_from 0 bs) @ owners [] ?tail"
    by (rule owners_append_starts_lit) simp
  finally show ?thesis
    by (simp add: clause_texts_def w owners_no_slots [OF pre] owners_texts_from [OF wf])
qed

lemma placeholders_if_Lit [simp]: "placeholders (if c then [Lit s] else []) = []"
  by simp

lemma SearchCommands_bindings_fst:
  "concat (map (\<lambda>b. if bcond b then owners [] (btmpl b 0) else [])
       (SearchCommands_blocks env now1 now2 p ids fa)) @ [commands_trailer, '' OFFSET '']
   = map fst (SearchCommands_bindings env now1 now2 p ids fa)"
  by (simp add: SearchCommands_blocks_def SearchCommands_bindings_def foundanything_clause_def
        threat_clause_def map_if_Nil split del: if_split cong: if_cong)

lemma SearchCommands_bindings_snd:
  "vals (run_blocks (SearchCommands_blocks env now1 now2 p ids fa) init) @ limit_offset env p
   = map snd (SearchCommands_bindings env now1 now2 p ids fa)"
  unfolding run_blocks_vals
  by (simp add: init_def SearchCommands_blocks_def SearchCommands_bindings_def
        limit_offset_def map_if_Nil split del: if_split cong: if_cong)

lemma SearchCommands_build_query:
  "query (SearchCommands_build env now1 now2 p ids fa) =
     [Lit commands_select]
     @ where_text (run_blocks (SearchCommands_blocks env now1 now2 p ids fa) init)
     @ [Lit commands_trailer,
        Slot (valctr (run_blocks (SearchCommands_blocks env now1 now2 p ids fa) init) + 1),
        Lit '' OFFSET '',
        Slot (valctr (run_blocks (SearchCommands_blocks env now1 now2 p ids fa) init) + 2),
        Lit '';'']"
  by (simp only: SearchCommands_build_def Let_def built.select_convs SearchCommands_where_blocks)

lemma SearchCommands_build_args:
  "args (SearchCommands_build env now1 now2 p ids fa) =
     vals (run_blocks (SearchCommands_blocks env now1 now2 p ids fa) init)
     @ [VUint64 (Uint64 env (Limit p)), VUint64 (Uint64 env (Offset p))]"
  by (simp only: SearchCommands_build_def Let_def built.select_convs SearchCommands_where_blocks
        limit_offset_def)

lemma SearchCommands_C8:
  "placeholders (query (SearchCommands_build env now1 now2 p ids fa))
     = [1 ..< length (args (SearchCommands_build env now1 now2 p ids fa)) + 1]
   \<and> clause_texts (query (SearchCommands_build env now1 now2 p ids fa))
     = map fst (SearchCommands_bindings env now1 now2 p ids fa)
   \<and> args (SearchCommands_build env now1 now2 p ids fa)
     = map snd (SearchCommands_bindings env now1 now2 p ids fa)"
proof -
  have pre: "placeholders [Lit commands_select] = []" by simp
  have 1: "placeholders (query (SearchCommands_build env now1 now2 p ids fa))
     = [1 ..< length (args (SearchCommands_build env now1 now2 p ids fa)) + 1]"
    unfolding SearchCommands_build_query SearchCommands_build_args
    by (rule build_placeholders [OF wf_SearchCommands_blocks pre])
  have 2: "clause_texts (query (SearchCommands_build env now1 now2 p ids fa))
     = map fst (SearchCommands_bindings env now1 now2 p ids fa)"
    unfolding SearchCommands_build_query
    by (simp only: build_clause_texts [OF wf_SearchCommands_blocks pre] SearchCommands_bindings_fst)
  have 3: "args (SearchCommands_build env now1 now2 p ids fa)
     = map snd (SearchCommands_bindings env now1 now2 p ids fa)"
    unfolding SearchCommands_build_args
    by (rule SearchCommands_bindings_snd [unfolded limit_offset_def])
  show ?thesis
    using 1 2 3 by (intro conjI)
qed


lemma SearchActions_bindings_fst:
  "concat (map (\<lambda>b. if bcond b then owners [] (btmpl b 0) else [])
       (SearchActions_blocks now1 now2 p ids)) @ [actions_trailer, '' OFFSET '']
   = map fst (SearchActions_bindings env now1 now2 p ids)"
  by (simp add: SearchActions_blocks_def SearchActions_bindings_def threat_clause_def map_if_Nil
        split del: if_split cong: if_cong)

lemma SearchActions_bindings_snd:
  "vals (run_blocks (SearchActions_blocks now1 now2 p ids) init) @ limit_offset env p
   = map snd (SearchActions_bindings env now1 now2 p ids)"
  unfolding run_blocks_vals
  by (simp add: init_def SearchActions_blocks_def SearchActions_bindings_def
        limit_offset_def map_if_Nil split del: if_split cong: if_cong)

lemma SearchActions_build_query:
  "query (SearchActions_build env now1 now2 p ids) =
     ([Lit ''SELECT '', Lit actions_columns, Lit '' FROM actions '']
      @ SearchActions_join (run_blocks (SearchActions_blocks now1 now2 p ids) init) @ [Lit '' WHERE ''])
     @ where_text (run_blocks (SearchActions_blocks now1 now2 p ids) init)
     @ [Lit actions_trailer,
        Slot (valctr (run_blocks (SearchActions_blocks now1 now2 p ids) init) + 1),
        Lit '' OFFSET '',
        Slot (valctr (run_blocks (SearchActions_blocks now1 now2 p ids) init) + 2),
        Lit '';'']"
  by (simp only: SearchActions_build_def Let_def built.select_convs SearchActions_where_blocks append_assoc)

lemma SearchActions_build_args:
  "args (SearchActions_build env now1 now2 p ids) =
     vals (run_blocks (SearchActions_blocks now1 now2 p ids) init)
     @ [VUint64 (Uint64 env (Limit p)), VUint64 (Uint64 env (Offset p))]"
  by (simp only: SearchActions_build_def Let_def built.select_convs SearchActions_where_blocks
        limit_offset_def)

lemma SearchActions_pre:
  "placeholders ([Lit ''SELECT '', Lit actions_columns, Lit '' FROM actions '']
      @ SearchActions_join s @ [Lit '' WHERE '']) = []"
  by (simp add: SearchActions_join_def)

lemma SearchActions_C8:
  "placeholders (query (SearchActions_build env now1 now2 p ids))
     = [1 ..< length (args (SearchActions_build env now1 now2 p ids)) + 1]
   \<and> clause_texts (query (SearchActions_build env now1 now2 p ids))
     = map fst (SearchActions_bindings env now1 now2 p ids)
   \<and> args (SearchActions_build env now1 now2 p ids)
     = map snd (SearchActions_bindings env now1 now2 p ids)"
proof -
  have 1: "placeholders (query (SearchActions_build env now1 now2 p ids))
     = [1 ..< length (args (SearchActions_build env now1 now2 p ids)) + 1]"
    unfolding SearchActions_build_query SearchActions_build_args
    by (rule build_placeholders [OF wf_SearchActions_blocks SearchActions_pre])
  have 2: "clause_texts (query (SearchActions_build env now1 now2 p ids))
     = map fst (SearchActions_bindings env now1 now2 p ids)"
    unfolding SearchActions_build_query
    by (simp only: build_clause_texts [OF wf_SearchActions_blocks SearchActions_pre] SearchActions_bindings_fst)
  have 3: "args (SearchActions_build env now1 now2 p ids)
     = map snd (SearchActions_bindings env now1 now2 p ids)"
    unfolding SearchActions_build_args
    by (rule SearchActions_bindings_snd [unfolded limit_offset_def])
  show ?thesis
    using 1 2 3 by (intro conjI)
qed

lemma SearchAgents_bindings_fst:
  "concat (map (\<lambda>b. if bcond b then owners [] (btmpl b 0) else [])
       (SearchAgents_blocks now1 now2 p ids)) @ [agents_trailer, '' OFFSET '']
   = map fst (SearchAgents_bindings env now1 now2 p ids)"
  by (simp add: SearchAgents_blocks_def SearchAgents_bindings_def threat_clause_def map_if_Nil
        split del: if_split cong: if_cong)

lemma SearchAgents_bindings_snd:
  "vals (run_blocks (SearchAgents_blocks now1 now2 p ids) init) @ limit_offset env p
   = map snd (SearchAgents_bindings env now1 now2 p ids)"
  unfolding run_blocks_vals
  by (simp add: init_def SearchAgents_blocks_def SearchAgents_bindings_def
        limit_offset_def map_if_Nil split del: if_split cong: if_cong)

lemma SearchAgents_build_query:
  "query (SearchAgents_build env now1 now2 p ids) =
     ([Lit ''SELECT '', Lit agents_columns, Lit '' FROM agents '']
      @ SearchAgents_join (run_blocks (SearchAgents_blocks now1 now2 p ids) init) @ [Lit '' WHERE ''])
     @ where_text (run_blocks (SearchAgents_blocks now1 now2 p ids) init)
     @ [Lit agents_trailer,
        Slot (valctr (run_blocks (SearchAgents_blocks now1 now2 p ids) init) + 1),
        Lit '' OFFSET '',
        Slot (valctr (run_blocks (SearchAgents_blocks now1 now2 p ids) init) + 2),
        Lit '';'']"
  by (simp only: SearchAgents_build_def Let_def built.select_convs SearchAgents_where_blocks append_assoc)

lemma SearchAgents_build_args:
  "args (SearchAgents_build env now1 now2 p ids) =
     vals (run_blocks (SearchAgents_blocks now1 now2 p ids) init)
     @ [VUint64 (Uint64 env (Limit p)), VUint64 (Uint64 env (Offset p))]"
  by (simp only: SearchAgents_build_def Let_def built.select_convs SearchAgents_where_blocks
        limit_offset_def)

lemma SearchAgents_pre:
  "placeholders ([Lit ''SELECT '', Lit agents_columns, Lit '' FROM agents '']
      @ SearchAgents_join s @ [Lit '' WHERE '']) = []"
  by (simp add: SearchAgents_join_def)

lemma SearchAgents_C8:
  "placeholders (query (SearchAgents_build env now1 now2 p ids))
     = [1 ..< length (args (SearchAgents_build env now1 now2 p ids)) + 1]
   \<and> clause_texts (query (SearchAgents_build env now1 now2 p ids))
     = map fst (SearchAgents_bindings env now1 now2 p ids)
   \<and> args (SearchAgents_build env now1 now2 p ids)
     = map snd (SearchAgents_bindings env now1 now2 p ids)"
proof -
  have 1: "placeholders (query (SearchAgents_build env now1 now2 p ids))
     = [1 ..< length (args (SearchAgents_build env now1 now2 p ids)) + 1]"
    unfolding SearchAgents_build_query SearchAgents_build_args
    by (rule build_placeholders [OF wf_SearchAgents_blocks SearchAgents_pre])
  have 2: "clause_texts (query (SearchAgents_build env now1 now2 p ids))
     = map fst (SearchAgents_bindings env now1 now2 p ids)"
    unfolding SearchAgents_build_query
    by (simp only: build_clause_texts [OF wf_SearchAgents_blocks SearchAgents_pre] SearchAgents_bindings_fst)
  have 3: "args (SearchAgents_build env now1 now2 p ids)
     = map snd (SearchAgents_bindings env now1 now2 p ids)"
    unfolding SearchAgents_build_args
    by (rule SearchAgents_bindings_snd [unfolded limit_offset_def])
  show ?thesis
    using 1 2 3 by (intro conjI)
qed

lemma SearchInvestigators_bindings_fst:
  "concat (map (\<lambda>b. if bcond b then owners [] (btmpl b 0) else [])
       (SearchInvestigators_blocks now1 now2 p ids)) @ [investigators_trailer, '' OFFSET '']
   = map fst (SearchInvestigators_bindings env now1 now2 p ids)"
  by (simp add: SearchInvestigators_blocks_def SearchInvestigators_bindings_def threat_clause_def map_if_Nil
        split del: if_split cong: if_cong)

lemma SearchInvestigators_bindings_snd:
  "vals (run_blocks (SearchInvestigators_blocks now1 now2 p ids) init) @ limit_offset env p
   = map snd (SearchInvestigators_bindings env now1 now2 p ids)"
  unfolding run_blocks_vals
  by (simp add: init_def SearchInvestigators_blocks_def SearchInvestigators_bindings_def
        limit_offset_def map_if_Nil split del: if_split cong: if_cong)

lemma SearchInvestigators_build_query:
  "query (SearchInvestigators_build env now1 now2 p ids) =
     ([Lit ''SELECT '', Lit investigators_columns, Lit '' FROM investigators '']
      @ SearchInvestigators_join (run_blocks (SearchInvestigators_blocks now1 now2 p ids) init) @ [Lit '' WHERE ''])
     @ where_text (run_blocks (SearchInvestigators_blocks now1 now2 p ids) init)
     @ [Lit investigators_trailer,
        Slot (valctr (run_blocks (SearchInvestigators_blocks now1 now2 p ids) init) + 1),
        Lit '' OFFSET '',
        Slot (valctr (run_blocks (SearchInvestigators_blocks now1 now2 p ids) init) + 2),
        Lit '';'']"
  by (simp only: SearchInvestigators_build_def Let_def built.select_convs SearchInvestigators_where_blocks append_assoc)

lemma SearchInvestigators_build_args:
  "args (SearchInvestigators_build env now1 now2 p ids) =
     vals (run_blocks (SearchInvestigators_blocks now1 now2 p ids) init)
     @ [VUint64 (Uint64 env (Limit p)), VUint64 (Uint64 env (Offset p))]"
  by (simp only: SearchInvestigators_build_def Let_def built.select_convs SearchInvestigators_where_blocks
        limit_offset_def)

lemma SearchInvestigators_pre:
  "placeholders ([Lit ''SELECT '', Lit investigators_columns, Lit '' FROM investigators '']
      @ SearchInvestigators_join s @ [Lit '' WHERE '']) = []"
  by (simp add: SearchInvestigators_join_def)

lemma SearchInvestigators_C8:
  "placeholders (query (SearchInvestigators_build env now1 now2 p ids))
     = [1 ..< length (args (SearchInvestigators_build env now1 now2 p ids)) + 1]
   \<and> clause_texts (query (SearchInvestigators_build env now1 now2 p ids))
     = map fst (SearchInvestigators_bindings env now1 now2 p ids)
   \<and> args (SearchInvestigators_build env now1 now2 p ids)
     = map snd (SearchInvestigators_bindings env now1 now2 p ids)"
proof -
  have 1: "placeholders (query (SearchInvestigators_build env now1 now2 p ids))
     = [1 ..< length (args (SearchInvestigators_build env now1 now2 p ids)) + 1]"
    unfolding SearchInvestigators_build_query SearchInvestigators_build_args
    by (rule build_placeholders [OF wf_SearchInvestigators_blocks SearchInvestigators_pre])
  have 2: "clause_texts (query (SearchInvestigators_build env now1 now2 p ids))
     = map fst (SearchInvestigators_bindings env now1 now2 p ids)"
    unfolding SearchInvestigators_build_query
    by (simp only: build_clause_texts [OF wf_SearchInvestigators_blocks SearchInvestigators_pre] SearchInvestigators_bindings_fst)
  have 3: "args (SearchInvestigators_build env now1 now2 p ids)
     = map snd (SearchInvestigators_bindings env now1 now2 p ids)"
    unfolding SearchInvestigators_build_args
    by (rule SearchInvestigators_bindings_snd [unfolded limit_offset_def])
  show ?thesis
    using 1 2 3 by (intro conjI)
qed

lemma last_two_args:
  "drop (length (args (SearchCommands_build env now1 now2 p ids fa)) - 2)
       (args (SearchCommands_build env now1 now2 p ids fa)) = limit_offset env p
   \<and> drop (length (args (SearchActions_build env now1 now2 p ids)) - 2)
       (args (SearchActions_build env now1 now2 p ids)) = limit_offset env p
   \<and> drop (length (args (SearchAgents_build env now1 now2 p ids)) - 2)
       (args (SearchAgents_build env now1 now2 p ids)) = limit_offset env p
   \<and> drop (length (args (SearchInvestigators_build env now1 now2 p ids)) - 2)
       (args (SearchInvestigators_build env now1 now2 p ids)) = limit_offset env p"
  by (simp add: SearchCommands_build_args SearchActions_build_args SearchAgents_build_args
        SearchInvestigators_build_args limit_offset_def)

text \<open>
  C8.  In each of the four built queries the placeholders are \<open>$1\<close> to \<open>$N\<close>, in this order,
  where \<open>N\<close> is the number of bound values; the literal text in front of the \<open>k\<close>-th
  placeholder and the \<open>k\<close>-th bound value are the \<open>k\<close>-th pair of the bindings that section 4.4
  lists for the active filters (two for a range, one for a pattern, four for the
  found-anything clause), and the last two pairs are \<^verbatim>\<open>LIMIT\<close> with \<^verbatim>\<open>uint64(p.Limit)\<close>
  and \<^verbatim>\<open>OFFSET\<close> with \<^verbatim>\<open>uint64(p.Offset)\<close>: the last two bound values are these two.
\<close>

theorem C8_placeholders_and_values:
  "(placeholders (query (SearchCommands_build env now1 now2 p ids doFoundAnything))
      = [1 ..< length (args (SearchCommands_build env now1 now2 p ids doFoundAnything)) + 1]
    \<and> clause_texts (query (SearchCommands_build env now1 now2 p ids doFoundAnything))
      = map fst (SearchCommands_bindings env now1 now2 p ids doFoundAnything)
    \<and> args (SearchCommands_build env now1 now2 p ids doFoundAnything)
      = map snd (SearchCommands_bindings env now1 now2 p ids doFoundAnything))
   \<and> (placeholders (query (SearchActions_build env now1 now2 p ids))
      = [1 ..< length (args (SearchActions_build env now1 now2 p ids)) + 1]
    \<and> clause_texts (query (SearchActions_build env now1 now2 p ids))
      = map fst (SearchActions_bindings env now1 now2 p ids)
    \<and> args (SearchActions_build env now1 now2 p ids)
      = map snd (SearchActions_bindings env now1 now2 p ids))
   \<and> (placeholders (query (SearchAgents_build env now1 now2 p ids))
      = [1 ..< length (args (SearchAgents_build env now1 now2 p ids)) + 1]
    \<and> clause_texts (query (SearchAgents_build env now1 now2 p ids))
      = map fst (SearchAgents_bindings env now1 now2 p ids)
    \<and> args (SearchAgents_build env now1 now2 p ids)
      = map snd (SearchAgents_bindings env now1 now2 p ids))
   \<and> (placeholders (query (SearchInvestigators_build env now1 now2 p ids))
      = [1 ..< length (args (SearchInvestigators_build env now1 now2 p ids)) + 1]
    \<and> clause_texts (query (SearchInvestigators_build env now1 now2 p ids))
      = map fst (SearchInvestigators_bindings env now1 now2 p ids)
    \<and> args (SearchInvestigators_build env now1 now2 p ids)
      = map snd (SearchInvestigators_bindings env now1 now2 p ids))
   \<and> (drop (length (args (SearchCommands_build env now1 now2 p ids doFoundAnything)) - 2)
         (args (SearchCommands_build env now1 now2 p ids doFoundAnything)) = limit_offset env p
    \<and> drop (length (args (SearchActions_build env now1 now2 p ids)) - 2)
         (args (SearchActions_build env now1 now2 p ids)) = limit_offset env p
    \<and> drop (length (args (SearchAgents_build env now1 now2 p ids)) - 2)
         (args (SearchAgents_build env now1 now2 p ids)) = limit_offset env p
    \<and> drop (length (args (SearchInvestigators_build env now1 now2 p ids)) - 2)
         (args (SearchInvestigators_build env now1 now2 p ids)) = limit_offset env p)"
  using last_two_args [of env now1 now2 p ids doFoundAnything]
    SearchCommands_C8 [of env now1 now2 p ids doFoundAnything]
    SearchActions_C8 [of env now1 now2 p ids] SearchAgents_C8 [of env now1 now2 p ids]
    SearchInvestigators_C8 [of env now1 now2 p ids]
  by (intro conjI) blast+

subsection \<open>Joined tables\<close>

lemma query_joins_append [simp]: "query_joins (xs @ ys) = query_joins xs @ query_joins ys"
  by (simp add: query_joins_def)

lemma query_joins_Cons [simp]: "query_joins (t # ts) = token_words ''INNER JOIN '' t @ query_joins ts"
  by (simp add: query_joins_def)

lemma query_joins_Nil [simp]: "query_joins [] = []"
  by (simp add: query_joins_def)

lemma token_words_simps [simp]:
  "token_words kw (Lit s) = words_after kw s"
  "token_words kw (Slot n) = []"
  by (simp_all add: token_words_def)

lemma no_words: "list_all (\<lambda>t. f t = []) ts \<Longrightarrow> concat (map f ts) = []"
  by (simp add: list_all_iff)

lemma words_commands_select:
  "words_after ''INNER JOIN '' commands_select = [''actions'', ''signatures'', ''investigators'', ''agents'']"
  by code_simp

lemma words_columns:
  "words_after ''INNER JOIN '' actions_columns = []"
  "words_after ''INNER JOIN '' agents_columns = []"
  "words_after ''INNER JOIN '' investigators_columns = []"
  by code_simp+

lemma words_trailers:
  "words_after ''INNER JOIN '' commands_trailer = []"
  "words_after ''INNER JOIN '' actions_trailer = []"
  "words_after ''INNER JOIN '' agents_trailer = []"
  "words_after ''INNER JOIN '' investigators_trailer = []"
  by code_simp+

lemma words_joins:
  "words_after ''INNER JOIN '' join_signatures_investigators = [''signatures'', ''investigators'']"
  "words_after ''INNER JOIN '' join_signatures_actions = [''signatures'', ''actions'']"
  by code_simp+

lemma words_clauses:
  "words_after ''INNER JOIN '' threat_text = []"
  "words_after ''INNER JOIN '' foundanything_text1 = []"
  "words_after ''INNER JOIN '' foundanything_text2 = []"
  by code_simp+

lemma SearchCommands_where_no_joins:
  "query_joins (where_text (run_blocks (SearchCommands_blocks env now1 now2 p ids fa) init)) = []"
  unfolding run_blocks_text query_joins_def
  by (rule no_words, simp add: init_def, rule texts_from_all)
     (simp_all add: SearchCommands_blocks_def foundanything_clause_def threat_clause_def words_clauses)

lemma SearchActions_where_no_joins:
  "query_joins (where_text (run_blocks (SearchActions_blocks now1 now2 p ids) init)) = []"
  unfolding run_blocks_text query_joins_def
  by (rule no_words, simp add: init_def, rule texts_from_all)
     (simp_all add: SearchActions_blocks_def threat_clause_def words_clauses)

lemma SearchAgents_where_no_joins:
  "query_joins (where_text (run_blocks (SearchAgents_blocks now1 now2 p ids) init)) = []"
  unfolding run_blocks_text query_joins_def
  by (rule no_words, simp add: init_def, rule texts_from_all)
     (simp_all add: SearchAgents_blocks_def threat_clause_def words_clauses)

lemma SearchInvestigators_where_no_joins:
  "query_joins (where_text (run_blocks (SearchInvestigators_blocks now1 now2 p ids) init)) = []"
  unfolding run_blocks_text query_joins_def
  by (rule no_words, simp add: init_def, rule texts_from_all)
     (simp_all add: SearchInvestigators_blocks_def threat_clause_def words_clauses)

lemma init_flags [simp]: "has_flag g init = False"
  by (cases g) (simp_all add: init_def)

lemma flags_blocks:
  "joinAction (run_blocks bs init) = list_ex (\<lambda>b. bcond b \<and> JAction \<in> set (bflags b)) bs"
  "joinAgent (run_blocks bs init) = list_ex (\<lambda>b. bcond b \<and> JAgent \<in> set (bflags b)) bs"
  "joinCommand (run_blocks bs init) = list_ex (\<lambda>b. bcond b \<and> JCommand \<in> set (bflags b)) bs"
  "joinInvestigator (run_blocks bs init)
     = list_ex (\<lambda>b. bcond b \<and> JInvestigator \<in> set (bflags b)) bs"
  using run_blocks_has [of JAction bs init] run_blocks_has [of JAgent bs init]
    run_blocks_has [of JCommand bs init] run_blocks_has [of JInvestigator bs init]
  by (simp_all add: init_def)

lemma SearchActions_flags:
  "joinCommand (run_blocks (SearchActions_blocks now1 now2 p ids) init)
     = (agent_filter p \<or> command_filter p)"
  "joinAgent (run_blocks (SearchActions_blocks now1 now2 p ids) init) = agent_filter p"
  "joinInvestigator (run_blocks (SearchActions_blocks now1 now2 p ids) init) = investigator_filter p"
  unfolding flags_blocks
  by (auto simp add: SearchActions_blocks_def agent_filter_def command_filter_def
        investigator_filter_def)

lemma SearchAgents_flags:
  "joinCommand (run_blocks (SearchAgents_blocks now1 now2 p ids) init)
     = (action_filter p \<or> investigator_filter p \<or> command_filter p)"
  "joinAction (run_blocks (SearchAgents_blocks now1 now2 p ids) init)
     = (action_filter p \<or> investigator_filter p)"
  "joinInvestigator (run_blocks (SearchAgents_blocks now1 now2 p ids) init) = investigator_filter p"
  unfolding flags_blocks
  by (auto simp add: SearchAgents_blocks_def action_filter_def command_filter_def
        investigator_filter_def)

lemma SearchInvestigators_flags:
  "joinAction (run_blocks (SearchInvestigators_blocks now1 now2 p ids) init)
     = (action_filter p \<or> command_filter p \<or> agent_filter p)"
  "joinCommand (run_blocks (SearchInvestigators_blocks now1 now2 p ids) init)
     = (command_filter p \<or> agent_filter p)"
  "joinAgent (run_blocks (SearchInvestigators_blocks now1 now2 p ids) init) = agent_filter p"
  unfolding flags_blocks
  by (auto simp add: SearchInvestigators_blocks_def action_filter_def command_filter_def
        agent_filter_def)

lemma query_joins_if:
  "query_joins (if c then [Lit s] else []) = (if c then words_after ''INNER JOIN '' s else [])"
  by simp

lemma words_short:
  "words_after ''INNER JOIN '' ''SELECT '' = []"
  "words_after ''INNER JOIN '' '' FROM actions '' = []"
  "words_after ''INNER JOIN '' '' FROM agents '' = []"
  "words_after ''INNER JOIN '' '' FROM investigators '' = []"
  "words_after ''INNER JOIN '' '' WHERE '' = []"
  "words_after ''INNER JOIN '' '' OFFSET '' = []"
  "words_after ''INNER JOIN '' '';'' = []"
  "words_after ''INNER JOIN '' ''INNER JOIN commands ON ( commands.actionid = actions.id) ''
     = [''commands'']"
  "words_after ''INNER JOIN '' ''INNER JOIN commands ON ( commands.agentid = agents.id) ''
     = [''commands'']"
  "words_after ''INNER JOIN '' '' INNER JOIN agents ON ( commands.agentid = agents.id ) ''
     = [''agents'']"
  "words_after ''INNER JOIN '' '' INNER JOIN actions ON ( commands.actionid = actions.id ) ''
     = [''actions'']"
  by code_simp+

lemmas joins_simps =
  query_joins_append query_joins_Cons query_joins_Nil query_joins_if token_words_simps
  words_short words_columns words_trailers words_joins words_commands_select
  append_Nil append_Nil2 append_Cons append_assoc

lemma SearchCommands_joins:
  "query_joins (query (SearchCommands_build env now1 now2 p ids fa)) = spec_joins_Commands"
  unfolding SearchCommands_build_query
  by (simp only: joins_simps SearchCommands_where_no_joins spec_joins_Commands_def)

lemma SearchActions_joins:
  "query_joins (query (SearchActions_build env now1 now2 p ids)) = spec_joins_Actions p"
  unfolding SearchActions_build_query
  by (simp only: joins_simps SearchActions_where_no_joins SearchActions_join_def
        SearchActions_flags spec_joins_Actions_def Let_def)

lemma SearchAgents_joins:
  "query_joins (query (SearchAgents_build env now1 now2 p ids)) = spec_joins_Agents p"
  unfolding SearchAgents_build_query
  by (simp only: joins_simps SearchAgents_where_no_joins SearchAgents_join_def
        SearchAgents_flags spec_joins_Agents_def Let_def)

lemma SearchInvestigators_joins:
  "query_joins (query (SearchInvestigators_build env now1 now2 p ids)) = spec_joins_Investigators p"
  unfolding SearchInvestigators_build_query
  by (simp only: joins_simps SearchInvestigators_where_no_joins SearchInvestigators_join_def
        SearchInvestigators_flags spec_joins_Investigators_def Let_def)

lemma spec_joins_distinct:
  "distinct (spec_joins_Actions p)" "distinct (spec_joins_Agents p)"
  "distinct (spec_joins_Investigators p)" "distinct spec_joins_Commands"
  by (simp_all add: spec_joins_Actions_def spec_joins_Agents_def spec_joins_Investigators_def
        spec_joins_Commands_def)

text \<open>
  C1.  The tables that follow \<^verbatim>\<open>INNER JOIN\<close> in the text of each built query are, in this
  order and each once, the tables that the rules of section 4.3 require for the filters
  that are set; the commands search joins actions, signatures, investigators and agents
  whatever the filters.
\<close>

theorem C1_joined_tables:
  "query_joins (query (SearchActions_build env now1 now2 p ids)) = spec_joins_Actions p
   \<and> query_joins (query (SearchAgents_build env now1 now2 p ids)) = spec_joins_Agents p
   \<and> query_joins (query (SearchInvestigators_build env now1 now2 p ids)) = spec_joins_Investigators p
   \<and> query_joins (query (SearchCommands_build env now1 now2 p ids doFoundAnything))
       = [''actions'', ''signatures'', ''investigators'', ''agents'']
   \<and> distinct (query_joins (query (SearchActions_build env now1 now2 p ids)))
   \<and> distinct (query_joins (query (SearchAgents_build env now1 now2 p ids)))
   \<and> distinct (query_joins (query (SearchInvestigators_build env now1 now2 p ids)))
   \<and> distinct (query_joins (query (SearchCommands_build env now1 now2 p ids doFoundAnything)))"
  by (simp only: SearchActions_joins SearchAgents_joins SearchInvestigators_joins
        SearchCommands_joins spec_joins_distinct simp_thms)
     (simp add: spec_joins_Commands_def)

subsection \<open>The time window\<close>

lemma sublist_Cons_eval:
  "sublist (x # xs) (y # ys) \<longleftrightarrow> (x = y \<and> prefix xs ys) \<or> sublist (x # xs) ys"
  by (simp add: sublist_Cons_right)

lemma mentions_simps [simp]:
  "mentions col (Lit s) = sublist col s"
  "mentions col (Slot n) = False"
  by (simp_all add: mentions_def)

lemma not_beforeActive:
  "defaultSearchPeriod \<le> D \<Longrightarrow> \<bar>unix_nano (Before p) - (unix_nano now + D)\<bar> \<le> Hour
     \<Longrightarrow> \<not> beforeActive now p"
  by (simp add: beforeActive_def time_Before_def Add_def)

lemma not_afterActive:
  "defaultSearchPeriod \<le> D \<Longrightarrow> \<bar>unix_nano (After p) - (unix_nano now - D)\<bar> \<le> Hour
     \<Longrightarrow> \<not> afterActive now p"
  by (simp add: afterActive_def time_After_def Add_def)

lemma timestamps_append [simp]: "timestamps (xs @ ys) = timestamps xs @ timestamps ys"
  by (induction xs rule: timestamps.induct) simp_all

lemma timestamps_if: "timestamps (if c then xs else []) = (if c then timestamps xs else [])"
  by simp

lemma timestamps_SearchCommands:
  "timestamps (args (SearchCommands_build env now1 now2 p ids fa))
     = (if beforeActive now1 p then [Before p] else []) @ (if afterActive now2 p then [After p] else [])"
  unfolding SearchCommands_build_args run_blocks_vals
  by (simp add: init_def SearchCommands_blocks_def timestamps_if split del: if_split cong: if_cong)

lemma timestamps_SearchActions:
  "timestamps (args (SearchActions_build env now1 now2 p ids))
     = (if beforeActive now1 p then [Before p] else []) @ (if afterActive now2 p then [After p] else [])"
  unfolding SearchActions_build_args run_blocks_vals
  by (simp add: init_def SearchActions_blocks_def timestamps_if split del: if_split cong: if_cong)

lemma timestamps_SearchAgents:
  "timestamps (args (SearchAgents_build env now1 now2 p ids))
     = (if beforeActive now1 p then [Before p] else []) @ (if afterActive now2 p then [After p] else [])"
  unfolding SearchAgents_build_args run_blocks_vals
  by (simp add: init_def SearchAgents_blocks_def timestamps_if split del: if_split cong: if_cong)

lemma timestamps_SearchInvestigators:
  "timestamps (args (SearchInvestigators_build env now1 now2 p ids))
     = (if beforeActive now1 p then [Before p] else []) @ (if afterActive now2 p then [After p] else [])"
  unfolding SearchInvestigators_build_args run_blocks_vals
  by (simp add: init_def SearchInvestigators_blocks_def timestamps_if
        split del: if_split cong: if_cong)


lemma list_all_if_Lit: "list_all P (if c then [Lit s] else []) = (c \<longrightarrow> P (Lit s))"
  by simp

lemma where_all:
  assumes "list_all (\<lambda>b. bcond b \<longrightarrow> (\<forall>c. list_all P (btmpl b c))) bs" and "P (Lit '' AND '')"
  shows "list_all P (where_text (run_blocks bs init))"
  unfolding run_blocks_text using texts_from_all [OF assms] by (simp add: init_def)

lemmas text_defs =
  threat_clause_def foundanything_clause_def threat_text_def foundanything_text1_def
  foundanything_text2_def NL_def TAB_def

lemma no_before_SearchCommands:
  assumes "\<not> beforeActive now1 p"
  shows "list_all (\<lambda>t. \<not> mentions ''commands.starttime <='' t) (query (SearchCommands_build env now1 now2 p ids fa))"
proof -
  have w: "list_all (\<lambda>t. \<not> mentions ''commands.starttime <='' t) (where_text (run_blocks (SearchCommands_blocks env now1 now2 p ids fa) init))"
    by (rule where_all) (simp_all add: SearchCommands_blocks_def assms text_defs sublist_Cons_eval)
  have o: "list_all (\<lambda>t. \<not> mentions ''commands.starttime <='' t) (query (SearchCommands_build env now1 now2 p ids fa))
           = list_all (\<lambda>t. \<not> mentions ''commands.starttime <='' t) (where_text (run_blocks (SearchCommands_blocks env now1 now2 p ids fa) init))"
    unfolding SearchCommands_build_query
    by (simp add: commands_select_def commands_trailer_def NL_def TAB_def sublist_Cons_eval list_all_if_Lit)
  show ?thesis
    using w o by simp
qed

lemma no_after_SearchCommands:
  assumes "\<not> afterActive now2 p"
  shows "list_all (\<lambda>t. \<not> mentions ''commands.starttime >='' t) (query (SearchCommands_build env now1 now2 p ids fa))"
proof -
  have w: "list_all (\<lambda>t. \<not> mentions ''commands.starttime >='' t) (where_text (run_blocks (SearchCommands_blocks env now1 now2 p ids fa) init))"
    by (rule where_all) (simp_all add: SearchCommands_blocks_def assms text_defs sublist_Cons_eval)
  have o: "list_all (\<lambda>t. \<not> mentions ''commands.starttime >='' t) (query (SearchCommands_build env now1 now2 p ids fa))
           = list_all (\<lambda>t. \<not> mentions ''commands.starttime >='' t) (where_text (run_blocks (SearchCommands_blocks env now1 now2 p ids fa) init))"
    unfolding SearchCommands_build_query
    by (simp add: commands_select_def commands_trailer_def NL_def TAB_def sublist_Cons_eval list_all_if_Lit)
  show ?thesis
    using w o by simp
qed

lemma no_before_SearchActions:
  assumes "\<not> beforeActive now1 p"
  shows "list_all (\<lambda>t. \<not> mentions ''actions.expireafter <='' t) (query (SearchActions_build env now1 now2 p ids))"
proof -
  have w: "list_all (\<lambda>t. \<not> mentions ''actions.expireafter <='' t) (where_text (run_blocks (SearchActions_blocks now1 now2 p ids) init))"
    by (rule where_all) (simp_all add: SearchActions_blocks_def assms text_defs sublist_Cons_eval)
  have o: "list_all (\<lambda>t. \<not> mentions ''actions.expireafter <='' t) (query (SearchActions_build env now1 now2 p ids))
           = list_all (\<lambda>t. \<not> mentions ''actions.expireafter <='' t) (where_text (run_blocks (SearchActions_blocks now1 now2 p ids) init))"
    unfolding SearchActions_build_query
    by (simp add: actions_columns_def actions_trailer_def SearchActions_join_def join_signatures_investigators_def NL_def TAB_def sublist_Cons_eval list_all_if_Lit)
  show ?thesis
    using w o by simp
qed

lemma no_after_SearchActions:
  assumes "\<not> afterActive now2 p"
  shows "list_all (\<lambda>t. \<not> mentions ''actions.validfrom >='' t) (query (SearchActions_build env now1 now2 p ids))"
proof -
  have w: "list_all (\<lambda>t. \<not> mentions ''actions.validfrom >='' t) (where_text (run_blocks (SearchActions_blocks now1 now2 p ids) init))"
    by (rule where_all) (simp_all add: SearchActions_blocks_def assms text_defs sublist_Cons_eval)
  have o: "list_all (\<lambda>t. \<not> mentions ''actions.validfrom >='' t) (query (SearchActions_build env now1 now2 p ids))
           = list_all (\<lambda>t. \<not> mentions ''actions.validfrom >='' t) (where_text (run_blocks (SearchActions_blocks now1 now2 p ids) init))"
    unfolding SearchActions_build_query
    by (simp add: actions_columns_def actions_trailer_def SearchActions_join_def join_signatures_investigators_def NL_def TAB_def sublist_Cons_eval list_all_if_Lit)
  show ?thesis
    using w o by simp
qed

lemma no_before_SearchAgents:
  assumes "\<not> beforeActive now1 p"
  shows "list_all (\<lambda>t. \<not> mentions ''agents.heartbeattime <='' t) (query (SearchAgents_build env now1 now2 p ids))"
proof -
  have w: "list_all (\<lambda>t. \<not> mentions ''agents.heartbeattime <='' t) (where_text (run_blocks (SearchAgents_blocks now1 now2 p ids) init))"
    by (rule where_all) (simp_all add: SearchAgents_blocks_def assms text_defs sublist_Cons_eval)
  have o: "list_all (\<lambda>t. \<not> mentions ''agents.heartbeattime <='' t) (query (SearchAgents_build env now1 now2 p ids))
           = list_all (\<lambda>t. \<not> mentions ''agents.heartbeattime <='' t) (where_text (run_blocks (SearchAgents_blocks now1 now2 p ids) init))"
    unfolding SearchAgents_build_query
    by (simp add: agents_columns_def agents_trailer_def SearchAgents_join_def join_signatures_investigators_def NL_def TAB_def sublist_Cons_eval list_all_if_Lit)
  show ?thesis
    using w o by simp
qed

lemma no_after_SearchAgents:
  assumes "\<not> afterActive now2 p"
  shows "list_all (\<lambda>t. \<not> mentions ''agents.heartbeattime >='' t) (query (SearchAgents_build env now1 now2 p ids))"
proof -
  have w: "list_all (\<lambda>t. \<not> mentions ''agents.heartbeattime >='' t) (where_text (run_blocks (SearchAgents_blocks now1 now2 p ids) init))"
    by (rule where_all) (simp_all add: SearchAgents_blocks_def assms text_defs sublist_Cons_eval)
  have o: "list_all (\<lambda>t. \<not> mentions ''agents.heartbeattime >='' t) (query (SearchAgents_build env now1 now2 p ids))
           = list_all (\<lambda>t. \<not> mentions ''agents.heartbeattime >='' t) (where_text (run_blocks (SearchAgents_blocks now1 now2 p ids) init))"
    unfolding SearchAgents_build_query
    by (simp add: agents_columns_def agents_trailer_def SearchAgents_join_def join_signatures_investigators_def NL_def TAB_def sublist_Cons_eval list_all_if_Lit)
  show ?thesis
    using w o by simp
qed

lemma no_before_SearchInvestigators:
  assumes "\<not> beforeActive now1 p"
  shows "list_all (\<lambda>t. \<not> mentions ''investigators.lastmodified <='' t) (query (SearchInvestigators_build env now1 now2 p ids))"
proof -
  have w: "list_all (\<lambda>t. \<not> mentions ''investigators.lastmodified <='' t) (where_text (run_blocks (SearchInvestigators_blocks now1 now2 p ids) init))"
    by (rule where_all) (simp_all add: SearchInvestigators_blocks_def assms text_defs sublist_Cons_eval)
  have o: "list_all (\<lambda>t. \<not> mentions ''investigators.lastmodified <='' t) (query (SearchInvestigators_build env now1 now2 p ids))
           = list_all (\<lambda>t. \<not> mentions ''investigators.lastmodified <='' t) (where_text (run_blocks (SearchInvestigators_blocks now1 now2 p ids) init))"
    unfolding SearchInvestigators_build_query
    by (simp add: investigators_columns_def investigators_trailer_def SearchInvestigators_join_def join_signatures_actions_def NL_def TAB_def sublist_Cons_eval list_all_if_Lit)
  show ?thesis
    using w o by simp
qed

lemma no_after_SearchInvestigators:
  assumes "\<not> afterActive now2 p"
  shows "list_all (\<lambda>t. \<not> mentions ''investigators.lastmodified >='' t) (query (SearchInvestigators_build env now1 now2 p ids))"
proof -
  have w: "list_all (\<lambda>t. \<not> mentions ''investigators.lastmodified >='' t) (where_text (run_blocks (SearchInvestigators_blocks now1 now2 p ids) init))"
    by (rule where_all) (simp_all add: SearchInvestigators_blocks_def assms text_defs sublist_Cons_eval)
  have o: "list_all (\<lambda>t. \<not> mentions ''investigators.lastmodified >='' t) (query (SearchInvestigators_build env now1 now2 p ids))
           = list_all (\<lambda>t. \<not> mentions ''investigators.lastmodified >='' t) (where_text (run_blocks (SearchInvestigators_blocks now1 now2 p ids) init))"
    unfolding SearchInvestigators_build_query
    by (simp add: investigators_columns_def investigators_trailer_def SearchInvestigators_join_def join_signatures_actions_def NL_def TAB_def sublist_Cons_eval list_all_if_Lit)
  show ?thesis
    using w o by simp
qed


text \<open>
  C5.  The boundary of the time window is the clock plus or minus a period \<open>D\<close> that is at
  least \<open>defaultSearchPeriod\<close>: the period of the code itself, or the ten years that its
  comment and the specification name.  In each of the four searches, a \<open>Before\<close> within one
  hour of the clock plus \<open>D\<close> puts no \<open><=\<close> predicate on the time column into the query text
  and binds no timestamp for it: the only timestamp that can be bound is \<open>After\<close>, by the
  other test.  Likewise an \<open>After\<close> within one hour of the clock minus \<open>D\<close> gives no \<open>>=\<close>
  predicate and no timestamp.  So a time predicate is emitted only when the bound is more
  than one hour away from the boundary.
\<close>

theorem C5_time_window:
  assumes "defaultSearchPeriod \<le> D"
  shows "(\<bar>unix_nano (Before p) - (unix_nano now1 + D)\<bar> \<le> Hour \<longrightarrow>
           list_all (\<lambda>t. \<not> mentions ''commands.starttime <='' t) (query (SearchCommands_build env now1 now2 p ids doFoundAnything))
         \<and> timestamps (args (SearchCommands_build env now1 now2 p ids doFoundAnything)) = (if afterActive now2 p then [After p] else [])
         \<and> list_all (\<lambda>t. \<not> mentions ''actions.expireafter <='' t) (query (SearchActions_build env now1 now2 p ids))
         \<and> timestamps (args (SearchActions_build env now1 now2 p ids)) = (if afterActive now2 p then [After p] else [])
         \<and> list_all (\<lambda>t. \<not> mentions ''agents.heartbeattime <='' t) (query (SearchAgents_build env now1 now2 p ids))
         \<and> timestamps (args (SearchAgents_build env now1 now2 p ids)) = (if afterActive now2 p then [After p] else [])
         \<and> list_all (\<lambda>t. \<not> mentions ''investigators.lastmodified <='' t) (query (SearchInvestigators_build env now1 now2 p ids))
         \<and> timestamps (args (SearchInvestigators_build env now1 now2 p ids)) = (if afterActive now2 p then [After p] else []))
       \<and> (\<bar>unix_nano (After p) - (unix_nano now2 - D)\<bar> \<le> Hour \<longrightarrow>
           list_all (\<lambda>t. \<not> mentions ''commands.starttime >='' t) (query (SearchCommands_build env now1 now2 p ids doFoundAnything))
         \<and> timestamps (args (SearchCommands_build env now1 now2 p ids doFoundAnything)) = (if beforeActive now1 p then [Before p] else [])
         \<and> list_all (\<lambda>t. \<not> mentions ''actions.validfrom >='' t) (query (SearchActions_build env now1 now2 p ids))
         \<and> timestamps (args (SearchActions_build env now1 now2 p ids)) = (if beforeActive now1 p then [Before p] else [])
         \<and> list_all (\<lambda>t. \<not> mentions ''agents.heartbeattime >='' t) (query (SearchAgents_build env now1 now2 p ids))
         \<and> timestamps (args (SearchAgents_build env now1 now2 p ids)) = (if beforeActive now1 p then [Before p] else [])
         \<and> list_all (\<lambda>t. \<not> mentions ''investigators.lastmodified >='' t) (query (SearchInvestigators_build env now1 now2 p ids))
         \<and> timestamps (args (SearchInvestigators_build env now1 now2 p ids)) = (if beforeActive now1 p then [Before p] else []))"
proof (intro conjI impI)
  assume "\<bar>unix_nano (Before p) - (unix_nano now1 + D)\<bar> \<le> Hour"
  then have n: "\<not> beforeActive now1 p"
    by (rule not_beforeActive [OF assms])
  show "list_all (\<lambda>t. \<not> mentions ''commands.starttime <='' t) (query (SearchCommands_build env now1 now2 p ids doFoundAnything))"
    by (rule no_before_SearchCommands [OF n])
  show "timestamps (args (SearchCommands_build env now1 now2 p ids doFoundAnything)) = (if afterActive now2 p then [After p] else [])"
    by (simp add: timestamps_SearchCommands n)
  show "list_all (\<lambda>t. \<not> mentions ''actions.expireafter <='' t) (query (SearchActions_build env now1 now2 p ids))"
    by (rule no_before_SearchActions [OF n])
  show "timestamps (args (SearchActions_build env now1 now2 p ids)) = (if afterActive now2 p then [After p] else [])"
    by (simp add: timestamps_SearchActions n)
  show "list_all (\<lambda>t. \<not> mentions ''agents.heartbeattime <='' t) (query (SearchAgents_build env now1 now2 p ids))"
    by (rule no_before_SearchAgents [OF n])
  show "timestamps (args (SearchAgents_build env now1 now2 p ids)) = (if afterActive now2 p then [After p] else [])"
    by (simp add: timestamps_SearchAgents n)
  show "list_all (\<lambda>t. \<not> mentions ''investigators.lastmodified <='' t) (query (SearchInvestigators_build env now1 now2 p ids))"
    by (rule no_before_SearchInvestigators [OF n])
  show "timestamps (args (SearchInvestigators_build env now1 now2 p ids)) = (if afterActive now2 p then [After p] else [])"
    by (simp add: timestamps_SearchInvestigators n)
next
  assume "\<bar>unix_nano (After p) - (unix_nano now2 - D)\<bar> \<le> Hour"
  then have n: "\<not> afterActive now2 p"
    by (rule not_afterActive [OF assms])
  show "list_all (\<lambda>t. \<not> mentions ''commands.starttime >='' t) (query (SearchCommands_build env now1 now2 p ids doFoundAnything))"
    by (rule no_after_SearchCommands [OF n])
  show "timestamps (args (SearchCommands_build env now1 now2 p ids doFoundAnything)) = (if beforeActive now1 p then [Before p] else [])"
    by (simp add: timestamps_SearchCommands n)
  show "list_all (\<lambda>t. \<not> mentions ''actions.validfrom >='' t) (query (SearchActions_build env now1 now2 p ids))"
    by (rule no_after_SearchActions [OF n])
  show "timestamps (args (SearchActions_build env now1 now2 p ids)) = (if beforeActive now1 p then [Before p] else [])"
    by (simp add: timestamps_SearchActions n)
  show "list_all (\<lambda>t. \<not> mentions ''agents.heartbeattime >='' t) (query (SearchAgents_build env now1 now2 p ids))"
    by (rule no_after_SearchAgents [OF n])
  show "timestamps (args (SearchAgents_build env now1 now2 p ids)) = (if beforeActive now1 p then [Before p] else [])"
    by (simp add: timestamps_SearchAgents n)
  show "list_all (\<lambda>t. \<not> mentions ''investigators.lastmodified >='' t) (query (SearchInvestigators_build env now1 now2 p ids))"
    by (rule no_after_SearchInvestigators [OF n])
  show "timestamps (args (SearchInvestigators_build env now1 now2 p ids)) = (if beforeActive now1 p then [Before p] else [])"
    by (simp add: timestamps_SearchInvestigators n)
qed

theorem C5_time_window_witness:
  "defaultSearchPeriod \<le> defaultSearchPeriod
   \<and> \<bar>unix_nano (Before default_params) - (unix_nano t0 + defaultSearchPeriod)\<bar> \<le> Hour
   \<and> \<bar>unix_nano (After default_params) - (unix_nano t0 - defaultSearchPeriod)\<bar> \<le> Hour
   \<and> list_all (\<lambda>t. \<not> mentions ''commands.starttime <='' t)
         (query (SearchCommands_build test_env t0 t0 default_params default_ids True))
   \<and> list_all (\<lambda>t. \<not> mentions ''commands.starttime >='' t)
         (query (SearchCommands_build test_env t0 t0 default_params default_ids True))
   \<and> list_all (\<lambda>t. \<not> mentions ''actions.expireafter <='' t)
         (query (SearchActions_build test_env t0 t0 default_params default_ids))
   \<and> list_all (\<lambda>t. \<not> mentions ''actions.validfrom >='' t)
         (query (SearchActions_build test_env t0 t0 default_params default_ids))
   \<and> timestamps (args (SearchCommands_build test_env t0 t0 default_params default_ids True)) = []
   \<and> timestamps (args (SearchInvestigators_build test_env t0 t0 default_params default_ids)) = []"
proof -
  have d: "defaultSearchPeriod \<le> defaultSearchPeriod"
    by simp
  have b: "\<bar>unix_nano (Before default_params) - (unix_nano t0 + defaultSearchPeriod)\<bar> \<le> Hour"
    by (simp add: default_params_def NewSearchParameters_def UTC_def Add_def Hour_def)
  have a: "\<bar>unix_nano (After default_params) - (unix_nano t0 - defaultSearchPeriod)\<bar> \<le> Hour"
    by (simp add: default_params_def NewSearchParameters_def UTC_def Add_def Hour_def)
  have nb: "\<not> beforeActive t0 default_params"
    by (rule not_beforeActive [OF d b])
  have na: "\<not> afterActive t0 default_params"
    by (rule not_afterActive [OF d a])
  show ?thesis
    using C5_time_window [OF d, of default_params t0 test_env t0 default_ids True] d b a nb na
    by simp
qed

subsection \<open>The found-anything clause\<close>

lemma run_block_inactive: "\<not> bcond b \<Longrightarrow> run_block b s = s"
  by (simp add: run_block_def guarded_def)

lemma length_vals_valctr:
  "list_all wf_block bs \<Longrightarrow> length (vals (run_blocks bs init)) = valctr (run_blocks bs init)"
  by (simp add: run_blocks_vals run_blocks_valctr init_def length_vals_blocks)

lemma sentinel_action_range:
  "ActionID p = infinity \<Longrightarrow> makeIDsFromParams env p = Inr ids
     \<Longrightarrow> minActionID ids = Finite 0 \<and> maxActionID ids = Finite (2 ^ 53 - 1)"
  by (simp add: makeIDs_Inr_iff spec_range_def)

lemma foundanything_split:
  "SearchCommands_where env now1 now2 p ids True =
     run_block \<lparr>bcond = ThreatFamily p \<noteq> ''%'', bflags = [], btmpl = threat_clause,
                bvals = [VString (ThreatFamily p)], bk = 1\<rparr>
       (run_block \<lparr>bcond = True, bflags = [], btmpl = foundanything_clause,
                   bvals = [VString (StatusSuccess env), VFloat (minActionID ids),
                            VFloat (maxActionID ids), VBool (FoundAnything p)], bk = 4\<rparr>
          (SearchCommands_where env now1 now2 (p\<lparr>ThreatFamily := ''%''\<rparr>) ids False))"
  unfolding SearchCommands_where_blocks SearchCommands_blocks_def
  by (simp add: run_block_inactive beforeActive_def afterActive_def)

lemma foundanything_length:
  "length (args (SearchCommands_build env now1 now2 p ids True))
     = length (args (SearchCommands_build env now1 now2 p ids False)) + 4"
  unfolding SearchCommands_build_args run_blocks_vals
  by (simp add: SearchCommands_blocks_def)

text \<open>
  C6.  With the found-anything restriction and \<^verbatim>\<open>ActionID\<close> at its sentinel, the predicates of
  \<^verbatim>\<open>SearchCommands\<close> are those of the filters in front of the clause (the search without
  the restriction and without the threat filter), then the clause: the status equal to the
  first new placeholder, the action id between the second and the third in the subquery
  over the elements of the results, the \<open>foundanything\<close> field of an element equal to the
  fourth; then the threat predicate if that filter is set.  The four values bound for the
  clause are the success status, 0, \<open>2^53 - 1\<close> and the requested boolean, at the positions
  of these placeholders, and the query has exactly four values more than without the
  restriction.
\<close>

theorem C6_foundanything_clause:
  assumes "ActionID p = infinity" and "makeIDsFromParams env p = Inr ids"
  shows "where_text (SearchCommands_where env now1 now2 p ids True) =
           where_text (SearchCommands_where env now1 now2 (p\<lparr>ThreatFamily := ''%''\<rparr>) ids False)
           @ (if 0 < valctr (SearchCommands_where env now1 now2 (p\<lparr>ThreatFamily := ''%''\<rparr>) ids False)
              then [Lit '' AND ''] else [])
           @ [Lit ''commands.status = '',
              Slot (valctr (SearchCommands_where env now1 now2 (p\<lparr>ThreatFamily := ''%''\<rparr>) ids False) + 1),
              Lit foundanything_text1,
              Slot (valctr (SearchCommands_where env now1 now2 (p\<lparr>ThreatFamily := ''%''\<rparr>) ids False) + 2),
              Lit '' AND actions.id <= '',
              Slot (valctr (SearchCommands_where env now1 now2 (p\<lparr>ThreatFamily := ''%''\<rparr>) ids False) + 3),
              Lit foundanything_text2,
              Slot (valctr (SearchCommands_where env now1 now2 (p\<lparr>ThreatFamily := ''%''\<rparr>) ids False) + 4),
              Lit '') '']
           @ (if ThreatFamily p \<noteq> ''%''
              then Lit '' AND ''
                   # threat_clause
                       (valctr (SearchCommands_where env now1 now2 (p\<lparr>ThreatFamily := ''%''\<rparr>) ids False) + 4)
              else [])
       \<and> vals (SearchCommands_where env now1 now2 p ids True) =
           vals (SearchCommands_where env now1 now2 (p\<lparr>ThreatFamily := ''%''\<rparr>) ids False)
           @ [VString (StatusSuccess env), VFloat (Finite 0), VFloat (Finite (2 ^ 53 - 1)),
              VBool (FoundAnything p)]
           @ (if ThreatFamily p \<noteq> ''%'' then [VString (ThreatFamily p)] else [])
       \<and> length (vals (SearchCommands_where env now1 now2 (p\<lparr>ThreatFamily := ''%''\<rparr>) ids False))
           = valctr (SearchCommands_where env now1 now2 (p\<lparr>ThreatFamily := ''%''\<rparr>) ids False)
       \<and> length (args (SearchCommands_build env now1 now2 p ids True))
           = length (args (SearchCommands_build env now1 now2 p ids False)) + 4"
proof -
  let ?S = "SearchCommands_where env now1 now2 (p\<lparr>ThreatFamily := ''%''\<rparr>) ids False"
  note r = sentinel_action_range [OF assms]
  have l: "length (vals ?S) = valctr ?S"
    unfolding SearchCommands_where_blocks
    by (rule length_vals_valctr [OF wf_SearchCommands_blocks])
  have t: "where_text (SearchCommands_where env now1 now2 p ids True) =
           where_text ?S @ (if 0 < valctr ?S then [Lit '' AND ''] else [])
           @ foundanything_clause (valctr ?S)
           @ (if ThreatFamily p \<noteq> ''%'' then Lit '' AND '' # threat_clause (valctr ?S + 4) else [])"
    unfolding foundanything_split by (simp add: run_block_text run_block_valctr)
  have v: "vals (SearchCommands_where env now1 now2 p ids True) =
           vals ?S @ [VString (StatusSuccess env), VFloat (Finite 0), VFloat (Finite (2 ^ 53 - 1)),
              VBool (FoundAnything p)]
           @ (if ThreatFamily p \<noteq> ''%'' then [VString (ThreatFamily p)] else [])"
    unfolding foundanything_split by (simp add: run_block_vals r)
  show ?thesis
    using l t v foundanything_length [of env now1 now2 p ids]
    by (simp only: foundanything_clause_def simp_thms)
qed


lemma default_params_simps:
  "ActionID default_params = infinity" "ActionName default_params = ''%''"
  "AgentID default_params = infinity" "AgentName default_params = ''%''"
  "CommandID default_params = infinity" "InvestigatorID default_params = infinity"
  "InvestigatorName default_params = ''%''" "Status default_params = ''%''"
  "ThreatFamily default_params = ''%''" "FoundAnything default_params = False"
  "Limit default_params = Finite 100" "Offset default_params = Finite 0"
  "\<not> beforeActive t0 default_params" "\<not> afterActive t0 default_params"
  by (simp_all add: default_params_def NewSearchParameters_def beforeActive_def afterActive_def
        time_Before_def time_After_def UTC_def Add_def Hour_def)

lemma active_update:
  "beforeActive now (p\<lparr>ThreatFamily := x\<rparr>) = beforeActive now p"
  "afterActive now (p\<lparr>ThreatFamily := x\<rparr>) = afterActive now p"
  by (simp_all add: beforeActive_def afterActive_def)

lemma makeIDs_default: "makeIDsFromParams test_env default_params = Inr default_ids"
  by (simp add: makeIDs_closed default_params_simps default_ids_def)

theorem C6_foundanything_clause_witness:
  "ActionID default_params = infinity
   \<and> makeIDsFromParams test_env default_params = Inr default_ids
   \<and> where_text (SearchCommands_where test_env t0 t0 default_params default_ids True) =
       [Lit ''commands.status = '', Slot 1, Lit foundanything_text1, Slot 2,
        Lit '' AND actions.id <= '', Slot 3, Lit foundanything_text2, Slot 4, Lit '') '']
   \<and> vals (SearchCommands_where test_env t0 t0 default_params default_ids True) =
       [VString ''success'', VFloat (Finite 0), VFloat (Finite 9007199254740991), VBool False]"
proof -
  have a: "ActionID default_params = infinity"
    by (rule default_params_simps)
  have s: "SearchCommands_where test_env t0 t0 (default_params\<lparr>ThreatFamily := ''%''\<rparr>)
             default_ids False = init"
    unfolding SearchCommands_where_blocks SearchCommands_blocks_def
    by (simp add: run_block_inactive active_update default_params_simps)
  have e: "StatusSuccess test_env = ''success''"
    by (simp add: test_env_def)
  show ?thesis
    using C6_foundanything_clause [OF a makeIDs_default, of t0 t0, unfolded s] a makeIDs_default
    by (simp add: init_def default_params_simps e)
qed

subsection \<open>The status predicate of the actions search\<close>

lemma query_from_simps [simp]:
  "query_from (xs @ ys) = query_from xs @ query_from ys"
  "query_from (t # ts) = token_words ''FROM '' t @ query_from ts"
  "query_from [] = []"
  by (simp_all add: query_from_def)

lemma from_short:
  "words_after ''FROM '' ''SELECT '' = []"
  "words_after ''FROM '' '' FROM actions '' = [''actions'']"
  "words_after ''FROM '' '' WHERE '' = []"
  "words_after ''FROM '' '' OFFSET '' = []"
  "words_after ''FROM '' '';'' = []"
  "words_after ''FROM '' ''INNER JOIN commands ON ( commands.actionid = actions.id) '' = []"
  "words_after ''FROM '' '' INNER JOIN agents ON ( commands.agentid = agents.id ) '' = []"
  "words_after ''FROM '' join_signatures_investigators = []"
  "words_after ''FROM '' actions_columns = []"
  "words_after ''FROM '' actions_trailer = []"
  "words_after ''FROM '' threat_text = []"
  by code_simp+

lemma query_from_if:
  "query_from (if c then [Lit s] else []) = (if c then words_after ''FROM '' s else [])"
  by simp

lemma SearchActions_where_no_from:
  "query_from (where_text (run_blocks (SearchActions_blocks now1 now2 p ids) init)) = []"
  unfolding query_from_def
  by (rule no_words, rule where_all)
     (simp_all add: SearchActions_blocks_def threat_clause_def from_short)

lemma SearchActions_from:
  "query_from (query (SearchActions_build env now1 now2 p ids)) = [''actions'']"
  unfolding SearchActions_build_query
  by (simp only: query_from_simps query_from_if token_words_simps from_short
        SearchActions_where_no_from SearchActions_join_def append_Nil append_Nil2 append_Cons
        if_cancel)

lemma in_set_if: "x \<in> set (if c then xs else []) \<longleftrightarrow> c \<and> x \<in> set xs"
  by simp

lemma status_bound:
  assumes "Status p \<noteq> ''%''"
  shows "(''action.status ILIKE '', VString (Status p))
           \<in> set (zip (clause_texts (query (SearchActions_build env now1 now2 p ids)))
                        (args (SearchActions_build env now1 now2 p ids)))"
proof -
  have "zip (clause_texts (query (SearchActions_build env now1 now2 p ids)))
            (args (SearchActions_build env now1 now2 p ids))
        = SearchActions_bindings env now1 now2 p ids"
    using SearchActions_C8 [of env now1 now2 p ids] by (simp add: zip_map_fst_snd)
  then show ?thesis
    using assms by (simp add: SearchActions_bindings_def in_set_if split del: if_split)
qed

lemma singular_only_in_status:
  "list_all (\<lambda>t. mentions ''action.'' t \<longrightarrow> t = Lit ''action.status ILIKE '')
     (query (SearchActions_build env now1 now2 p ids))"
proof -
  have w: "list_all (\<lambda>t. mentions ''action.'' t \<longrightarrow> t = Lit ''action.status ILIKE '')
             (where_text (run_blocks (SearchActions_blocks now1 now2 p ids) init))"
    by (rule where_all) (simp_all add: SearchActions_blocks_def text_defs sublist_Cons_eval)
  have o: "list_all (\<lambda>t. mentions ''action.'' t \<longrightarrow> t = Lit ''action.status ILIKE '')
             (query (SearchActions_build env now1 now2 p ids))
           = list_all (\<lambda>t. mentions ''action.'' t \<longrightarrow> t = Lit ''action.status ILIKE '')
             (where_text (run_blocks (SearchActions_blocks now1 now2 p ids) init))"
    unfolding SearchActions_build_query
    by (simp add: actions_columns_def actions_trailer_def SearchActions_join_def
          join_signatures_investigators_def NL_def TAB_def sublist_Cons_eval list_all_if_Lit)
  show ?thesis
    using w o by simp
qed

lemma owners_in_set: "s \<in> set (owners q ts) \<Longrightarrow> s = q \<or> Lit s \<in> set ts"
  by (induction q ts rule: owners.induct) auto

lemma status_literal:
  assumes "Status p \<noteq> ''%''"
  shows "Lit ''action.status ILIKE '' \<in> set (query (SearchActions_build env now1 now2 p ids))"
proof -
  have "''action.status ILIKE '' \<in> set (clause_texts (query (SearchActions_build env now1 now2 p ids)))"
    using status_bound [OF assms, of env now1 now2 ids] by (rule set_zip_leftD)
  then show ?thesis
    unfolding clause_texts_def by (auto dest: owners_in_set)
qed

lemma action_not_declared: "''action'' \<notin> set (''actions'' # spec_joins_Actions p)"
  by (simp add: spec_joins_Actions_def Let_def)

lemma render_example:
  "render [Lit ''LIMIT '', Slot 12, Lit '' OFFSET '', Slot 3, Lit '';''] = ''LIMIT $12 OFFSET $3;''"
  by code_simp

lemma sublist_render: "Lit s \<in> set ts \<Longrightarrow> sublist s (render ts)"
proof -
  assume "Lit s \<in> set ts"
  then obtain xs ys where "ts = xs @ Lit s # ys"
    by (auto dest: split_list)
  then have "render ts = render xs @ s @ render ys"
    by (simp add: render_def)
  then show ?thesis
    unfolding sublist_def by blast
qed

text \<open>
  C7.  With a status filter, the query text of \<^verbatim>\<open>SearchActions\<close> has the predicate
  \<open>action.status ILIKE\<close>, which is part of the string that is prepared, with a placeholder
  bound to the status.  It is the only piece of the
  text that names a table \<open>action\<close>: the query selects from \<open>actions\<close>, joins only the tables
  of section 4.3, and no table or alias \<open>action\<close> is declared.
\<close>

theorem C7_status_alias:
  assumes "Status p \<noteq> ''%''"
  shows "Lit ''action.status ILIKE '' \<in> set (query (SearchActions_build env now1 now2 p ids))
     \<and> sublist ''action.status ILIKE '' (render (query (SearchActions_build env now1 now2 p ids)))
     \<and> (''action.status ILIKE '', VString (Status p))
           \<in> set (zip (clause_texts (query (SearchActions_build env now1 now2 p ids)))
                        (args (SearchActions_build env now1 now2 p ids)))
     \<and> list_all (\<lambda>t. mentions ''action.'' t \<longrightarrow> t = Lit ''action.status ILIKE '')
           (query (SearchActions_build env now1 now2 p ids))
     \<and> query_from (query (SearchActions_build env now1 now2 p ids)) = [''actions'']
     \<and> query_joins (query (SearchActions_build env now1 now2 p ids)) = spec_joins_Actions p
     \<and> ''action'' \<notin> set (query_from (query (SearchActions_build env now1 now2 p ids))
                          @ query_joins (query (SearchActions_build env now1 now2 p ids)))"
  using status_literal [OF assms, of env now1 now2 ids] status_bound [OF assms, of env now1 now2 ids]
    sublist_render [OF status_literal [OF assms, of env now1 now2 ids]]
    singular_only_in_status [of env now1 now2 p ids] action_not_declared [of p]
  by (simp only: SearchActions_from SearchActions_joins append_Cons append_Nil simp_thms)

lemma SearchActions_status_only:
  "where_text (run_blocks (SearchActions_blocks t0 t0 (default_params\<lparr>Status := ''failed''\<rparr>)
       default_ids) init) = [Lit ''action.status ILIKE '', Slot 1]
   \<and> valctr (run_blocks (SearchActions_blocks t0 t0 (default_params\<lparr>Status := ''failed''\<rparr>)
       default_ids) init) = 1
   \<and> vals (run_blocks (SearchActions_blocks t0 t0 (default_params\<lparr>Status := ''failed''\<rparr>)
       default_ids) init) = [VString ''failed'']
   \<and> SearchActions_join (run_blocks (SearchActions_blocks t0 t0
       (default_params\<lparr>Status := ''failed''\<rparr>) default_ids) init) = []"
proof -
  have a: "beforeActive t0 (default_params\<lparr>Status := ''failed''\<rparr>) = False"
    "afterActive t0 (default_params\<lparr>Status := ''failed''\<rparr>) = False"
    using default_params_simps by (simp_all add: beforeActive_def afterActive_def)
  show ?thesis
    unfolding SearchActions_blocks_def
    by (simp add: run_block_inactive a default_params_simps run_block_text run_block_valctr
          run_block_vals init_def SearchActions_join_def run_block_def guarded_def emit_def
          add_and_def)
qed

theorem C7_status_alias_witness:
  "Status (default_params\<lparr>Status := ''failed''\<rparr>) \<noteq> ''%''
   \<and> query (SearchActions_build test_env t0 t0 (default_params\<lparr>Status := ''failed''\<rparr>) default_ids)
       = [Lit ''SELECT '', Lit actions_columns, Lit '' FROM actions '', Lit '' WHERE '',
          Lit ''action.status ILIKE '', Slot 1, Lit actions_trailer, Slot 2, Lit '' OFFSET '',
          Slot 3, Lit '';'']
   \<and> Lit ''action.status ILIKE ''
       \<in> set (query (SearchActions_build test_env t0 t0 (default_params\<lparr>Status := ''failed''\<rparr>)
                  default_ids))
   \<and> query_from (query (SearchActions_build test_env t0 t0
         (default_params\<lparr>Status := ''failed''\<rparr>) default_ids)) = [''actions'']
   \<and> query_joins (query (SearchActions_build test_env t0 t0
         (default_params\<lparr>Status := ''failed''\<rparr>) default_ids)) = []"
proof -
  let ?p = "default_params\<lparr>Status := ''failed''\<rparr>"
  have h: "Status ?p \<noteq> ''%''"
    by simp
  have j: "spec_joins_Actions ?p = []"
    by (simp add: spec_joins_Actions_def agent_filter_def command_filter_def
          investigator_filter_def default_params_simps)
  have q: "query (SearchActions_build test_env t0 t0 ?p default_ids)
       = [Lit ''SELECT '', Lit actions_columns, Lit '' FROM actions '', Lit '' WHERE '',
          Lit ''action.status ILIKE '', Slot 1, Lit actions_trailer, Slot 2, Lit '' OFFSET '',
          Slot 3, Lit '';'']"
    unfolding SearchActions_build_query using SearchActions_status_only by simp
  show ?thesis
    using C7_status_alias [OF h, of test_env t0 t0 default_ids] h j q by simp
qed

subsection \<open>Filters at their sentinel\<close>

lemma list_ex_not_all: "(\<not> list_ex P xs) = list_all (\<lambda>x. \<not> P x) xs"
  by (simp add: list_ex_iff list_all_iff)

lemma sentinel_ActionID_SearchCommands:
  assumes "ActionID p = infinity"
  shows "list_all (\<lambda>t. mentions ''actions.id'' t \<longrightarrow> fa \<and> (t = Lit foundanything_text1 \<or> t = Lit '' AND actions.id <= '')) (where_text (SearchCommands_where env now1 now2 p ids fa))"
  unfolding SearchCommands_where_blocks
  by (rule where_all) (simp_all add: SearchCommands_blocks_def assms text_defs sublist_Cons_eval)

lemma range_unused_ActionID_SearchCommands:
  assumes "ActionID p = infinity" and "\<not> fa"
  shows "SearchCommands_build env now1 now2 p (ids\<lparr>minActionID := lo, maxActionID := hi\<rparr>) fa = SearchCommands_build env now1 now2 p ids fa"
  unfolding SearchCommands_build_def SearchCommands_where_blocks SearchCommands_blocks_def
  by (simp add: run_block_inactive assms)

lemma sentinel_ActionName_SearchCommands:
  assumes "ActionName p = ''%''"
  shows "\<not> list_ex (mentions ''actions.name'') (where_text (SearchCommands_where env now1 now2 p ids fa))"
  unfolding SearchCommands_where_blocks list_ex_not_all
  by (rule where_all) (simp_all add: SearchCommands_blocks_def assms text_defs sublist_Cons_eval)

lemma sentinel_AgentID_SearchCommands:
  assumes "AgentID p = infinity"
  shows "\<not> list_ex (mentions ''agents.id'') (where_text (SearchCommands_where env now1 now2 p ids fa))"
  unfolding SearchCommands_where_blocks list_ex_not_all
  by (rule where_all) (simp_all add: SearchCommands_blocks_def assms text_defs sublist_Cons_eval)

lemma range_unused_AgentID_SearchCommands:
  assumes "AgentID p = infinity"
  shows "SearchCommands_build env now1 now2 p (ids\<lparr>minAgentID := lo, maxAgentID := hi\<rparr>) fa = SearchCommands_build env now1 now2 p ids fa"
  unfolding SearchCommands_build_def SearchCommands_where_blocks SearchCommands_blocks_def
  by (simp add: run_block_inactive assms)

lemma sentinel_AgentName_SearchCommands:
  assumes "AgentName p = ''%''"
  shows "\<not> list_ex (mentions ''agents.name'') (where_text (SearchCommands_where env now1 now2 p ids fa))"
  unfolding SearchCommands_where_blocks list_ex_not_all
  by (rule where_all) (simp_all add: SearchCommands_blocks_def assms text_defs sublist_Cons_eval)

lemma sentinel_CommandID_SearchCommands:
  assumes "CommandID p = infinity"
  shows "list_all (\<lambda>t. mentions ''commands.id'' t \<longrightarrow> fa \<and> t = Lit foundanything_text1) (where_text (SearchCommands_where env now1 now2 p ids fa))"
  unfolding SearchCommands_where_blocks
  by (rule where_all) (simp_all add: SearchCommands_blocks_def assms text_defs sublist_Cons_eval)

lemma range_unused_CommandID_SearchCommands:
  assumes "CommandID p = infinity"
  shows "SearchCommands_build env now1 now2 p (ids\<lparr>minCommandID := lo, maxCommandID := hi\<rparr>) fa = SearchCommands_build env now1 now2 p ids fa"
  unfolding SearchCommands_build_def SearchCommands_where_blocks SearchCommands_blocks_def
  by (simp add: run_block_inactive assms)

lemma sentinel_InvestigatorID_SearchCommands:
  assumes "InvestigatorID p = infinity"
  shows "\<not> list_ex (mentions ''investigators.id'') (where_text (SearchCommands_where env now1 now2 p ids fa))"
  unfolding SearchCommands_where_blocks list_ex_not_all
  by (rule where_all) (simp_all add: SearchCommands_blocks_def assms text_defs sublist_Cons_eval)

lemma range_unused_InvestigatorID_SearchCommands:
  assumes "InvestigatorID p = infinity"
  shows "SearchCommands_build env now1 now2 p (ids\<lparr>minInvID := lo, maxInvID := hi\<rparr>) fa = SearchCommands_build env now1 now2 p ids fa"
  unfolding SearchCommands_build_def SearchCommands_where_blocks SearchCommands_blocks_def
  by (simp add: run_block_inactive assms)

lemma sentinel_InvestigatorName_SearchCommands:
  assumes "InvestigatorName p = ''%''"
  shows "\<not> list_ex (mentions ''investigators.name'') (where_text (SearchCommands_where env now1 now2 p ids fa))"
  unfolding SearchCommands_where_blocks list_ex_not_all
  by (rule where_all) (simp_all add: SearchCommands_blocks_def assms text_defs sublist_Cons_eval)

lemma sentinel_ThreatFamily_SearchCommands:
  assumes "ThreatFamily p = ''%''"
  shows "\<not> list_ex (mentions ''actions.threat'') (where_text (SearchCommands_where env now1 now2 p ids fa))"
  unfolding SearchCommands_where_blocks list_ex_not_all
  by (rule where_all) (simp_all add: SearchCommands_blocks_def assms text_defs sublist_Cons_eval)

lemma sentinel_Status_SearchCommands:
  assumes "Status p = ''%''"
  shows "list_all (\<lambda>t. mentions ''commands.status'' t \<longrightarrow> fa \<and> t = Lit ''commands.status = '') (where_text (SearchCommands_where env now1 now2 p ids fa))"
  unfolding SearchCommands_where_blocks
  by (rule where_all) (simp_all add: SearchCommands_blocks_def assms text_defs sublist_Cons_eval)

lemma sentinel_ActionID_SearchActions:
  assumes "ActionID p = infinity"
  shows "\<not> list_ex (mentions ''actions.id'') (where_text (SearchActions_where now1 now2 p ids))"
  unfolding SearchActions_where_blocks list_ex_not_all
  by (rule where_all) (simp_all add: SearchActions_blocks_def assms text_defs sublist_Cons_eval)

lemma range_unused_ActionID_SearchActions:
  assumes "ActionID p = infinity"
  shows "SearchActions_build env now1 now2 p (ids\<lparr>minActionID := lo, maxActionID := hi\<rparr>) = SearchActions_build env now1 now2 p ids"
  unfolding SearchActions_build_def SearchActions_where_blocks SearchActions_blocks_def
  by (simp add: run_block_inactive assms)

lemma sentinel_ActionName_SearchActions:
  assumes "ActionName p = ''%''"
  shows "\<not> list_ex (mentions ''actions.name'') (where_text (SearchActions_where now1 now2 p ids))"
  unfolding SearchActions_where_blocks list_ex_not_all
  by (rule where_all) (simp_all add: SearchActions_blocks_def assms text_defs sublist_Cons_eval)

lemma sentinel_AgentID_SearchActions:
  assumes "AgentID p = infinity"
  shows "\<not> list_ex (mentions ''agents.id'') (where_text (SearchActions_where now1 now2 p ids))"
  unfolding SearchActions_where_blocks list_ex_not_all
  by (rule where_all) (simp_all add: SearchActions_blocks_def assms text_defs sublist_Cons_eval)

lemma range_unused_AgentID_SearchActions:
  assumes "AgentID p = infinity"
  shows "SearchActions_build env now1 now2 p (ids\<lparr>minAgentID := lo, maxAgentID := hi\<rparr>) = SearchActions_build env now1 now2 p ids"
  unfolding SearchActions_build_def SearchActions_where_blocks SearchActions_blocks_def
  by (simp add: run_block_inactive assms)

lemma sentinel_AgentName_SearchActions:
  assumes "AgentName p = ''%''"
  shows "\<not> list_ex (mentions ''agents.name'') (where_text (SearchActions_where now1 now2 p ids))"
  unfolding SearchActions_where_blocks list_ex_not_all
  by (rule where_all) (simp_all add: SearchActions_blocks_def assms text_defs sublist_Cons_eval)

lemma sentinel_CommandID_SearchActions:
  assumes "CommandID p = infinity"
  shows "\<not> list_ex (mentions ''commands.id'') (where_text (SearchActions_where now1 now2 p ids))"
  unfolding SearchActions_where_blocks list_ex_not_all
  by (rule where_all) (simp_all add: SearchActions_blocks_def assms text_defs sublist_Cons_eval)

lemma range_unused_CommandID_SearchActions:
  assumes "CommandID p = infinity"
  shows "SearchActions_build env now1 now2 p (ids\<lparr>minCommandID := lo, maxCommandID := hi\<rparr>) = SearchActions_build env now1 now2 p ids"
  unfolding SearchActions_build_def SearchActions_where_blocks SearchActions_blocks_def
  by (simp add: run_block_inactive assms)

lemma sentinel_InvestigatorID_SearchActions:
  assumes "InvestigatorID p = infinity"
  shows "\<not> list_ex (mentions ''investigators.id'') (where_text (SearchActions_where now1 now2 p ids))"
  unfolding SearchActions_where_blocks list_ex_not_all
  by (rule where_all) (simp_all add: SearchActions_blocks_def assms text_defs sublist_Cons_eval)

lemma range_unused_InvestigatorID_SearchActions:
  assumes "InvestigatorID p = infinity"
  shows "SearchActions_build env now1 now2 p (ids\<lparr>minInvID := lo, maxInvID := hi\<rparr>) = SearchActions_build env now1 now2 p ids"
  unfolding SearchActions_build_def SearchActions_where_blocks SearchActions_blocks_def
  by (simp add: run_block_inactive assms)

lemma sentinel_InvestigatorName_SearchActions:
  assumes "InvestigatorName p = ''%''"
  shows "\<not> list_ex (mentions ''investigators.name'') (where_text (SearchActions_where now1 now2 p ids))"
  unfolding SearchActions_where_blocks list_ex_not_all
  by (rule where_all) (simp_all add: SearchActions_blocks_def assms text_defs sublist_Cons_eval)

lemma sentinel_ThreatFamily_SearchActions:
  assumes "ThreatFamily p = ''%''"
  shows "\<not> list_ex (mentions ''actions.threat'') (where_text (SearchActions_where now1 now2 p ids))"
  unfolding SearchActions_where_blocks list_ex_not_all
  by (rule where_all) (simp_all add: SearchActions_blocks_def assms text_defs sublist_Cons_eval)

lemma sentinel_Status_SearchActions:
  assumes "Status p = ''%''"
  shows "\<not> list_ex (mentions ''action.status'') (where_text (SearchActions_where now1 now2 p ids))"
  unfolding SearchActions_where_blocks list_ex_not_all
  by (rule where_all) (simp_all add: SearchActions_blocks_def assms text_defs sublist_Cons_eval)

lemma sentinel_ActionID_SearchAgents:
  assumes "ActionID p = infinity"
  shows "\<not> list_ex (mentions ''actions.id'') (where_text (SearchAgents_where now1 now2 p ids))"
  unfolding SearchAgents_where_blocks list_ex_not_all
  by (rule where_all) (simp_all add: SearchAgents_blocks_def assms text_defs sublist_Cons_eval)

lemma range_unused_ActionID_SearchAgents:
  assumes "ActionID p = infinity"
  shows "SearchAgents_build env now1 now2 p (ids\<lparr>minActionID := lo, maxActionID := hi\<rparr>) = SearchAgents_build env now1 now2 p ids"
  unfolding SearchAgents_build_def SearchAgents_where_blocks SearchAgents_blocks_def
  by (simp add: run_block_inactive assms)

lemma sentinel_ActionName_SearchAgents:
  assumes "ActionName p = ''%''"
  shows "\<not> list_ex (mentions ''actions.name'') (where_text (SearchAgents_where now1 now2 p ids))"
  unfolding SearchAgents_where_blocks list_ex_not_all
  by (rule where_all) (simp_all add: SearchAgents_blocks_def assms text_defs sublist_Cons_eval)

lemma sentinel_AgentID_SearchAgents:
  assumes "AgentID p = infinity"
  shows "\<not> list_ex (mentions ''agents.id'') (where_text (SearchAgents_where now1 now2 p ids))"
  unfolding SearchAgents_where_blocks list_ex_not_all
  by (rule where_all) (simp_all add: SearchAgents_blocks_def assms text_defs sublist_Cons_eval)

lemma range_unused_AgentID_SearchAgents:
  assumes "AgentID p = infinity"
  shows "SearchAgents_build env now1 now2 p (ids\<lparr>minAgentID := lo, maxAgentID := hi\<rparr>) = SearchAgents_build env now1 now2 p ids"
  unfolding SearchAgents_build_def SearchAgents_where_blocks SearchAgents_blocks_def
  by (simp add: run_block_inactive assms)

lemma sentinel_AgentName_SearchAgents:
  assumes "AgentName p = ''%''"
  shows "\<not> list_ex (mentions ''agents.name'') (where_text (SearchAgents_where now1 now2 p ids))"
  unfolding SearchAgents_where_blocks list_ex_not_all
  by (rule where_all) (simp_all add: SearchAgents_blocks_def assms text_defs sublist_Cons_eval)

lemma sentinel_CommandID_SearchAgents:
  assumes "CommandID p = infinity"
  shows "\<not> list_ex (mentions ''commands.id'') (where_text (SearchAgents_where now1 now2 p ids))"
  unfolding SearchAgents_where_blocks list_ex_not_all
  by (rule where_all) (simp_all add: SearchAgents_blocks_def assms text_defs sublist_Cons_eval)

lemma range_unused_CommandID_SearchAgents:
  assumes "CommandID p = infinity"
  shows "SearchAgents_build env now1 now2 p (ids\<lparr>minCommandID := lo, maxCommandID := hi\<rparr>) = SearchAgents_build env now1 now2 p ids"
  unfolding SearchAgents_build_def SearchAgents_where_blocks SearchAgents_blocks_def
  by (simp add: run_block_inactive assms)

lemma sentinel_InvestigatorID_SearchAgents:
  assumes "InvestigatorID p = infinity"
  shows "\<not> list_ex (mentions ''investigators.id'') (where_text (SearchAgents_where now1 now2 p ids))"
  unfolding SearchAgents_where_blocks list_ex_not_all
  by (rule where_all) (simp_all add: SearchAgents_blocks_def assms text_defs sublist_Cons_eval)

lemma range_unused_InvestigatorID_SearchAgents:
  assumes "InvestigatorID p = infinity"
  shows "SearchAgents_build env now1 now2 p (ids\<lparr>minInvID := lo, maxInvID := hi\<rparr>) = SearchAgents_build env now1 now2 p ids"
  unfolding SearchAgents_build_def SearchAgents_where_blocks SearchAgents_blocks_def
  by (simp add: run_block_inactive assms)

lemma sentinel_InvestigatorName_SearchAgents:
  assumes "InvestigatorName p = ''%''"
  shows "\<not> list_ex (mentions ''investigators.name'') (where_text (SearchAgents_where now1 now2 p ids))"
  unfolding SearchAgents_where_blocks list_ex_not_all
  by (rule where_all) (simp_all add: SearchAgents_blocks_def assms text_defs sublist_Cons_eval)

lemma sentinel_ThreatFamily_SearchAgents:
  assumes "ThreatFamily p = ''%''"
  shows "\<not> list_ex (mentions ''actions.threat'') (where_text (SearchAgents_where now1 now2 p ids))"
  unfolding SearchAgents_where_blocks list_ex_not_all
  by (rule where_all) (simp_all add: SearchAgents_blocks_def assms text_defs sublist_Cons_eval)

lemma sentinel_Status_SearchAgents:
  assumes "Status p = ''%''"
  shows "\<not> list_ex (mentions ''agents.status'') (where_text (SearchAgents_where now1 now2 p ids))"
  unfolding SearchAgents_where_blocks list_ex_not_all
  by (rule where_all) (simp_all add: SearchAgents_blocks_def assms text_defs sublist_Cons_eval)

lemma sentinel_ActionID_SearchInvestigators:
  assumes "ActionID p = infinity"
  shows "\<not> list_ex (mentions ''actions.id'') (where_text (SearchInvestigators_where now1 now2 p ids))"
  unfolding SearchInvestigators_where_blocks list_ex_not_all
  by (rule where_all) (simp_all add: SearchInvestigators_blocks_def assms text_defs sublist_Cons_eval)

lemma range_unused_ActionID_SearchInvestigators:
  assumes "ActionID p = infinity"
  shows "SearchInvestigators_build env now1 now2 p (ids\<lparr>minActionID := lo, maxActionID := hi\<rparr>) = SearchInvestigators_build env now1 now2 p ids"
  unfolding SearchInvestigators_build_def SearchInvestigators_where_blocks SearchInvestigators_blocks_def
  by (simp add: run_block_inactive assms)

lemma sentinel_ActionName_SearchInvestigators:
  assumes "ActionName p = ''%''"
  shows "\<not> list_ex (mentions ''actions.name'') (where_text (SearchInvestigators_where now1 now2 p ids))"
  unfolding SearchInvestigators_where_blocks list_ex_not_all
  by (rule where_all) (simp_all add: SearchInvestigators_blocks_def assms text_defs sublist_Cons_eval)

lemma sentinel_AgentID_SearchInvestigators:
  assumes "AgentID p = infinity"
  shows "\<not> list_ex (mentions ''agents.id'') (where_text (SearchInvestigators_where now1 now2 p ids))"
  unfolding SearchInvestigators_where_blocks list_ex_not_all
  by (rule where_all) (simp_all add: SearchInvestigators_blocks_def assms text_defs sublist_Cons_eval)

lemma range_unused_AgentID_SearchInvestigators:
  assumes "AgentID p = infinity"
  shows "SearchInvestigators_build env now1 now2 p (ids\<lparr>minAgentID := lo, maxAgentID := hi\<rparr>) = SearchInvestigators_build env now1 now2 p ids"
  unfolding SearchInvestigators_build_def SearchInvestigators_where_blocks SearchInvestigators_blocks_def
  by (simp add: run_block_inactive assms)

lemma sentinel_AgentName_SearchInvestigators:
  assumes "AgentName p = ''%''"
  shows "\<not> list_ex (mentions ''agents.name'') (where_text (SearchInvestigators_where now1 now2 p ids))"
  unfolding SearchInvestigators_where_blocks list_ex_not_all
  by (rule where_all) (simp_all add: SearchInvestigators_blocks_def assms text_defs sublist_Cons_eval)

lemma sentinel_CommandID_SearchInvestigators:
  assumes "CommandID p = infinity"
  shows "\<not> list_ex (mentions ''commands.id'') (where_text (SearchInvestigators_where now1 now2 p ids))"
  unfolding SearchInvestigators_where_blocks list_ex_not_all
  by (rule where_all) (simp_all add: SearchInvestigators_blocks_def assms text_defs sublist_Cons_eval)

lemma range_unused_CommandID_SearchInvestigators:
  assumes "CommandID p = infinity"
  shows "SearchInvestigators_build env now1 now2 p (ids\<lparr>minCommandID := lo, maxCommandID := hi\<rparr>) = SearchInvestigators_build env now1 now2 p ids"
  unfolding SearchInvestigators_build_def SearchInvestigators_where_blocks SearchInvestigators_blocks_def
  by (simp add: run_block_inactive assms)

lemma sentinel_InvestigatorID_SearchInvestigators:
  assumes "InvestigatorID p = infinity"
  shows "\<not> list_ex (mentions ''investigators.id'') (where_text (SearchInvestigators_where now1 now2 p ids))"
  unfolding SearchInvestigators_where_blocks list_ex_not_all
  by (rule where_all) (simp_all add: SearchInvestigators_blocks_def assms text_defs sublist_Cons_eval)

lemma range_unused_InvestigatorID_SearchInvestigators:
  assumes "InvestigatorID p = infinity"
  shows "SearchInvestigators_build env now1 now2 p (ids\<lparr>minInvID := lo, maxInvID := hi\<rparr>) = SearchInvestigators_build env now1 now2 p ids"
  unfolding SearchInvestigators_build_def SearchInvestigators_where_blocks SearchInvestigators_blocks_def
  by (simp add: run_block_inactive assms)

lemma sentinel_InvestigatorName_SearchInvestigators:
  assumes "InvestigatorName p = ''%''"
  shows "\<not> list_ex (mentions ''investigators.name'') (where_text (SearchInvestigators_where now1 now2 p ids))"
  unfolding SearchInvestigators_where_blocks list_ex_not_all
  by (rule where_all) (simp_all add: SearchInvestigators_blocks_def assms text_defs sublist_Cons_eval)

lemma sentinel_ThreatFamily_SearchInvestigators:
  assumes "ThreatFamily p = ''%''"
  shows "\<not> list_ex (mentions ''actions.threat'') (where_text (SearchInvestigators_where now1 now2 p ids))"
  unfolding SearchInvestigators_where_blocks list_ex_not_all
  by (rule where_all) (simp_all add: SearchInvestigators_blocks_def assms text_defs sublist_Cons_eval)

lemma sentinel_Status_SearchInvestigators:
  assumes "Status p = ''%''"
  shows "\<not> list_ex (mentions ''investigators.status'') (where_text (SearchInvestigators_where now1 now2 p ids))"
  unfolding SearchInvestigators_where_blocks list_ex_not_all
  by (rule where_all) (simp_all add: SearchInvestigators_blocks_def assms text_defs sublist_Cons_eval)

lemma percent_unbound_SearchCommands:
  assumes "fa \<longrightarrow> StatusSuccess env \<noteq> ''%''"
  shows "VString ''%'' \<notin> set (args (SearchCommands_build env now1 now2 p ids fa))"
  unfolding SearchCommands_build_args run_blocks_vals
  using assms by (auto simp add: SearchCommands_blocks_def in_set_if init_def split del: if_split)

lemma percent_unbound_SearchActions:
  shows "VString ''%'' \<notin> set (args (SearchActions_build env now1 now2 p ids))"
  unfolding SearchActions_build_args run_blocks_vals
  by (auto simp add: SearchActions_blocks_def in_set_if init_def split del: if_split)

lemma percent_unbound_SearchAgents:
  shows "VString ''%'' \<notin> set (args (SearchAgents_build env now1 now2 p ids))"
  unfolding SearchAgents_build_args run_blocks_vals
  by (auto simp add: SearchAgents_blocks_def in_set_if init_def split del: if_split)

lemma percent_unbound_SearchInvestigators:
  shows "VString ''%'' \<notin> set (args (SearchInvestigators_build env now1 now2 p ids))"
  unfolding SearchInvestigators_build_args run_blocks_vals
  by (auto simp add: SearchInvestigators_blocks_def in_set_if init_def split del: if_split)


text \<open>
  C4, as the code has it.  In \<^verbatim>\<open>SearchActions\<close>, \<^verbatim>\<open>SearchAgents\<close> and
  \<^verbatim>\<open>SearchInvestigators\<close>, and in \<^verbatim>\<open>SearchCommands\<close> without the found-anything
  restriction: when a filter is at its sentinel, no piece of the predicate text mentions the
  column of that filter, the built query does not depend on the range resolved for it, and
  the pattern sentinel \<open>%\<close> is never a bound value.  With the restriction, \<^verbatim>\<open>SearchCommands\<close>
  adds the found-anything clause, which names \<open>commands.status\<close>, \<open>commands.id\<close> and
  \<open>actions.id\<close> and binds the resolved action range: then the pieces of that clause are the
  only ones that mention the columns of \<^verbatim>\<open>Status\<close>, \<^verbatim>\<open>CommandID\<close> and \<^verbatim>\<open>ActionID\<close> at
  their sentinel.
\<close>

theorem C4_sentinel_filters:
  "(ActionID p = infinity \<longrightarrow>
        list_all (\<lambda>t. mentions ''actions.id'' t \<longrightarrow> doFoundAnything \<and> (t = Lit foundanything_text1 \<or> t = Lit '' AND actions.id <= ''))
          (where_text (SearchCommands_where env now1 now2 p ids doFoundAnything))
      \<and> (\<not> doFoundAnything \<longrightarrow>
        SearchCommands_build env now1 now2 p (ids\<lparr>minActionID := lo, maxActionID := hi\<rparr>) doFoundAnything
          = SearchCommands_build env now1 now2 p ids doFoundAnything))
   \<and> (ActionName p = ''%'' \<longrightarrow>
        \<not> list_ex (mentions ''actions.name'') (where_text (SearchCommands_where env now1 now2 p ids doFoundAnything)))
   \<and> (AgentID p = infinity \<longrightarrow>
        \<not> list_ex (mentions ''agents.id'') (where_text (SearchCommands_where env now1 now2 p ids doFoundAnything))
      \<and> SearchCommands_build env now1 now2 p (ids\<lparr>minAgentID := lo, maxAgentID := hi\<rparr>) doFoundAnything
          = SearchCommands_build env now1 now2 p ids doFoundAnything)
   \<and> (AgentName p = ''%'' \<longrightarrow>
        \<not> list_ex (mentions ''agents.name'') (where_text (SearchCommands_where env now1 now2 p ids doFoundAnything)))
   \<and> (CommandID p = infinity \<longrightarrow>
        list_all (\<lambda>t. mentions ''commands.id'' t \<longrightarrow> doFoundAnything \<and> t = Lit foundanything_text1)
          (where_text (SearchCommands_where env now1 now2 p ids doFoundAnything))
      \<and> SearchCommands_build env now1 now2 p (ids\<lparr>minCommandID := lo, maxCommandID := hi\<rparr>) doFoundAnything
          = SearchCommands_build env now1 now2 p ids doFoundAnything)
   \<and> (InvestigatorID p = infinity \<longrightarrow>
        \<not> list_ex (mentions ''investigators.id'') (where_text (SearchCommands_where env now1 now2 p ids doFoundAnything))
      \<and> SearchCommands_build env now1 now2 p (ids\<lparr>minInvID := lo, maxInvID := hi\<rparr>) doFoundAnything
          = SearchCommands_build env now1 now2 p ids doFoundAnything)
   \<and> (InvestigatorName p = ''%'' \<longrightarrow>
        \<not> list_ex (mentions ''investigators.name'') (where_text (SearchCommands_where env now1 now2 p ids doFoundAnything)))
   \<and> (ThreatFamily p = ''%'' \<longrightarrow>
        \<not> list_ex (mentions ''actions.threat'') (where_text (SearchCommands_where env now1 now2 p ids doFoundAnything)))
   \<and> (Status p = ''%'' \<longrightarrow>
        list_all (\<lambda>t. mentions ''commands.status'' t \<longrightarrow> doFoundAnything \<and> t = Lit ''commands.status = '')
          (where_text (SearchCommands_where env now1 now2 p ids doFoundAnything)))
   \<and> ((doFoundAnything \<longrightarrow> StatusSuccess env \<noteq> ''%'') \<longrightarrow>
        VString ''%'' \<notin> set (args (SearchCommands_build env now1 now2 p ids doFoundAnything)))
   \<and> (ActionID p = infinity \<longrightarrow>
        \<not> list_ex (mentions ''actions.id'') (where_text (SearchActions_where now1 now2 p ids))
      \<and> SearchActions_build env now1 now2 p (ids\<lparr>minActionID := lo, maxActionID := hi\<rparr>)
          = SearchActions_build env now1 now2 p ids)
   \<and> (ActionName p = ''%'' \<longrightarrow>
        \<not> list_ex (mentions ''actions.name'') (where_text (SearchActions_where now1 now2 p ids)))
   \<and> (AgentID p = infinity \<longrightarrow>
        \<not> list_ex (mentions ''agents.id'') (where_text (SearchActions_where now1 now2 p ids))
      \<and> SearchActions_build env now1 now2 p (ids\<lparr>minAgentID := lo, maxAgentID := hi\<rparr>)
          = SearchActions_build env now1 now2 p ids)
   \<and> (AgentName p = ''%'' \<longrightarrow>
        \<not> list_ex (mentions ''agents.name'') (where_text (SearchActions_where now1 now2 p ids)))
   \<and> (CommandID p = infinity \<longrightarrow>
        \<not> list_ex (mentions ''commands.id'') (where_text (SearchActions_where now1 now2 p ids))
      \<and> SearchActions_build env now1 now2 p (ids\<lparr>minCommandID := lo, maxCommandID := hi\<rparr>)
          = SearchActions_build env now1 now2 p ids)
   \<and> (InvestigatorID p = infinity \<longrightarrow>
        \<not> list_ex (mentions ''investigators.id'') (where_text (SearchActions_where now1 now2 p ids))
      \<and> SearchActions_build env now1 now2 p (ids\<lparr>minInvID := lo, maxInvID := hi\<rparr>)
          = SearchActions_build env now1 now2 p ids)
   \<and> (InvestigatorName p = ''%'' \<longrightarrow>
        \<not> list_ex (mentions ''investigators.name'') (where_text (SearchActions_where now1 now2 p ids)))
   \<and> (ThreatFamily p = ''%'' \<longrightarrow>
        \<not> list_ex (mentions ''actions.threat'') (where_text (SearchActions_where now1 now2 p ids)))
   \<and> (Status p = ''%'' \<longrightarrow>
        \<not> list_ex (mentions ''action.status'') (where_text (SearchActions_where now1 now2 p ids)))
   \<and> VString ''%'' \<notin> set (args (SearchActions_build env now1 now2 p ids))
   \<and> (ActionID p = infinity \<longrightarrow>
        \<not> list_ex (mentions ''actions.id'') (where_text (SearchAgents_where now1 now2 p ids))
      \<and> SearchAgents_build env now1 now2 p (ids\<lparr>minActionID := lo, maxActionID := hi\<rparr>)
          = SearchAgents_build env now1 now2 p ids)
   \<and> (ActionName p = ''%'' \<longrightarrow>
        \<not> list_ex (mentions ''actions.name'') (where_text (SearchAgents_where now1 now2 p ids)))
   \<and> (AgentID p = infinity \<longrightarrow>
        \<not> list_ex (mentions ''agents.id'') (where_text (SearchAgents_where now1 now2 p ids))
      \<and> SearchAgents_build env now1 now2 p (ids\<lparr>minAgentID := lo, maxAgentID := hi\<rparr>)
          = SearchAgents_build env now1 now2 p ids)
   \<and> (AgentName p = ''%'' \<longrightarrow>
        \<not> list_ex (mentions ''agents.name'') (where_text (SearchAgents_where now1 now2 p ids)))
   \<and> (CommandID p = infinity \<longrightarrow>
        \<not> list_ex (mentions ''commands.id'') (where_text (SearchAgents_where now1 now2 p ids))
      \<and> SearchAgents_build env now1 now2 p (ids\<lparr>minCommandID := lo, maxCommandID := hi\<rparr>)
          = SearchAgents_build env now1 now2 p ids)
   \<and> (InvestigatorID p = infinity \<longrightarrow>
        \<not> list_ex (mentions ''investigators.id'') (where_text (SearchAgents_where now1 now2 p ids))
      \<and> SearchAgents_build env now1 now2 p (ids\<lparr>minInvID := lo, maxInvID := hi\<rparr>)
          = SearchAgents_build env now1 now2 p ids)
   \<and> (InvestigatorName p = ''%'' \<longrightarrow>
        \<not> list_ex (mentions ''investigators.name'') (where_text (SearchAgents_where now1 now2 p ids)))
   \<and> (ThreatFamily p = ''%'' \<longrightarrow>
        \<not> list_ex (mentions ''actions.threat'') (where_text (SearchAgents_where now1 now2 p ids)))
   \<and> (Status p = ''%'' \<longrightarrow>
        \<not> list_ex (mentions ''agents.status'') (where_text (SearchAgents_where now1 now2 p ids)))
   \<and> VString ''%'' \<notin> set (args (SearchAgents_build env now1 now2 p ids))
   \<and> (ActionID p = infinity \<longrightarrow>
        \<not> list_ex (mentions ''actions.id'') (where_text (SearchInvestigators_where now1 now2 p ids))
      \<and> SearchInvestigators_build env now1 now2 p (ids\<lparr>minActionID := lo, maxActionID := hi\<rparr>)
          = SearchInvestigators_build env now1 now2 p ids)
   \<and> (ActionName p = ''%'' \<longrightarrow>
        \<not> list_ex (mentions ''actions.name'') (where_text (SearchInvestigators_where now1 now2 p ids)))
   \<and> (AgentID p = infinity \<longrightarrow>
        \<not> list_ex (mentions ''agents.id'') (where_text (SearchInvestigators_where now1 now2 p ids))
      \<and> SearchInvestigators_build env now1 now2 p (ids\<lparr>minAgentID := lo, maxAgentID := hi\<rparr>)
          = SearchInvestigators_build env now1 now2 p ids)
   \<and> (AgentName p = ''%'' \<longrightarrow>
        \<not> list_ex (mentions ''agents.name'') (where_text (SearchInvestigators_where now1 now2 p ids)))
   \<and> (CommandID p = infinity \<longrightarrow>
        \<not> list_ex (mentions ''commands.id'') (where_text (SearchInvestigators_where now1 now2 p ids))
      \<and> SearchInvestigators_build env now1 now2 p (ids\<lparr>minCommandID := lo, maxCommandID := hi\<rparr>)
          = SearchInvestigators_build env now1 now2 p ids)
   \<and> (InvestigatorID p = infinity \<longrightarrow>
        \<not> list_ex (mentions ''investigators.id'') (where_text (SearchInvestigators_where now1 now2 p ids))
      \<and> SearchInvestigators_build env now1 now2 p (ids\<lparr>minInvID := lo, maxInvID := hi\<rparr>)
          = SearchInvestigators_build env now1 now2 p ids)
   \<and> (InvestigatorName p = ''%'' \<longrightarrow>
        \<not> list_ex (mentions ''investigators.name'') (where_text (SearchInvestigators_where now1 now2 p ids)))
   \<and> (ThreatFamily p = ''%'' \<longrightarrow>
        \<not> list_ex (mentions ''actions.threat'') (where_text (SearchInvestigators_where now1 now2 p ids)))
   \<and> (Status p = ''%'' \<longrightarrow>
        \<not> list_ex (mentions ''investigators.status'') (where_text (SearchInvestigators_where now1 now2 p ids)))
   \<and> VString ''%'' \<notin> set (args (SearchInvestigators_build env now1 now2 p ids))"
  apply (intro conjI impI)
   apply (rule sentinel_ActionID_SearchCommands, assumption)
   apply (rule range_unused_ActionID_SearchCommands, assumption, assumption)
   apply (rule sentinel_ActionName_SearchCommands, assumption)
   apply (rule sentinel_AgentID_SearchCommands, assumption)
   apply (rule range_unused_AgentID_SearchCommands, assumption)
   apply (rule sentinel_AgentName_SearchCommands, assumption)
   apply (rule sentinel_CommandID_SearchCommands, assumption)
   apply (rule range_unused_CommandID_SearchCommands, assumption)
   apply (rule sentinel_InvestigatorID_SearchCommands, assumption)
   apply (rule range_unused_InvestigatorID_SearchCommands, assumption)
   apply (rule sentinel_InvestigatorName_SearchCommands, assumption)
   apply (rule sentinel_ThreatFamily_SearchCommands, assumption)
   apply (rule sentinel_Status_SearchCommands, assumption)
   apply (rule percent_unbound_SearchCommands, assumption)
   apply (rule sentinel_ActionID_SearchActions, assumption)
   apply (rule range_unused_ActionID_SearchActions, assumption)
   apply (rule sentinel_ActionName_SearchActions, assumption)
   apply (rule sentinel_AgentID_SearchActions, assumption)
   apply (rule range_unused_AgentID_SearchActions, assumption)
   apply (rule sentinel_AgentName_SearchActions, assumption)
   apply (rule sentinel_CommandID_SearchActions, assumption)
   apply (rule range_unused_CommandID_SearchActions, assumption)
   apply (rule sentinel_InvestigatorID_SearchActions, assumption)
   apply (rule range_unused_InvestigatorID_SearchActions, assumption)
   apply (rule sentinel_InvestigatorName_SearchActions, assumption)
   apply (rule sentinel_ThreatFamily_SearchActions, assumption)
   apply (rule sentinel_Status_SearchActions, assumption)
   apply (rule percent_unbound_SearchActions)
   apply (rule sentinel_ActionID_SearchAgents, assumption)
   apply (rule range_unused_ActionID_SearchAgents, assumption)
   apply (rule sentinel_ActionName_SearchAgents, assumption)
   apply (rule sentinel_AgentID_SearchAgents, assumption)
   apply (rule range_unused_AgentID_SearchAgents, assumption)
   apply (rule sentinel_AgentName_SearchAgents, assumption)
   apply (rule sentinel_CommandID_SearchAgents, assumption)
   apply (rule range_unused_CommandID_SearchAgents, assumption)
   apply (rule sentinel_InvestigatorID_SearchAgents, assumption)
   apply (rule range_unused_InvestigatorID_SearchAgents, assumption)
   apply (rule sentinel_InvestigatorName_SearchAgents, assumption)
   apply (rule sentinel_ThreatFamily_SearchAgents, assumption)
   apply (rule sentinel_Status_SearchAgents, assumption)
   apply (rule percent_unbound_SearchAgents)
   apply (rule sentinel_ActionID_SearchInvestigators, assumption)
   apply (rule range_unused_ActionID_SearchInvestigators, assumption)
   apply (rule sentinel_ActionName_SearchInvestigators, assumption)
   apply (rule sentinel_AgentID_SearchInvestigators, assumption)
   apply (rule range_unused_AgentID_SearchInvestigators, assumption)
   apply (rule sentinel_AgentName_SearchInvestigators, assumption)
   apply (rule sentinel_CommandID_SearchInvestigators, assumption)
   apply (rule range_unused_CommandID_SearchInvestigators, assumption)
   apply (rule sentinel_InvestigatorID_SearchInvestigators, assumption)
   apply (rule range_unused_InvestigatorID_SearchInvestigators, assumption)
   apply (rule sentinel_InvestigatorName_SearchInvestigators, assumption)
   apply (rule sentinel_ThreatFamily_SearchInvestigators, assumption)
   apply (rule sentinel_Status_SearchInvestigators, assumption)
  apply (rule percent_unbound_SearchInvestigators)
  done

text \<open>
  The claim as it is written fails for \<^verbatim>\<open>SearchCommands\<close> with the found-anything
  restriction: with every filter at its sentinel, the predicate text names \<open>commands.status\<close>
  and \<open>actions.id\<close>, and the range resolved for the sentinel of \<^verbatim>\<open>ActionID\<close> is bound.
\<close>

theorem C4_sentinel_filters_counterexample:
  "ActionID default_params = infinity \<and> Status default_params = ''%''
   \<and> makeIDsFromParams test_env default_params = Inr default_ids
   \<and> list_ex (mentions ''actions.id'')
         (where_text (SearchCommands_where test_env t0 t0 default_params default_ids True))
   \<and> list_ex (mentions ''commands.status'')
         (where_text (SearchCommands_where test_env t0 t0 default_params default_ids True))
   \<and> args (SearchCommands_build test_env t0 t0 default_params default_ids True)
       = [VString ''success'', VFloat (minActionID default_ids), VFloat (maxActionID default_ids),
          VBool False, VUint64 100, VUint64 0]
   \<and> minActionID default_ids = Finite 0 \<and> maxActionID default_ids = Finite 9007199254740991"
proof -
  have w: "where_text (SearchCommands_where test_env t0 t0 default_params default_ids True) =
       [Lit ''commands.status = '', Slot 1, Lit foundanything_text1, Slot 2,
        Lit '' AND actions.id <= '', Slot 3, Lit foundanything_text2, Slot 4, Lit '') '']"
    and v: "vals (SearchCommands_where test_env t0 t0 default_params default_ids True) =
       [VString ''success'', VFloat (Finite 0), VFloat (Finite 9007199254740991), VBool False]"
    unfolding SearchCommands_where_blocks SearchCommands_blocks_def
    by (simp_all add: run_block_inactive default_params_simps run_block_text run_block_vals
          run_block_valctr init_def foundanything_clause_def default_ids_def MAXFLOAT64_def
          test_env_def)
  have l: "limit_offset test_env default_params = [VUint64 100, VUint64 0]"
    by (simp add: limit_offset_def default_params_simps test_env_def)
  have i: "minActionID default_ids = Finite 0 \<and> maxActionID default_ids = Finite 9007199254740991"
    by (simp add: default_ids_def MAXFLOAT64_def)
  show ?thesis
    by (simp add: w v l i SearchCommands_build_def Let_def default_params_simps makeIDs_default
          sublist_Cons_eval)
qed

theorem C4_sentinel_filters_witness:
  "AgentID default_params = infinity \<and> ActionID default_params = infinity
   \<and> Status default_params = ''%''
   \<and> \<not> list_ex (mentions ''agents.id'')
         (where_text (SearchCommands_where test_env t0 t0 default_params default_ids True))
   \<and> \<not> list_ex (mentions ''actions.id'')
         (where_text (SearchActions_where t0 t0 default_params default_ids))
   \<and> \<not> list_ex (mentions ''investigators.status'')
         (where_text (SearchInvestigators_where t0 t0 default_params default_ids))
   \<and> SearchAgents_build test_env t0 t0 default_params
         (default_ids\<lparr>minAgentID := Finite 7, maxAgentID := Finite 8\<rparr>)
       = SearchAgents_build test_env t0 t0 default_params default_ids
   \<and> VString ''%'' \<notin> set (args (SearchCommands_build test_env t0 t0 default_params default_ids True))"
proof -
  have e: "True \<longrightarrow> StatusSuccess test_env \<noteq> ''%''"
    by (simp add: test_env_def)
  show ?thesis
    using C4_sentinel_filters [where p = default_params and doFoundAnything = True
        and env = test_env and ?now1.0 = t0 and ?now2.0 = t0 and ids = default_ids
        and lo = "Finite 7" and hi = "Finite 8"]
      e default_params_simps
    by simp
qed

subsection \<open>Two scenarios of the specification\<close>

text \<open>
  An actions search for the action 42 binds 42 twice, then limit and offset; an agents search
  with only the action name set joins commands and actions.
\<close>

lemma updated_params_simps:
  "beforeActive now (p\<lparr>ActionID := x\<rparr>) = beforeActive now p"
  "afterActive now (p\<lparr>ActionID := x\<rparr>) = afterActive now p"
  "beforeActive now (p\<lparr>ActionName := x\<rparr>) = beforeActive now p"
  "afterActive now (p\<lparr>ActionName := x\<rparr>) = afterActive now p"
  by (simp_all add: beforeActive_def afterActive_def)

theorem C8_placeholders_and_values_witness:
  "makeIDsFromParams test_env (default_params\<lparr>ActionID := ''42''\<rparr>)
     = Inr (default_ids\<lparr>minActionID := Finite 42, maxActionID := Finite 42\<rparr>)
   \<and> placeholders (query (SearchActions_build test_env t0 t0 (default_params\<lparr>ActionID := ''42''\<rparr>)
         (default_ids\<lparr>minActionID := Finite 42, maxActionID := Finite 42\<rparr>))) = [1, 2, 3, 4]
   \<and> clause_texts (query (SearchActions_build test_env t0 t0 (default_params\<lparr>ActionID := ''42''\<rparr>)
         (default_ids\<lparr>minActionID := Finite 42, maxActionID := Finite 42\<rparr>)))
       = [''actions.id >= '', '' AND actions.id <= '', actions_trailer, '' OFFSET '']
   \<and> args (SearchActions_build test_env t0 t0 (default_params\<lparr>ActionID := ''42''\<rparr>)
         (default_ids\<lparr>minActionID := Finite 42, maxActionID := Finite 42\<rparr>))
       = [VFloat (Finite 42), VFloat (Finite 42), VUint64 100, VUint64 0]"
proof -
  let ?p = "default_params\<lparr>ActionID := ''42''\<rparr>"
  let ?ids = "default_ids\<lparr>minActionID := Finite 42, maxActionID := Finite 42\<rparr>"
  have m: "makeIDsFromParams test_env ?p = Inr ?ids"
    by (simp add: makeIDs_closed default_params_simps default_ids_def test_env_def)
  have b: "SearchActions_bindings test_env t0 t0 ?p ?ids =
      [(''actions.id >= '', VFloat (Finite 42)), ('' AND actions.id <= '', VFloat (Finite 42)),
       (actions_trailer, VUint64 100), ('' OFFSET '', VUint64 0)]"
    by (simp add: SearchActions_bindings_def default_params_simps updated_params_simps
          default_ids_def test_env_def)
  have u: "[1 ..< 5] = [1, 2, 3, 4 :: nat]"
    by (simp add: upt_conv_Cons)
  show ?thesis
    using C8_placeholders_and_values [of test_env t0 t0 ?p ?ids True] m u
    by (simp add: b)
qed

theorem C1_joined_tables_witness:
  "query_joins (query (SearchAgents_build test_env t0 t0
       (default_params\<lparr>ActionName := ''phish%''\<rparr>) default_ids)) = [''commands'', ''actions'']
   \<and> query_joins (query (SearchCommands_build test_env t0 t0
       (default_params\<lparr>ActionName := ''phish%''\<rparr>) default_ids False))
       = [''actions'', ''signatures'', ''investigators'', ''agents'']"
proof -
  have j: "spec_joins_Agents (default_params\<lparr>ActionName := ''phish%''\<rparr>) = [''commands'', ''actions'']"
    by (simp add: spec_joins_Agents_def action_filter_def investigator_filter_def
          command_filter_def default_params_simps)
  show ?thesis
    using C1_joined_tables [of test_env t0 t0 "default_params\<lparr>ActionName := ''phish%''\<rparr>"
        default_ids False] j
    by simp
qed

end
